theory Spec2Isabelle
  imports Main "HOL-Library.AList"
begin

section \<open>JavaScript values and arrays\<close>

text \<open>
  Thrown values are kept as the message of the \<open>Error\<close>. A \<open>TypeError\<close> is what the
  runtime raises when a property of \<open>undefined\<close> is read or a non-function is called.
\<close>

datatype exn = Error string | TypeError

text \<open>
  \<open>Array.prototype.splice(start, deleteCount)\<close> with nothing inserted: a negative
  \<open>start\<close> counts from the end, a \<open>start\<close> beyond the length is the length, and
  \<open>deleteCount\<close> is clamped to what is left. The model returns the array after the call.
\<close>

definition splice_start :: "int \<Rightarrow> 'a list \<Rightarrow> nat" where
  "splice_start start xs =
     (let len = int (length xs)
      in nat (if start < 0 then max (len + start) 0 else min start len))"

definition splice_delete :: "int \<Rightarrow> int \<Rightarrow> 'a list \<Rightarrow> 'a list" where
  "splice_delete start deleteCount xs =
     (let s = splice_start start xs;
          d = nat (min (max deleteCount 0) (int (length xs) - int s))
      in take s xs @ drop (s + d) xs)"

text \<open>\<open>splice(start, 0, item)\<close>: insert one item, delete nothing.\<close>

definition splice_insert :: "int \<Rightarrow> 'a \<Rightarrow> 'a list \<Rightarrow> 'a list" where
  "splice_insert start item xs =
     (let s = splice_start start xs in take s xs @ item # drop s xs)"

text \<open>Reading \<open>xs[i]\<close>: \<open>undefined\<close> (here \<open>None\<close>) outside the array.\<close>

definition js_index :: "'a list \<Rightarrow> int \<Rightarrow> 'a option" where
  "js_index xs i = (if 0 \<le> i \<and> i < int (length xs) then Some (xs ! nat i) else None)"


section \<open>The undo ledger of IPCServer\<close>

text \<open>
  \<open>'s\<close> is everything a command can touch (storage, session, project), \<open>'a\<close> the
  argument array of a call and \<open>'r\<close> the plain results. A closure stored as \<open>undo\<close>
  runs on the state and either returns or throws; in both cases the state it leaves
  behind is kept, since the source mutates in place.
\<close>

type_synonym 's UndoFunction = "'s \<Rightarrow> exn option \<times> 's"

text \<open>
  What an IPC method gives back: an \<open>UndoableResult\<close> with its description, its \<open>undo\<close>
  and its result (the values \<open>isUndoable\<close> accepts), \<open>undefined\<close>, or some other value,
  which has no \<open>undo\<close> property.
\<close>

datatype ('s, 'r) method_result =
    Undoable string "'s UndoFunction" "'r option"
  | Undefined
  | Plain 'r

type_synonym ('s, 'a, 'r) UndoableFunction =
  "'a \<Rightarrow> 's \<Rightarrow> (exn + ('s, 'r) method_result) \<times> 's"

text \<open>
  An entry of the ledger. \<open>undo\<close> can be missing: \<open>redo()\<close> stores whatever the \<open>undo\<close>
  property of the new result is.
\<close>

record ('s, 'a, 'r) Action =
  description :: string
  arguments :: 'a
  redo :: "('s, 'a, 'r) UndoableFunction"
  undo :: "'s UndoFunction option"

record ('s, 'a, 'r) IPCServer =
  undoLedger :: "('s, 'a, 'r) Action list"
  undoPointer :: int
  world :: 's

text \<open>
  The handler the constructor registers for every public method (lines 146 to 178).
  \<open>max_len\<close> is \<open>MAX_UNDO_LEDGER_LENGTH\<close>, a constant of \<open>ipc/IPCAPI\<close>. The first
  component is what the caller of the IPC method receives: the thrown error, or the
  result (\<open>None\<close> for \<open>undefined\<close>). Telling the listeners of \<open>updatedUndoLedger\<close> changes
  nothing here and is left out.
\<close>

definition ipc_handle ::
  "int \<Rightarrow> ('s, 'a, 'r) UndoableFunction \<Rightarrow> 'a \<Rightarrow> ('s, 'a, 'r) IPCServer
     \<Rightarrow> (exn + 'r option) \<times> ('s, 'a, 'r) IPCServer" where
  "ipc_handle max_len fcn args srv =
     (case fcn args (world srv) of
        (Inl e, w) \<Rightarrow> (Inl e, srv\<lparr>world := w\<rparr>)
      | (Inr (Undoable d u r), w) \<Rightarrow>
          (let l1 = splice_delete (undoPointer srv + 1) (int (length (undoLedger srv)))
                      (undoLedger srv);
               l2 = l1 @ [\<lparr>description = d, arguments = args, redo = fcn, undo = Some u\<rparr>];
               l3 = (if int (length l2) > max_len
                     then splice_delete 0 (int (length l2) - max_len) l2 else l2)
           in (Inr r, srv\<lparr>undoLedger := l3, undoPointer := int (length l3) - 1, world := w\<rparr>))
      | (Inr Undefined, w) \<Rightarrow> (Inr None, srv\<lparr>world := w\<rparr>)
      | (Inr (Plain r), w) \<Rightarrow> (Inr (Some r), srv\<lparr>world := w\<rparr>))"

text \<open>The \<open>catch\<close> block of \<open>undo()\<close> and \<open>redo()\<close>: log, empty the ledger, reset the pointer.\<close>

definition clear_ledger :: "('s, 'a, 'r) IPCServer \<Rightarrow> ('s, 'a, 'r) IPCServer" where
  "clear_ledger srv =
     srv\<lparr>undoLedger := splice_delete 0 (int (length (undoLedger srv))) (undoLedger srv),
         undoPointer := - 1\<rparr>"

text \<open>
  \<open>try { body } catch { handler }\<close>: an exception of the body is consumed by the
  handler, which runs on the state the body left.
\<close>

definition try_catch :: "exn option \<times> 'x \<Rightarrow> ('x \<Rightarrow> 'x) \<Rightarrow> exn option \<times> 'x" where
  "try_catch body handler =
     (case body of (None, x) \<Rightarrow> (None, x) | (Some e, x) \<Rightarrow> (None, handler x))"

text \<open>
  The body of the \<open>try\<close> in \<open>undo()\<close>. \<open>action\<close> is read before the \<open>try\<close>; calling
  \<open>action.undo()\<close> on a missing action or a missing function raises inside it.
\<close>

definition undo_body ::
  "('s, 'a, 'r) Action option \<Rightarrow> ('s, 'a, 'r) IPCServer \<Rightarrow> exn option \<times> ('s, 'a, 'r) IPCServer" where
  "undo_body action srv =
     (case action of
        None \<Rightarrow> (Some TypeError, srv)
      | Some a \<Rightarrow>
          (case undo a of
             None \<Rightarrow> (Some TypeError, srv)
           | Some u \<Rightarrow>
               (case u (world srv) of
                  (Some e, w) \<Rightarrow> (Some e, srv\<lparr>world := w\<rparr>)
                | (None, w) \<Rightarrow> (None, srv\<lparr>world := w, undoPointer := undoPointer srv - 1\<rparr>))))"

definition IPCServer_undo ::
  "('s, 'a, 'r) IPCServer \<Rightarrow> exn option \<times> ('s, 'a, 'r) IPCServer" where
  "IPCServer_undo srv =
     (let action = js_index (undoLedger srv) (undoPointer srv)
      in try_catch (undo_body action srv) clear_ledger)"

text \<open>
  The body of the \<open>try\<close> in \<open>redo()\<close>: the command runs again with its stored
  arguments, the entry takes the fresh \<open>undo\<close>, the pointer advances. The action object
  is the one in the ledger, so the assignment to \<open>action.undo\<close> updates the entry at
  \<open>undoPointer + 1\<close>.
\<close>

definition redo_body ::
  "('s, 'a, 'r) Action option \<Rightarrow> ('s, 'a, 'r) IPCServer \<Rightarrow> exn option \<times> ('s, 'a, 'r) IPCServer" where
  "redo_body action srv =
     (case action of
        None \<Rightarrow> (Some TypeError, srv)
      | Some a \<Rightarrow>
          (let i = nat (undoPointer srv + 1);
               store = (\<lambda>w u. srv\<lparr>world := w,
                                  undoLedger := (undoLedger srv)[i := a\<lparr>undo := u\<rparr>],
                                  undoPointer := undoPointer srv + 1\<rparr>)
           in case redo a (arguments a) (world srv) of
                (Inl e, w) \<Rightarrow> (Some e, srv\<lparr>world := w\<rparr>)
              | (Inr Undefined, w) \<Rightarrow> (Some TypeError, srv\<lparr>world := w\<rparr>)
              | (Inr (Undoable d u r), w) \<Rightarrow> (None, store w (Some u))
              | (Inr (Plain r), w) \<Rightarrow> (None, store w None)))"

definition IPCServer_redo ::
  "('s, 'a, 'r) IPCServer \<Rightarrow> exn option \<times> ('s, 'a, 'r) IPCServer" where
  "IPCServer_redo srv =
     (let action = js_index (undoLedger srv) (undoPointer srv + 1)
      in try_catch (redo_body action srv) clear_ledger)"


text \<open>
  The pointer is \<open>-1\<close> (nothing to undo) or the index of an entry. The handler,
  \<open>undo()\<close> and \<open>redo()\<close> keep it so.
\<close>

definition pointer_in_range :: "('s, 'a, 'r) IPCServer \<Rightarrow> bool" where
  "pointer_in_range srv \<longleftrightarrow>
     - 1 \<le> undoPointer srv \<and> undoPointer srv < int (length (undoLedger srv))"


section \<open>The rundown data model\<close>

text \<open>
  Times are epoch milliseconds, read from \<open>Date.now()\<close>; they are integers.
  Durations and the bounds computed by the timeline code can also be \<open>Infinity\<close>, so
  those are a \<open>number\<close>.
\<close>

datatype number = Num int | Infinity | NegInfinity | NaN

fun js_minus :: "number \<Rightarrow> number \<Rightarrow> number" where
  "js_minus (Num a) (Num b) = Num (a - b)"
| "js_minus NaN _ = NaN"
| "js_minus _ NaN = NaN"
| "js_minus Infinity Infinity = NaN"
| "js_minus NegInfinity NegInfinity = NaN"
| "js_minus Infinity _ = Infinity"
| "js_minus NegInfinity _ = NegInfinity"
| "js_minus (Num a) Infinity = NegInfinity"
| "js_minus (Num a) NegInfinity = Infinity"

fun js_min :: "number \<Rightarrow> number \<Rightarrow> number" where
  "js_min NaN _ = NaN"
| "js_min _ NaN = NaN"
| "js_min NegInfinity _ = NegInfinity"
| "js_min _ NegInfinity = NegInfinity"
| "js_min Infinity y = y"
| "js_min x Infinity = x"
| "js_min (Num a) (Num b) = Num (min a b)"

fun js_max :: "number \<Rightarrow> number \<Rightarrow> number" where
  "js_max NaN _ = NaN"
| "js_max _ NaN = NaN"
| "js_max Infinity _ = Infinity"
| "js_max _ Infinity = Infinity"
| "js_max NegInfinity y = y"
| "js_max x NegInfinity = x"
| "js_max (Num a) (Num b) = Num (max a b)"

text \<open>
  An \<open>Expression\<close> of superfly-timeline: a number, a string that may refer to other
  objects (\<open>#id.start\<close>), \<open>null\<close>, or an operator node with a left and a right
  expression. An absent (\<open>undefined\<close>) expression is \<open>None\<close> in the field that holds it.
\<close>

datatype Expression =
    ENum number
  | EStr string
  | ENull
  | EObj Expression string Expression

record TimelineEnable =
  enable_start :: "Expression option"
  enable_end :: "Expression option"
  enable_while :: "Expression option"
  enable_duration :: "Expression option"
  enable_repeating :: "Expression option"

text \<open>
  A timeline object with the fields the code below reads or writes. \<open>enable\<close> is the
  array \<open>ensureArray(obj.enable)\<close> walks (a single enable is the one-element array);
  missing \<open>children\<close> or \<open>keyframes\<close> are the empty list. \<open>content\<close> and \<open>classes\<close>
  are never touched here and are left out.
\<close>

datatype TimelineKeyframe =
  TimelineKeyframe (kf_id: string) (kf_enable: "TimelineEnable list")

datatype TimelineObject =
  TimelineObject (obj_id: string) (obj_enable: "TimelineEnable list") (obj_layer: string)
    (obj_children: "TimelineObject list") (obj_keyframes: "TimelineKeyframe list")

text \<open>A trigger binding of a part is kept as an opaque value.\<close>

type_synonym RundownTrigger = string

record Part =
  p_id :: string
  p_name :: string
  p_disabled :: bool
  p_locked :: bool
  p_loop :: bool
  p_duration :: "int option"
  p_resolved_duration :: "number option"
  p_timeline :: "TimelineObject list"
  p_triggers :: "RundownTrigger list"

record PlayingPart =
  startTime :: int
  pauseTime :: "int option"
  stopTime :: "int option"
  fromSchedule :: bool

record GroupPreparedPlayDataPart =
  pp_startTime :: int
  pp_part :: Part

record GroupPreparedPlayDataSection =
  sec_startTime :: int
  sec_endTime :: "int option"
  sec_pauseTime :: "int option"
  sec_stopTime :: "int option"
  sec_repeating :: bool
  sec_duration :: "number option"
  sec_parts :: "GroupPreparedPlayDataPart list"

datatype GroupPreparedPlayData =
    Single "GroupPreparedPlayDataSection list"
  | Multi "(string \<times> GroupPreparedPlayDataSection list) list"

record Schedule =
  activate :: "bool option"

text \<open>
  \<open>playingParts\<close> is \<open>group.playout.playingParts\<close>, an object used as a dictionary:
  an association list in insertion order, updated in place (\<open>AList.update\<close>).
\<close>

record Group =
  g_id :: string
  g_name :: string
  transparent :: bool
  oneAtATime :: bool
  autoPlay :: bool
  g_loop :: bool
  g_disabled :: bool
  g_locked :: bool
  playoutMode :: string
  schedule :: "Schedule option"
  parts :: "Part list"
  playingParts :: "(string \<times> PlayingPart) list"
  preparedPlayData :: "GroupPreparedPlayData option"

record Rundown =
  r_id :: string
  r_name :: string
  groups :: "Group list"

text \<open>The part of a resolved playhead that \<open>_pausePart\<close> reads.\<close>

record GroupPlayDataPlayhead =
  partStartTime :: int
  partPauseTime :: "int option"

text \<open>
  Code of the repository that is not part of the sources at hand, taken as parameters:
  the callback \<open>updateTimeline\<close>, \<open>updateGroupPlayingParts\<close> of \<open>lib/util\<close> (it reads
  the clock itself; the model hands it the time of the call) and \<open>postProcessPart\<close>.
\<close>

record Collaborators =
  updateTimeline :: "Group \<Rightarrow> GroupPreparedPlayData option"
  updateGroupPlayingParts :: "int \<Rightarrow> Group \<Rightarrow> Group"
  postProcessPart :: "Part \<Rightarrow> Part"

text \<open>
  Modelled from the spec: \<open>findPart\<close> and \<open>findGroup\<close> of \<open>lib/util\<close> are not in the
  sources; the spec's NotFound error is "id not found in the addressed container", so
  they are the first element with that id.
\<close>

definition findPart :: "Group \<Rightarrow> string \<Rightarrow> Part option" where
  "findPart grp partId = find (\<lambda>p. p_id p = partId) (parts grp)"

definition findGroup :: "Rundown \<Rightarrow> string \<Rightarrow> Group option" where
  "findGroup rundown groupId = find (\<lambda>g. g_id g = groupId) (groups rundown)"

definition part_not_found :: "Group \<Rightarrow> string \<Rightarrow> exn" where
  "part_not_found grp partId =
     Error (''Part '' @ partId @ '' not found in group '' @ g_id grp @ '' (\"''
            @ g_name grp @ ''\").'')"

text \<open>
  Writing back an object that was found by \<open>find\<close> and then changed in place: the
  first element that satisfies the test is the one that was changed.
\<close>

fun replace_first :: "('a \<Rightarrow> bool) \<Rightarrow> 'a \<Rightarrow> 'a list \<Rightarrow> 'a list" where
  "replace_first P y [] = []"
| "replace_first P y (x # xs) = (if P x then y # xs else x # replace_first P y xs)"

definition store_part :: "Group \<Rightarrow> string \<Rightarrow> Part \<Rightarrow> Group" where
  "store_part grp partId part =
     grp\<lparr>parts := replace_first (\<lambda>p. p_id p = partId) part (parts grp)\<rparr>"

text \<open>
  \<open>_saveUpdates\<close> for one group: the \<open>transparent\<close> flag is dropped once the group has
  more than one part; unless the change has no effect on playout the timeline is
  recomputed and the playing parts refreshed. Writing to storage and the peripherals
  changes nothing in the group.
\<close>

definition saveUpdates_group :: "Collaborators \<Rightarrow> int \<Rightarrow> bool \<Rightarrow> Group \<Rightarrow> Group" where
  "saveUpdates_group env now noEffectOnPlayout grp =
     (let g1 = (if length (parts grp) > 1 then grp\<lparr>transparent := False\<rparr> else grp)
      in if noEffectOnPlayout then g1
         else updateGroupPlayingParts env now (g1\<lparr>preparedPlayData := updateTimeline env g1\<rparr>))"


section \<open>Play and pause\<close>

text \<open>
  \<open>_playPart\<close> and \<open>_pausePart\<close>, the private methods behind the commands (a name
  cannot start with an underscore here). A missing \<open>playingParts\<close> is the empty
  dictionary.
\<close>

definition priv_playPart :: "Group \<Rightarrow> Part \<Rightarrow> int \<Rightarrow> Group" where
  "priv_playPart grp part now =
     (if p_disabled part then grp
      else
        (let playing = (if oneAtATime grp then [] else playingParts grp)
         in grp\<lparr>playingParts :=
              AList.update (p_id part)
                \<lparr>startTime = now, pauseTime = None, stopTime = None, fromSchedule = False\<rparr>
                playing\<rparr>))"

text \<open>
  \<open>_pausePart\<close>. \<open>playhead\<close> is \<open>getGroupPlayData(group.preparedPlayData).playheads[part.id]\<close>
  (\<open>lib/playhead\<close>), handed in by the caller of the model; \<open>now2\<close> is the second reading
  of the clock, in the branch that cues a part that is not playing.
\<close>

definition priv_pausePart ::
  "Group \<Rightarrow> Part \<Rightarrow> int option \<Rightarrow> int \<Rightarrow> GroupPlayDataPlayhead option \<Rightarrow> int \<Rightarrow> Group" where
  "priv_pausePart grp part pauseTime' now playhead now2 =
     (if p_disabled part then grp
      else
        (let playing =
               (if oneAtATime grp
                then map (\<lambda>(partId, pp). if partId \<noteq> p_id part
                                           then (partId, pp\<lparr>stopTime := Some now\<rparr>)
                                           else (partId, pp))
                       (playingParts grp)
                else playingParts grp);
             entry =
               (case playhead of
                  Some ph \<Rightarrow>
                    (case partPauseTime ph of
                       None \<Rightarrow>
                         \<lparr>startTime = partStartTime ph,
                          pauseTime = Some (case pauseTime' of Some t \<Rightarrow> t
                                            | None \<Rightarrow> now - partStartTime ph),
                          stopTime = None, fromSchedule = False\<rparr>
                     | Some frozen \<Rightarrow>
                         \<lparr>startTime = now - frozen, pauseTime = None,
                          stopTime = None, fromSchedule = False\<rparr>)
                | None \<Rightarrow>
                    \<lparr>startTime = now2,
                     pauseTime = Some (case pauseTime' of Some t \<Rightarrow> t | None \<Rightarrow> 0),
                     stopTime = None, fromSchedule = False\<rparr>)
         in grp\<lparr>playingParts := AList.update (p_id part) entry playing\<rparr>))"

text \<open>
  The public commands on the group they address. A command that throws has not
  changed the group yet.
\<close>

definition playPart :: "Collaborators \<Rightarrow> string \<Rightarrow> int \<Rightarrow> Group \<Rightarrow> exn option \<times> Group" where
  "playPart env partId now grp =
     (case findPart grp partId of
        None \<Rightarrow> (Some (part_not_found grp partId), grp)
      | Some part \<Rightarrow> (None, saveUpdates_group env now False (priv_playPart grp part now)))"

definition pausePart ::
  "Collaborators \<Rightarrow> (Group \<Rightarrow> string \<Rightarrow> GroupPlayDataPlayhead option)
     \<Rightarrow> string \<Rightarrow> int option \<Rightarrow> int \<Rightarrow> int \<Rightarrow> Group \<Rightarrow> exn option \<times> Group" where
  "pausePart env playheads partId time now now2 grp =
     (case findPart grp partId of
        None \<Rightarrow> (Some (part_not_found grp partId), grp)
      | Some part \<Rightarrow>
          (let g1 = updateGroupPlayingParts env now grp;
               g2 = priv_pausePart g1 part time now (playheads g1 partId) now2
           in (None, saveUpdates_group env now False g2)))"

datatype PlayCommand =
    PlayPart string int
  | PausePart string "int option" int int

fun play_command ::
  "Collaborators \<Rightarrow> (Group \<Rightarrow> string \<Rightarrow> GroupPlayDataPlayhead option)
     \<Rightarrow> PlayCommand \<Rightarrow> Group \<Rightarrow> Group" where
  "play_command env playheads (PlayPart partId now) grp =
     snd (playPart env partId now grp)"
| "play_command env playheads (PausePart partId time now now2) grp =
     snd (pausePart env playheads partId time now now2 grp)"

text \<open>The entries of \<open>playingParts\<close> that have no \<open>stopTime\<close>.\<close>

definition active_parts :: "Group \<Rightarrow> (string \<times> PlayingPart) list" where
  "active_parts grp = filter (\<lambda>(partId, pp). stopTime pp = None) (playingParts grp)"

text \<open>
  The solo invariant, on a well-formed dictionary (no key twice).
\<close>

definition solo :: "Group \<Rightarrow> bool" where
  "solo grp \<longleftrightarrow>
     distinct (map fst (playingParts grp))
     \<and> (oneAtATime grp \<longrightarrow> length (active_parts grp) \<le> 1)"

text \<open>
  The entry that \<open>_pausePart\<close> writes for the part (lines 466 to 494), by the three
  cases of the playhead: playing, paused, and not playing.
\<close>

definition pause_entry ::
  "int option \<Rightarrow> int \<Rightarrow> GroupPlayDataPlayhead option \<Rightarrow> int \<Rightarrow> PlayingPart" where
  "pause_entry pauseTime' now playhead now2 =
     (case playhead of
        Some ph \<Rightarrow>
          (case partPauseTime ph of
             None \<Rightarrow>
               \<lparr>startTime = partStartTime ph,
                pauseTime = Some (case pauseTime' of Some t \<Rightarrow> t
                                  | None \<Rightarrow> now - partStartTime ph),
                stopTime = None, fromSchedule = False\<rparr>
           | Some frozen \<Rightarrow>
               \<lparr>startTime = now - frozen, pauseTime = None,
                stopTime = None, fromSchedule = False\<rparr>)
      | None \<Rightarrow>
          \<lparr>startTime = now2,
           pauseTime = Some (case pauseTime' of Some t \<Rightarrow> t | None \<Rightarrow> 0),
           stopTime = None, fromSchedule = False\<rparr>)"


section \<open>The playhead of a part\<close>

text \<open>
  Modelled from the spec: \<open>getGroupPlayData\<close> (\<open>lib/playhead\<close>) is not in the sources. The
  Playhead Resolver of the spec (4.1) is a pure function of the time and the prepared
  data. For type \<open>single\<close> it scans the sections in order to "find the section whose
  [startTime, endTime) contains now (or, if repeating, compute now mod duration relative
  to startTime); if pauseTime is set, ignore now and report the frozen offset instead;
  if stopTime is set and now > stopTime, report no playhead for that section. Within the
  active section, map elapsed time to the specific Part playing (sections contain
  ordered sub-parts) and the offset within that Part." A repeating section with
  duration 0 is treated as non-repeating. For type \<open>multi\<close> the section list of each part
  is resolved on its own by the same rule.

  \<open>_pausePart\<close> reads two fields of the playhead of a part. \<open>partPauseTime\<close> is the
  frozen offset of a paused part. \<open>partStartTime\<close> is the time at which the offset was
  zero: the command "look[s] up current resolved playhead offset" and freezes a playing
  part "at now - partStartTime" (4.4).
\<close>

definition repeat_length :: "GroupPreparedPlayDataSection \<Rightarrow> int option" where
  "repeat_length sec =
     (if sec_repeating sec
      then (case sec_duration sec of
              Some (Num d) \<Rightarrow> (if d > 0 then Some d else None)
            | _ \<Rightarrow> None)
      else None)"

text \<open>The time elapsed in a section, and whether it is frozen by a pause.\<close>

definition section_elapsed :: "int \<Rightarrow> GroupPreparedPlayDataSection \<Rightarrow> (int \<times> bool) option" where
  "section_elapsed now sec =
     (if (case sec_stopTime sec of Some stopped \<Rightarrow> now > stopped | None \<Rightarrow> False) then None
      else
        (case sec_pauseTime sec of
           Some frozen \<Rightarrow> Some (frozen, True)
         | None \<Rightarrow>
             if now < sec_startTime sec then None
             else
               (case repeat_length sec of
                  Some d \<Rightarrow> Some ((now - sec_startTime sec) mod d, False)
                | None \<Rightarrow>
                    if (case sec_endTime sec of Some e \<Rightarrow> now < e | None \<Rightarrow> True)
                    then Some (now - sec_startTime sec, False)
                    else None)))"

text \<open>
  The part of a section that plays when \<open>elapsed\<close> has passed since the start of the
  section: the last of the ordered parts that has started by then.
\<close>

fun part_at ::
  "int \<Rightarrow> int \<Rightarrow> GroupPreparedPlayDataPart list \<Rightarrow> GroupPreparedPlayDataPart option" where
  "part_at sectionStart elapsed [] = None"
| "part_at sectionStart elapsed (p # ps) =
     (case part_at sectionStart elapsed ps of
        Some q \<Rightarrow> Some q
      | None \<Rightarrow> (if pp_startTime p - sectionStart \<le> elapsed then Some p else None))"

definition resolve_section ::
  "int \<Rightarrow> GroupPreparedPlayDataSection \<Rightarrow> (string \<times> GroupPlayDataPlayhead) option" where
  "resolve_section now sec =
     (case section_elapsed now sec of
        None \<Rightarrow> None
      | Some (elapsed, paused) \<Rightarrow>
          (case part_at (sec_startTime sec) elapsed (sec_parts sec) of
             None \<Rightarrow> None
           | Some p \<Rightarrow>
               (let offset = elapsed - (pp_startTime p - sec_startTime sec)
                in Some (p_id (pp_part p),
                         \<lparr>partStartTime = now - offset,
                          partPauseTime = (if paused then Some offset else None)\<rparr>))))"

fun resolve_sections ::
  "int \<Rightarrow> GroupPreparedPlayDataSection list \<Rightarrow> (string \<times> GroupPlayDataPlayhead) option" where
  "resolve_sections now [] = None"
| "resolve_sections now (sec # secs) =
     (case resolve_section now sec of
        Some found \<Rightarrow> Some found
      | None \<Rightarrow> resolve_sections now secs)"

text \<open>The sections in which a part is looked for: all of them, or its own list.\<close>

definition own_sections ::
  "GroupPreparedPlayData option \<Rightarrow> string \<Rightarrow> GroupPreparedPlayDataSection list" where
  "own_sections prepared partId =
     (case prepared of
        None \<Rightarrow> []
      | Some (Single sections) \<Rightarrow> sections
      | Some (Multi sections) \<Rightarrow>
          (case map_of sections partId of None \<Rightarrow> [] | Some secs \<Rightarrow> secs))"

text \<open>\<open>getGroupPlayData(prepared).playheads[partId]\<close>, at the time \<open>now\<close>.\<close>

definition getGroupPlayData ::
  "int \<Rightarrow> GroupPreparedPlayData option \<Rightarrow> string \<Rightarrow> GroupPlayDataPlayhead option" where
  "getGroupPlayData now prepared partId =
     (case resolve_sections now (own_sections prepared partId) of
        None \<Rightarrow> None
      | Some (playing, playhead) \<Rightarrow> (if playing = partId then Some playhead else None))"








section \<open>Commands that edit a group\<close>

text \<open>
  What a command of the Command Engine gives back: an undoable result with its
  description and inverse, or \<open>undefined\<close>. The inverse runs later, at a time of its own.
\<close>

datatype command_result =
    UndoableResult string "int \<Rightarrow> Group \<Rightarrow> exn option \<times> Group"
  | ReturnsUndefined

text \<open>
  JavaScript truthiness, as \<open>if (playingPart.stopTime)\<close> and
  \<open>group.schedule?.activate\<close> test it: \<open>undefined\<close>, \<open>0\<close> and \<open>false\<close> are falsy.
\<close>

definition truthy_time :: "int option \<Rightarrow> bool" where
  "truthy_time t = (case t of None \<Rightarrow> False | Some n \<Rightarrow> n \<noteq> 0)"

definition schedule_activate :: "Group \<Rightarrow> bool" where
  "schedule_activate grp =
     (case schedule grp of None \<Rightarrow> False | Some s \<Rightarrow> activate s = Some True)"

text \<open>
  \<open>Partial<Part>\<close>: every field is a key that is present (\<open>Some\<close>) or absent. \<open>has\<close>
  of \<open>lib/util\<close> tests that a key is present; \<open>Object.assign\<close> copies the present keys.
\<close>

record PartPatch =
  patch_name :: "string option"
  patch_disabled :: "bool option"
  patch_locked :: "bool option"
  patch_loop :: "bool option"
  patch_duration :: "int option option"

definition assign_part :: "Part \<Rightarrow> PartPatch \<Rightarrow> Part" where
  "assign_part part patch =
     part\<lparr>p_name := (case patch_name patch of None \<Rightarrow> p_name part | Some v \<Rightarrow> v),
          p_disabled := (case patch_disabled patch of None \<Rightarrow> p_disabled part | Some v \<Rightarrow> v),
          p_locked := (case patch_locked patch of None \<Rightarrow> p_locked part | Some v \<Rightarrow> v),
          p_loop := (case patch_loop patch of None \<Rightarrow> p_loop part | Some v \<Rightarrow> v),
          p_duration := (case patch_duration patch of None \<Rightarrow> p_duration part | Some v \<Rightarrow> v)\<rparr>"

text \<open>
  \<open>updatePart\<close> (lines 883 to 925). The part found in the group is the object that is
  changed; \<open>updateGroupPlayingParts\<close> is taken to leave \<open>group.parts\<close> alone.
\<close>

definition updatePart ::
  "Collaborators \<Rightarrow> string \<Rightarrow> PartPatch \<Rightarrow> int \<Rightarrow> Group \<Rightarrow> (exn + command_result) \<times> Group" where
  "updatePart env partId patch now grp =
     (case findPart grp partId of
        None \<Rightarrow> (Inl (part_not_found grp partId), grp)
      | Some part \<Rightarrow>
          if g_locked grp then (Inr ReturnsUndefined, grp)
          else if p_locked part \<and> patch_locked patch = None then (Inr ReturnsUndefined, grp)
          else
            (let affectsPlayout = (patch_loop patch \<noteq> None \<or> patch_disabled patch \<noteq> None
                                    \<or> patch_duration patch \<noteq> None);
                 g1 = (if affectsPlayout then updateGroupPlayingParts env now grp else grp);
                 partPreChange = part;
                 g2 = store_part g1 partId (postProcessPart env (assign_part part patch));
                 g3 = (if affectsPlayout then saveUpdates_group env now False g2 else g2)
             in (Inr (UndoableResult ''UpdatePart''
                       (\<lambda>t g. case findPart g partId of
                                 None \<Rightarrow> (Some (part_not_found g partId), g)
                               | Some p \<Rightarrow>
                                   (None, store_part g partId (postProcessPart env partPreChange)))),
                 g3)))"

text \<open>
  \<open>PartialDeep<Group>\<close>, for the fields of the model. \<open>deepExtend\<close> (the deep-extend
  package) overwrites plain values and arrays and merges objects key by key; the
  entries of a \<open>playingParts\<close> patch are whole entries.
\<close>

record SchedulePatch =
  patch_activate :: "bool option"

record GroupPatch =
  gp_name :: "string option"
  gp_oneAtATime :: "bool option"
  gp_autoPlay :: "bool option"
  gp_loop :: "bool option"
  gp_disabled :: "bool option"
  gp_locked :: "bool option"
  gp_playoutMode :: "string option"
  gp_schedule :: "SchedulePatch option"
  gp_parts :: "Part list option"
  gp_playout :: "(string \<times> PlayingPart) list option"

definition deepExtend :: "Group \<Rightarrow> GroupPatch \<Rightarrow> Group" where
  "deepExtend grp patch =
     grp\<lparr>g_name := (case gp_name patch of None \<Rightarrow> g_name grp | Some v \<Rightarrow> v),
         oneAtATime := (case gp_oneAtATime patch of None \<Rightarrow> oneAtATime grp | Some v \<Rightarrow> v),
         autoPlay := (case gp_autoPlay patch of None \<Rightarrow> autoPlay grp | Some v \<Rightarrow> v),
         g_loop := (case gp_loop patch of None \<Rightarrow> g_loop grp | Some v \<Rightarrow> v),
         g_disabled := (case gp_disabled patch of None \<Rightarrow> g_disabled grp | Some v \<Rightarrow> v),
         g_locked := (case gp_locked patch of None \<Rightarrow> g_locked grp | Some v \<Rightarrow> v),
         playoutMode := (case gp_playoutMode patch of None \<Rightarrow> playoutMode grp | Some v \<Rightarrow> v),
         schedule :=
           (case gp_schedule patch of
              None \<Rightarrow> schedule grp
            | Some sp \<Rightarrow>
                (case schedule grp of
                   None \<Rightarrow> Some \<lparr>activate = patch_activate sp\<rparr>
                 | Some s \<Rightarrow>
                     Some (s\<lparr>activate := (case patch_activate sp of None \<Rightarrow> activate s
                                             | Some v \<Rightarrow> Some v)\<rparr>))),
         parts := (case gp_parts patch of None \<Rightarrow> parts grp | Some v \<Rightarrow> v),
         playingParts :=
           (case gp_playout patch of
              None \<Rightarrow> playingParts grp
            | Some es \<Rightarrow> fold (\<lambda>(k, v). AList.update k v) es (playingParts grp))\<rparr>"

text \<open>
  The special case of \<open>updateGroup\<close> (lines 1065 to 1071), on the group before the
  change and the group after \<open>deepExtend\<close>.
\<close>

definition remove_stop_times :: "Group \<Rightarrow> Group \<Rightarrow> Group" where
  "remove_stop_times groupPreChange grp =
     (if \<not> schedule_activate groupPreChange \<and> schedule_activate grp
      then grp\<lparr>playingParts :=
             filter (\<lambda>(partId, playingPart). \<not> truthy_time (stopTime playingPart))
               (playingParts grp)\<rparr>
      else grp)"

definition updateGroup ::
  "Collaborators \<Rightarrow> GroupPatch \<Rightarrow> int \<Rightarrow> Group \<Rightarrow> (exn + command_result) \<times> Group" where
  "updateGroup env patch now grp =
     (if g_locked grp then (Inr ReturnsUndefined, grp)
      else
        (let groupPreChange = grp;
             g1 = deepExtend grp patch;
             affectsPlayout = (gp_schedule patch \<noteq> None \<or> gp_autoPlay patch \<noteq> None
                                \<or> gp_loop patch \<noteq> None \<or> gp_disabled patch \<noteq> None
                                \<or> gp_oneAtATime patch \<noteq> None \<or> gp_parts patch \<noteq> None
                                \<or> gp_playout patch \<noteq> None \<or> gp_playoutMode patch \<noteq> None);
             g2 = remove_stop_times groupPreChange g1;
             g3 = (if affectsPlayout then saveUpdates_group env now False g2 else g2)
         in (Inr (UndoableResult ''UpdateGroup'' (\<lambda>t g. (None, groupPreChange))), g3)))"

text \<open>The toggles of a group (lines 1844 to 1993).\<close>

definition toggleGroupLoop ::
  "Collaborators \<Rightarrow> bool \<Rightarrow> int \<Rightarrow> Group \<Rightarrow> (exn + command_result) \<times> Group" where
  "toggleGroupLoop env value now grp =
     (if g_locked grp then (Inr ReturnsUndefined, grp)
      else
        (let originalValue = g_loop grp;
             g1 = (updateGroupPlayingParts env now grp)\<lparr>g_loop := value\<rparr>
         in (Inr (UndoableResult ''ToggleGroupLoop''
                   (\<lambda>t g. (None, saveUpdates_group env t False
                              ((updateGroupPlayingParts env t g)\<lparr>g_loop := originalValue\<rparr>)))),
             saveUpdates_group env now False g1)))"

definition toggleGroupAutoplay ::
  "Collaborators \<Rightarrow> bool \<Rightarrow> int \<Rightarrow> Group \<Rightarrow> (exn + command_result) \<times> Group" where
  "toggleGroupAutoplay env value now grp =
     (if g_locked grp then (Inr ReturnsUndefined, grp)
      else
        (let originalValue = autoPlay grp;
             g1 = (updateGroupPlayingParts env now grp)\<lparr>autoPlay := value\<rparr>
         in (Inr (UndoableResult ''ToggleGroupAutoplay''
                   (\<lambda>t g. (None, saveUpdates_group env t False
                              ((updateGroupPlayingParts env t g)\<lparr>autoPlay := originalValue\<rparr>)))),
             saveUpdates_group env now False g1)))"

definition toggleGroupOneAtATime ::
  "Collaborators \<Rightarrow> bool \<Rightarrow> int \<Rightarrow> Group \<Rightarrow> (exn + command_result) \<times> Group" where
  "toggleGroupOneAtATime env value now grp =
     (if g_locked grp then (Inr ReturnsUndefined, grp)
      else
        (let originalValue = oneAtATime grp;
             g1 = (updateGroupPlayingParts env now grp)\<lparr>oneAtATime := value\<rparr>;
             g2 = (if oneAtATime g1 \<and> length (playingParts g1) > 1
                   then g1\<lparr>playingParts := [hd (playingParts g1)]\<rparr> else g1)
         in (Inr (UndoableResult ''toggleGroupOneAtATime''
                   (\<lambda>t g. (None, saveUpdates_group env t False
                              ((updateGroupPlayingParts env t g)\<lparr>oneAtATime := originalValue\<rparr>)))),
             saveUpdates_group env now False g2)))"

definition toggleGroupDisable ::
  "Collaborators \<Rightarrow> bool \<Rightarrow> int \<Rightarrow> Group \<Rightarrow> (exn + command_result) \<times> Group" where
  "toggleGroupDisable env value now grp =
     (if g_locked grp then (Inr ReturnsUndefined, grp)
      else
        (let originalValue = g_disabled grp;
             g1 = (updateGroupPlayingParts env now grp)\<lparr>g_disabled := value\<rparr>
         in (Inr (UndoableResult ''ToggleGroupDisable''
                   (\<lambda>t g. (None, saveUpdates_group env t False
                              ((updateGroupPlayingParts env t g)\<lparr>g_disabled := originalValue\<rparr>)))),
             saveUpdates_group env now False g1)))"

definition toggleGroupLock ::
  "Collaborators \<Rightarrow> bool \<Rightarrow> int \<Rightarrow> Group \<Rightarrow> (exn + command_result) \<times> Group" where
  "toggleGroupLock env value now grp =
     (let originalValue = g_locked grp;
          g1 = grp\<lparr>g_locked := value\<rparr>
      in (Inr (UndoableResult ''ToggleGroupLock''
                (\<lambda>t g. (None, saveUpdates_group env t True (g\<lparr>g_locked := originalValue\<rparr>)))),
          saveUpdates_group env now True g1))"

text \<open>A command has no effect: it returns \<open>undefined\<close> and the group is as before.\<close>

definition no_op :: "(exn + command_result) \<times> Group \<Rightarrow> Group \<Rightarrow> bool" where
  "no_op outcome grp \<longleftrightarrow> fst outcome = Inr ReturnsUndefined \<and> snd outcome = grp"

fun is_undoable :: "exn + command_result \<Rightarrow> bool" where
  "is_undoable (Inr (UndoableResult d u)) = True"
| "is_undoable _ = False"

section \<open>Inserting groups and parts into a rundown\<close>

datatype MoveTarget = First | Last | After string | Before string

type_synonym ResourceAny = string

type_synonym RundownUndo = "int \<Rightarrow> Rundown \<Rightarrow> exn option \<times> Rundown"

type_synonym 'r RundownResult = "(exn + string \<times> RundownUndo \<times> 'r) \<times> Rundown"

text \<open>
  Code that is not part of the sources at hand, taken as parameters:
  \<open>getPositionFromTarget\<close> of \<open>lib/util\<close> (on the ids of the list it is given),
  \<open>shortID\<close> (the \<open>k\<close>-th id it hands out during a call) and \<open>getDefaultGroup\<close>.
  \<open>addResourcesToTimeline\<close> is a method of the class whose work is done by code outside
  the sources; it is a parameter too, with the group id, the part id and the resources.
\<close>

record InsertEnv =
  getPositionFromTarget :: "MoveTarget \<Rightarrow> string list \<Rightarrow> int"
  shortID :: "nat \<Rightarrow> string"
  getDefaultGroup :: Group
  addResourcesToTimeline ::
    "string \<Rightarrow> string \<Rightarrow> ResourceAny list \<Rightarrow> Rundown \<Rightarrow> (exn + RundownUndo option) \<times> Rundown"
  collaborators :: Collaborators

record InsertGroupItem =
  ig_group :: Group
  ig_resources :: "(string \<times> ResourceAny list) list"

record InsertPartItem =
  ip_part :: Part
  ip_resources :: "ResourceAny list"

definition group_not_found :: "Rundown \<Rightarrow> string \<Rightarrow> exn" where
  "group_not_found rundown groupId =
     Error (''Group '' @ groupId @ '' not found in rundown \"'' @ r_id rundown @ ''\" (\"''
            @ r_name rundown @ ''\").'')"

text \<open>The two nested loops that look for a part id in every group of the rundown.\<close>

definition part_id_in_use :: "Rundown \<Rightarrow> string \<Rightarrow> bool" where
  "part_id_in_use rundown partId \<longleftrightarrow>
     partId \<in> set (concat (map (\<lambda>g. map p_id (parts g)) (groups rundown)))"

definition group_id_in_use :: "Rundown \<Rightarrow> string \<Rightarrow> bool" where
  "group_id_in_use rundown groupId \<longleftrightarrow> find (\<lambda>g. g_id g = groupId) (groups rundown) \<noteq> None"

text \<open>
  The first loop of \<open>insertGroups\<close> (lines 971 to 996). The rundown is changed in place,
  so a \<open>throw\<close> leaves it as the iterations before have made it.
\<close>

fun insertGroups_loop ::
  "InsertEnv \<Rightarrow> InsertGroupItem list \<Rightarrow> MoveTarget \<Rightarrow> string list \<Rightarrow> Rundown
     \<Rightarrow> (exn + string list) \<times> Rundown" where
  "insertGroups_loop env [] nextTarget inserted rundown = (Inr inserted, rundown)"
| "insertGroups_loop env (item # items) nextTarget inserted rundown =
     (if group_id_in_use rundown (g_id (ig_group item))
      then (Inl (Error (''Group id is already in use: '' @ g_id (ig_group item))), rundown)
      else
        (case find (\<lambda>part. part_id_in_use rundown (p_id part)) (parts (ig_group item)) of
           Some part \<Rightarrow> (Inl (Error (''part id is already in use: '' @ p_id part)), rundown)
         | None \<Rightarrow>
             (let insertPosition = getPositionFromTarget env nextTarget (map g_id (groups rundown));
                  rundown' = rundown\<lparr>groups :=
                               splice_insert insertPosition (ig_group item) (groups rundown)\<rparr>
              in insertGroups_loop env items (After (g_id (ig_group item)))
                   (inserted @ [g_id (ig_group item)]) rundown')))"

text \<open>The target of the next insertion, after the elements with these ids went in.\<close>

definition next_target :: "MoveTarget \<Rightarrow> string list \<Rightarrow> MoveTarget" where
  "next_target target ids = (if ids = [] then target else After (last ids))"

text \<open>
  The loops that add the resources of the inserted parts: a call per part that has
  resources; the \<open>undo\<close> of each call that returned one is collected.
\<close>

fun addResources_loop ::
  "InsertEnv \<Rightarrow> (string \<times> string \<times> ResourceAny list) list \<Rightarrow> RundownUndo list \<Rightarrow> Rundown
     \<Rightarrow> (exn + RundownUndo list) \<times> Rundown" where
  "addResources_loop env [] undos rundown = (Inr undos, rundown)"
| "addResources_loop env ((groupId, partId, resources) # rest) undos rundown =
     (if resources = [] then addResources_loop env rest undos rundown
      else
        (case addResourcesToTimeline env groupId partId resources rundown of
           (Inl e, rundown') \<Rightarrow> (Inl e, rundown')
         | (Inr None, rundown') \<Rightarrow> addResources_loop env rest undos rundown'
         | (Inr (Some u), rundown') \<Rightarrow> addResources_loop env rest (undos @ [u]) rundown'))"

fun run_undos :: "RundownUndo list \<Rightarrow> int \<Rightarrow> Rundown \<Rightarrow> exn option \<times> Rundown" where
  "run_undos [] t rundown = (None, rundown)"
| "run_undos (u # us) t rundown =
     (case u t rundown of
        (Some e, rundown') \<Rightarrow> (Some e, rundown')
      | (None, rundown') \<Rightarrow> run_undos us t rundown')"

text \<open>Putting back the elements with the original ids, in the original order.\<close>

definition restore_order :: "('a \<Rightarrow> string) \<Rightarrow> string list \<Rightarrow> 'a list \<Rightarrow> 'a list" where
  "restore_order ident originalIds xs =
     concat (map (\<lambda>i. case find (\<lambda>x. ident x = i) xs of None \<Rightarrow> [] | Some x \<Rightarrow> [x]) originalIds)"

definition group_resources :: "InsertGroupItem \<Rightarrow> (string \<times> string \<times> ResourceAny list) list" where
  "group_resources item =
     map (\<lambda>part. (g_id (ig_group item), p_id part,
                   (case map_of (ig_resources item) (p_id part) of None \<Rightarrow> [] | Some rs \<Rightarrow> rs)))
       (parts (ig_group item))"

definition insertGroups ::
  "InsertEnv \<Rightarrow> InsertGroupItem list \<Rightarrow> MoveTarget \<Rightarrow> Rundown \<Rightarrow> (string list) RundownResult" where
  "insertGroups env items target rundown =
     (let originalGroupIds = map g_id (groups rundown)
      in case insertGroups_loop env items target [] rundown of
           (Inl e, rundown1) \<Rightarrow> (Inl e, rundown1)
         | (Inr inserted, rundown1) \<Rightarrow>
             (case addResources_loop env (concat (map group_resources items)) [] rundown1 of
                (Inl e, rundown2) \<Rightarrow> (Inl e, rundown2)
              | (Inr addedResourcesUndo, rundown2) \<Rightarrow>
                  (Inr (''InsertGroups'',
                        (\<lambda>t r. case run_undos (rev addedResourcesUndo) t r of
                                  (Some e, r') \<Rightarrow> (Some e, r')
                                | (None, r') \<Rightarrow>
                                    (None, r'\<lparr>groups :=
                                             restore_order g_id originalGroupIds (groups r')\<rparr>)),
                        inserted),
                   rundown2)))"

text \<open>
  \<open>_insertPartsAsTransparentGroup\<close>: a new transparent group around every part, then
  \<open>insertGroups\<close>; the result lists the group and part ids.
\<close>

definition transparent_group_items :: "InsertEnv \<Rightarrow> InsertPartItem list \<Rightarrow> InsertGroupItem list" where
  "transparent_group_items env items =
     map (\<lambda>(k, item).
            \<lparr>ig_group = (getDefaultGroup env)\<lparr>g_id := shortID env k, g_name := p_name (ip_part item),
                                              transparent := True, parts := [ip_part item]\<rparr>,
             ig_resources = [(p_id (ip_part item), ip_resources item)]\<rparr>)
       (enumerate 0 items)"

definition insertPartsAsTransparentGroup ::
  "InsertEnv \<Rightarrow> InsertPartItem list \<Rightarrow> MoveTarget \<Rightarrow> Rundown
     \<Rightarrow> ((string \<times> string) list) RundownResult" where
  "insertPartsAsTransparentGroup env items target rundown =
     (let new_groups = transparent_group_items env items;
          inserted = map (\<lambda>(k, item). (shortID env k, p_id (ip_part item))) (enumerate 0 items)
      in case insertGroups env new_groups target rundown of
           (Inl e, rundown') \<Rightarrow> (Inl e, rundown')
         | (Inr (d, u, r), rundown') \<Rightarrow> (Inr (d, u, inserted), rundown'))"

text \<open>
  The first loop of \<open>insertParts\<close> (lines 765 to 784). The group is an object of the
  rundown, so every insertion is seen by the next check; the loop hands back the group
  and the rundown as it leaves them.
\<close>

fun insertParts_loop ::
  "InsertEnv \<Rightarrow> string \<Rightarrow> InsertPartItem list \<Rightarrow> MoveTarget \<Rightarrow> (string \<times> string) list
     \<Rightarrow> Group \<Rightarrow> Rundown \<Rightarrow> (exn + (string \<times> string) list) \<times> Group \<times> Rundown" where
  "insertParts_loop env groupId [] nextTarget inserted grp rundown = (Inr inserted, grp, rundown)"
| "insertParts_loop env groupId (item # items) nextTarget inserted grp rundown =
     (if part_id_in_use rundown (p_id (ip_part item))
      then (Inl (Error (''part id is already in use: '' @ p_id (ip_part item))), grp, rundown)
      else
        (let insertPosition = getPositionFromTarget env nextTarget (map p_id (parts grp));
             grp' = grp\<lparr>parts := splice_insert insertPosition (ip_part item) (parts grp)\<rparr>;
             rundown' = rundown\<lparr>groups :=
                          replace_first (\<lambda>g. g_id g = groupId) grp' (groups rundown)\<rparr>
         in insertParts_loop env groupId items (After (p_id (ip_part item)))
              (inserted @ [(g_id grp, p_id (ip_part item))]) grp' rundown'))"

definition insertParts ::
  "InsertEnv \<Rightarrow> string option \<Rightarrow> InsertPartItem list \<Rightarrow> MoveTarget \<Rightarrow> Rundown
     \<Rightarrow> ((string \<times> string) list) RundownResult" where
  "insertParts env groupId items target rundown =
     (case groupId of
        None \<Rightarrow> insertPartsAsTransparentGroup env items target rundown
      | Some gid \<Rightarrow>
          if gid = [] then insertPartsAsTransparentGroup env items target rundown
          else
            (case findGroup rundown gid of
               None \<Rightarrow> (Inl (group_not_found rundown gid), rundown)
             | Some grp \<Rightarrow>
                 if transparent grp
                 then insertPartsAsTransparentGroup env items (After (g_id grp)) rundown
                 else
                   (let originalPartIds = map p_id (parts grp)
                    in case insertParts_loop env gid items target [] grp rundown of
                         (Inl e, grp1, rundown1) \<Rightarrow> (Inl e, rundown1)
                       | (Inr inserted, grp1, rundown1) \<Rightarrow>
                           (case addResources_loop env
                                   (map (\<lambda>item. (gid, p_id (ip_part item), ip_resources item)) items)
                                   [] rundown1 of
                              (Inl e, rundown2) \<Rightarrow> (Inl e, rundown2)
                            | (Inr addedResourcesUndo, rundown2) \<Rightarrow>
                                (Inr (''InsertParts'',
                                      (\<lambda>t r. case run_undos (rev addedResourcesUndo) t r of
                                                (Some e, r') \<Rightarrow> (Some e, r')
                                              | (None, r') \<Rightarrow>
                                                  (case findGroup r' gid of
                                                     None \<Rightarrow> (Some (group_not_found r' gid), r')
                                                   | Some g \<Rightarrow>
                                                       (None, r'\<lparr>groups :=
                                                          replace_first (\<lambda>x. g_id x = gid)
                                                            (saveUpdates_group (collaborators env) t False
                                                               (g\<lparr>parts := restore_order p_id
                                                                     originalPartIds (parts g)\<rparr>))
                                                            (groups r')\<rparr>))),
                                      inserted),
                                 rundown2)))))"

section \<open>Commands on the rundown that check the lock\<close>

text \<open>
  The commands below address a group or a part of a rundown by id; the state is the
  rundown that \<open>storage.getRundown\<close> hands out. They return an undoable result with its
  description, inverse and result value, or \<open>undefined\<close>.
\<close>

datatype 'r rundown_result =
    RundownUndoable string RundownUndo 'r
  | RundownUndefined

type_synonym 'r rundown_outcome = "(exn + 'r rundown_result) \<times> Rundown"

text \<open>\<open>getGroup\<close> and \<open>getPart\<close> of the class (lines 196 to 229).\<close>

definition getGroup :: "Rundown \<Rightarrow> string \<Rightarrow> exn + Group" where
  "getGroup rundown groupId =
     (case findGroup rundown groupId of
        None \<Rightarrow> Inl (group_not_found rundown groupId)
      | Some grp \<Rightarrow> Inr grp)"

definition getPart :: "Rundown \<Rightarrow> string \<Rightarrow> string \<Rightarrow> exn + Group \<times> Part" where
  "getPart rundown groupId partId =
     (case getGroup rundown groupId of
        Inl e \<Rightarrow> Inl e
      | Inr grp \<Rightarrow>
          (case findPart grp partId of
             None \<Rightarrow> Inl (part_not_found grp partId)
           | Some part \<Rightarrow> Inr (grp, part)))"

text \<open>
  Writing back a group that was found in the rundown and then changed in place. A
  group that is no longer in the rundown is not written.
\<close>

definition store_group :: "Rundown \<Rightarrow> Group \<Rightarrow> Rundown" where
  "store_group rundown grp =
     rundown\<lparr>groups := replace_first (\<lambda>g. g_id g = g_id grp) grp (groups rundown)\<rparr>"

text \<open>\<open>Array.prototype.findIndex\<close>: \<open>-1\<close> when no element satisfies the test.\<close>

fun findIndex :: "('a \<Rightarrow> bool) \<Rightarrow> 'a list \<Rightarrow> int" where
  "findIndex P [] = - 1"
| "findIndex P (x # xs) =
     (if P x then 0 else (let i = findIndex P xs in if i < 0 then - 1 else i + 1))"

text \<open>
  \<open>Partial\<close> of a timeline object with its resource, for the fields of the model.
\<close>

record TimelineObjPatch =
  tp_resourceId :: "string option"
  tp_layer :: "string option"
  tp_enable :: "TimelineEnable list option"

text \<open>
  Code that is not part of the sources at hand, taken as parameters. \<open>getDefaultPart\<close>;
  \<open>deletePart\<close> and \<open>deleteGroup\<close> of \<open>lib/util\<close>, which hand back what they removed and
  leave the container without it; \<open>findTimelineObjInRundown\<close>, which hands back the group
  and the part that hold a timeline object. \<open>shortID\<close>, \<open>getDefaultGroup\<close> and the
  collaborators of \<open>_saveUpdates\<close> are those of the insertions.

  The five commands on the timeline of a part work, once their lock check has passed,
  with \<open>findTimelineObj\<close>, \<open>deleteTimelineObj\<close>, \<open>getLastEndTime\<close>,
  \<open>TSRTimelineObjFromResource\<close>, the resources of the storage and the mappings of the
  project, none of which is in the sources. That work is a parameter of each command:
  it gets the arguments, the group and the part that were found, the time and the
  rundown. The lookups and the lock check that come before it are those of the class.
\<close>

record EditEnv =
  insert_env :: InsertEnv
  getDefaultPart :: Part
  util_deletePart :: "Group \<Rightarrow> string \<Rightarrow> Part option \<times> Group"
  util_deleteGroup :: "Rundown \<Rightarrow> string \<Rightarrow> Group option \<times> Rundown"
  findTimelineObjInRundown :: "Rundown \<Rightarrow> string \<Rightarrow> (Group \<times> Part) option"
  updateTimelineObj_work ::
    "string \<Rightarrow> TimelineObjPatch \<Rightarrow> Group \<Rightarrow> Part \<Rightarrow> int \<Rightarrow> Rundown \<Rightarrow> unit rundown_outcome"
  deleteTimelineObj_work ::
    "string \<Rightarrow> Group \<Rightarrow> Part \<Rightarrow> int \<Rightarrow> Rundown \<Rightarrow> unit rundown_outcome"
  insertTimelineObjs_work ::
    "TimelineObject list \<Rightarrow> MoveTarget option \<Rightarrow> Group \<Rightarrow> Part \<Rightarrow> int \<Rightarrow> Rundown
       \<Rightarrow> ((string \<times> string \<times> string) list) rundown_outcome"
  moveTimelineObjToNewLayer_work ::
    "string \<Rightarrow> Group \<Rightarrow> Part \<Rightarrow> int \<Rightarrow> Rundown \<Rightarrow> unit rundown_outcome"
  addResourcesToTimeline_work ::
    "string option \<Rightarrow> ResourceAny list \<Rightarrow> Group \<Rightarrow> Part \<Rightarrow> int \<Rightarrow> Rundown
       \<Rightarrow> unit rundown_outcome"

text \<open>
  \<open>setPartTrigger\<close> (lines 514 to 554). A trigger is an object, so \<open>arg.trigger\<close> and
  \<open>triggerToEdit\<close> are truthy when they are there. \<open>_saveUpdates\<close> is called without a
  group and changes nothing in the rundown.
\<close>

definition setPartTrigger ::
  "string \<Rightarrow> string \<Rightarrow> RundownTrigger option \<Rightarrow> int option \<Rightarrow> Rundown \<Rightarrow> unit rundown_outcome" where
  "setPartTrigger groupId partId trigger triggerIndex rundown =
     (case getPart rundown groupId partId of
        Inl e \<Rightarrow> (Inl e, rundown)
      | Inr (grp, part) \<Rightarrow>
          if g_locked grp \<or> p_locked part then (Inr RundownUndefined, rundown)
          else
            (let originalTriggers = p_triggers part;
                 triggers =
                   (case triggerIndex of
                      None \<Rightarrow> (case trigger of Some t \<Rightarrow> [t] | None \<Rightarrow> [])
                    | Some i \<Rightarrow>
                        (case trigger of
                           None \<Rightarrow> splice_delete i 1 (p_triggers part)
                         | Some t \<Rightarrow>
                             (case js_index (p_triggers part) i of
                                Some triggerToEdit \<Rightarrow> (p_triggers part)[nat i := t]
                              | None \<Rightarrow> p_triggers part @ [t])));
                 rundown' = store_group rundown
                              (store_part grp partId (part\<lparr>p_triggers := triggers\<rparr>))
             in (Inr (RundownUndoable ''SetPartTrigger''
                       (\<lambda>t r. case getPart r groupId partId of
                                 Inl e \<Rightarrow> (Some e, r)
                               | Inr (g, p) \<Rightarrow>
                                   (None, store_group r
                                            (store_part g partId
                                               (p\<lparr>p_triggers := originalTriggers\<rparr>))))
                       ()),
                 rundown')))"

text \<open>
  \<open>newPart\<close> (lines 663 to 724). With a group id that is truthy the part goes into that
  group, unless the group is locked; otherwise a transparent group is made for it.
\<close>

definition newPart ::
  "EditEnv \<Rightarrow> string option \<Rightarrow> string \<Rightarrow> Rundown \<Rightarrow> (string \<times> string option) rundown_outcome" where
  "newPart env groupId name rundown =
     (let newPart = (getDefaultPart env)\<lparr>p_id := shortID (insert_env env) 0, p_name := name\<rparr>;
          newGroup = (getDefaultGroup (insert_env env))
                       \<lparr>g_id := shortID (insert_env env) 1, g_name := name,
                        transparent := True, parts := [newPart]\<rparr>;
          transparentGroupId = g_id newGroup;
          asTransparentGroup =
            (Inr (RundownUndoable ''NewPart''
                   (\<lambda>t r. if transparentGroupId \<noteq> []
                           then (None, r\<lparr>groups := filter (\<lambda>g. g_id g \<noteq> transparentGroupId)
                                                      (groups r)\<rparr>)
                           else (None, r))
                   (p_id newPart,
                    if transparentGroupId \<noteq> [] then Some transparentGroupId else None)),
             rundown\<lparr>groups := groups rundown @ [newGroup]\<rparr>)
      in case groupId of
           None \<Rightarrow> asTransparentGroup
         | Some gid \<Rightarrow>
             if gid = [] then asTransparentGroup
             else
               (case getGroup rundown gid of
                  Inl e \<Rightarrow> (Inl e, rundown)
                | Inr grp \<Rightarrow>
                    if g_locked grp then (Inr RundownUndefined, rundown)
                    else
                      (Inr (RundownUndoable ''NewPart''
                             (\<lambda>t r. case getGroup r gid of
                                       Inl e \<Rightarrow> (Some e, r)
                                     | Inr g \<Rightarrow>
                                         (None, store_group r
                                                  (g\<lparr>parts := filter (\<lambda>p. p_id p \<noteq> p_id newPart)
                                                                 (parts g)\<rparr>)))
                             (p_id newPart, None)),
                       store_group rundown (grp\<lparr>parts := parts grp @ [newPart]\<rparr>))))"

text \<open>
  \<open>deletePart\<close> (lines 1087 to 1130). The group is an object of the rundown;
  \<open>_saveUpdates\<close> updates it also when it has just been taken out as an emptied
  transparent group, and the inverse puts that object back.
\<close>

definition deletePart ::
  "EditEnv \<Rightarrow> string \<Rightarrow> string \<Rightarrow> int \<Rightarrow> Rundown \<Rightarrow> unit rundown_outcome" where
  "deletePart env groupId partId now rundown =
     (case getPart rundown groupId partId of
        Inl e \<Rightarrow> (Inl e, rundown)
      | Inr (grp, part) \<Rightarrow>
          if g_locked grp \<or> p_locked part then (Inr RundownUndefined, rundown)
          else
            (let deletedPartIndex = findIndex (\<lambda>p. p_id p = partId) (parts grp);
                 (deletedPart, grp1) = util_deletePart env grp partId;
                 rundown1 = store_group rundown grp1;
                 emptied = (transparent grp1 \<and> parts grp1 = []);
                 deletedTransparentGroupIndex =
                   (if emptied then findIndex (\<lambda>g. g_id g = groupId) (groups rundown1) else - 1);
                 (deletedTransparentGroup, rundown2) =
                   (if emptied then util_deleteGroup env rundown1 (g_id grp1)
                    else (None, rundown1));
                 grp2 = saveUpdates_group (collaborators (insert_env env)) now False grp1;
                 rundown3 = store_group rundown2 grp2
             in (Inr (RundownUndoable ''DeletePart''
                       (\<lambda>t r.
                          case deletedPart of
                            None \<Rightarrow> (None, r)
                          | Some part' \<Rightarrow>
                              (case deletedTransparentGroup of
                                 Some removed \<Rightarrow>
                                   (None, r\<lparr>groups :=
                                            splice_insert deletedTransparentGroupIndex
                                              (grp2\<lparr>parts := parts grp2 @ [part']\<rparr>) (groups r)\<rparr>)
                               | None \<Rightarrow>
                                   (case getGroup r groupId of
                                      Inl e \<Rightarrow> (Some e, r)
                                    | Inr g \<Rightarrow>
                                        (None, store_group r
                                                 (g\<lparr>parts := splice_insert deletedPartIndex part'
                                                                (parts g)\<rparr>)))))
                       ()),
                 rundown3)))"

text \<open>
  \<open>deleteGroup\<close> (lines 1131 to 1160): the group is stopped and saved, taken out of the
  rundown, and saved again.
\<close>

definition deleteGroup ::
  "EditEnv \<Rightarrow> string \<Rightarrow> int \<Rightarrow> Rundown \<Rightarrow> unit rundown_outcome" where
  "deleteGroup env groupId now rundown =
     (case getGroup rundown groupId of
        Inl e \<Rightarrow> (Inl e, rundown)
      | Inr grp \<Rightarrow>
          if g_locked grp then (Inr RundownUndefined, rundown)
          else
            (let grp1 = saveUpdates_group (collaborators (insert_env env)) now False
                          (grp\<lparr>playingParts := []\<rparr>);
                 rundown1 = store_group rundown grp1;
                 deletedGroupIndex = findIndex (\<lambda>g. g_id g = g_id grp1) (groups rundown1);
                 (deletedGroup, rundown2) = util_deleteGroup env rundown1 (g_id grp1);
                 grp2 = saveUpdates_group (collaborators (insert_env env)) now False grp1;
                 rundown3 = store_group rundown2 grp2
             in (Inr (RundownUndoable ''DeleteGroup''
                       (\<lambda>t r.
                          case deletedGroup of
                            None \<Rightarrow> (None, r)
                          | Some removed \<Rightarrow>
                              (None, r\<lparr>groups :=
                                       splice_insert deletedGroupIndex
                                         (saveUpdates_group (collaborators (insert_env env)) t False
                                            grp2)
                                         (groups r)\<rparr>))
                       ()),
                 rundown3)))"

text \<open>
  The commands on the timeline of a part: \<open>updateTimelineObj\<close> (lines 1464 to 1504),
  \<open>deleteTimelineObj\<close> (1505 to 1542), which looks the object up in the whole rundown
  and throws before its lock check when there is none, \<open>insertTimelineObjs\<close> (1543 to
  1667), \<open>moveTimelineObjToNewLayer\<close> (1668 to 1720) and \<open>addResourcesToTimeline\<close> (1722
  to 1843).
\<close>

definition updateTimelineObj ::
  "EditEnv \<Rightarrow> string \<Rightarrow> string \<Rightarrow> string \<Rightarrow> TimelineObjPatch \<Rightarrow> int \<Rightarrow> Rundown
     \<Rightarrow> unit rundown_outcome" where
  "updateTimelineObj env groupId partId timelineObjId timelineObj now rundown =
     (case getPart rundown groupId partId of
        Inl e \<Rightarrow> (Inl e, rundown)
      | Inr (grp, part) \<Rightarrow>
          if g_locked grp \<or> p_locked part then (Inr RundownUndefined, rundown)
          else updateTimelineObj_work env timelineObjId timelineObj grp part now rundown)"

definition deleteTimelineObj ::
  "EditEnv \<Rightarrow> string \<Rightarrow> int \<Rightarrow> Rundown \<Rightarrow> unit rundown_outcome" where
  "deleteTimelineObj env timelineObjId now rundown =
     (case findTimelineObjInRundown env rundown timelineObjId of
        None \<Rightarrow> (Inl (Error (''TimelineObj '' @ timelineObjId @ '' not found.'')), rundown)
      | Some (grp, part) \<Rightarrow>
          if g_locked grp \<or> p_locked part then (Inr RundownUndefined, rundown)
          else deleteTimelineObj_work env timelineObjId grp part now rundown)"

definition insertTimelineObjs ::
  "EditEnv \<Rightarrow> string \<Rightarrow> string \<Rightarrow> TimelineObject list \<Rightarrow> MoveTarget option \<Rightarrow> int \<Rightarrow> Rundown
     \<Rightarrow> ((string \<times> string \<times> string) list) rundown_outcome" where
  "insertTimelineObjs env groupId partId timelineObjs target now rundown =
     (case getPart rundown groupId partId of
        Inl e \<Rightarrow> (Inl e, rundown)
      | Inr (grp, part) \<Rightarrow>
          if g_locked grp \<or> p_locked part then (Inr RundownUndefined, rundown)
          else insertTimelineObjs_work env timelineObjs target grp part now rundown)"

definition moveTimelineObjToNewLayer ::
  "EditEnv \<Rightarrow> string \<Rightarrow> string \<Rightarrow> string \<Rightarrow> int \<Rightarrow> Rundown \<Rightarrow> unit rundown_outcome" where
  "moveTimelineObjToNewLayer env groupId partId timelineObjId now rundown =
     (case getPart rundown groupId partId of
        Inl e \<Rightarrow> (Inl e, rundown)
      | Inr (grp, part) \<Rightarrow>
          if g_locked grp \<or> p_locked part then (Inr RundownUndefined, rundown)
          else moveTimelineObjToNewLayer_work env timelineObjId grp part now rundown)"

text \<open>
  \<open>addResourcesToTimeline\<close> as a command of its own (the insertions above take the whole
  method as a parameter).
\<close>

definition addResourcesToTimeline_command ::
  "EditEnv \<Rightarrow> string \<Rightarrow> string \<Rightarrow> string option \<Rightarrow> ResourceAny list \<Rightarrow> int \<Rightarrow> Rundown
     \<Rightarrow> unit rundown_outcome" where
  "addResourcesToTimeline_command env groupId partId layerId resourceIds now rundown =
     (case getPart rundown groupId partId of
        Inl e \<Rightarrow> (Inl e, rundown)
      | Inr (grp, part) \<Rightarrow>
          if g_locked grp \<or> p_locked part then (Inr RundownUndefined, rundown)
          else addResourcesToTimeline_work env layerId resourceIds grp part now rundown)"

text \<open>
  A command on the rundown has no effect: it returns \<open>undefined\<close> and the rundown is as
  before.
\<close>

definition rundown_no_op :: "'r rundown_outcome \<Rightarrow> Rundown \<Rightarrow> bool" where
  "rundown_no_op outcome rundown \<longleftrightarrow> fst outcome = Inr RundownUndefined \<and> snd outcome = rundown"

fun rundown_undoable :: "exn + 'r rundown_result \<Rightarrow> bool" where
  "rundown_undoable (Inr (RundownUndoable d u r)) = True"
| "rundown_undoable _ = False"


section \<open>The timeline of a group\<close>

text \<open>The decimal digits of a counter, as a template literal prints it.\<close>

definition digit_char :: "nat \<Rightarrow> char" where
  "digit_char d = ''0123456789'' ! d"

function string_of_nat :: "nat \<Rightarrow> string" where
  "string_of_nat n =
     (if n < 10 then [digit_char n] else string_of_nat (n div 10) @ [digit_char (n mod 10)])"
  by pat_completeness auto
termination
  by (relation "measure id") auto

declare string_of_nat.simps [simp del]

text \<open>
  \<open>str.replace(new RegExp(oldId, 'g'), newId)\<close> for an id without characters that are
  special in a regular expression or in a replacement string: every occurrence of the
  id, left to right and not overlapping, becomes the new id. The empty pattern matches
  before every character and at the end.
\<close>

function replace_all :: "string \<Rightarrow> string \<Rightarrow> string \<Rightarrow> string" where
  "replace_all pat rep str =
     (if pat = [] then
        (case str of [] \<Rightarrow> rep | c # cs \<Rightarrow> rep @ c # replace_all pat rep cs)
      else if str = [] then []
      else if take (length pat) str = pat
        then rep @ replace_all pat rep (drop (length pat) str)
        else hd str # replace_all pat rep (tl str))"
  by pat_completeness auto
termination
  by (relation "measure (\<lambda>(pat, rep, str). length str)") auto

declare replace_all.simps [simp del]

definition pauseLastFrame :: bool where
  "pauseLastFrame = True"

text \<open>
  \<open>idCount\<close> and \<open>changedIds\<close> are \<open>Map\<close>s: association lists in insertion order, a
  \<open>set\<close> on a key that is there keeps its place.
\<close>

type_synonym IdCount = "(string \<times> nat) list"

type_synonym ChangedIds = "(string \<times> string) list"

definition id_count :: "IdCount \<Rightarrow> string \<Rightarrow> nat" where
  "id_count idCount ident = (case map_of idCount ident of None \<Rightarrow> 0 | Some c \<Rightarrow> c)"

definition makeUniqueId :: "string \<Rightarrow> IdCount \<Rightarrow> string \<times> IdCount" where
  "makeUniqueId ident idCount =
     (let count = id_count idCount ident
      in (ident @ ''_'' @ string_of_nat count, AList.update ident (count + 1) idCount))"

definition getUniqueId :: "string \<Rightarrow> IdCount \<Rightarrow> string \<times> IdCount" where
  "getUniqueId ident idCount =
     (let count = id_count idCount ident;
          idCount' = AList.update ident (count + 1) idCount
      in if count = 0 then (ident, idCount') else (ident @ ''_'' @ string_of_nat count, idCount'))"

text \<open>
  \<open>changeTimelineIdInnerKeyframe\<close> writes the new id into the keyframe first and then
  stores \<open>changedIds.set(obj.id, newId)\<close>, so the entry maps the new id to itself.
\<close>

definition changeTimelineIdInnerKeyframe ::
  "TimelineKeyframe \<Rightarrow> IdCount \<times> ChangedIds \<Rightarrow> TimelineKeyframe \<times> IdCount \<times> ChangedIds" where
  "changeTimelineIdInnerKeyframe kf st =
     (case getUniqueId (kf_id kf) (fst st) of
        (newId, idCount') \<Rightarrow>
          (TimelineKeyframe newId (kf_enable kf), idCount', AList.update newId newId (snd st)))"

fun changeTimelineIdInnerKeyframes ::
  "TimelineKeyframe list \<Rightarrow> IdCount \<times> ChangedIds \<Rightarrow> TimelineKeyframe list \<times> IdCount \<times> ChangedIds" where
  "changeTimelineIdInnerKeyframes [] st = ([], st)"
| "changeTimelineIdInnerKeyframes (kf # kfs) st =
     (case changeTimelineIdInnerKeyframe kf st of
        (kf', st1) \<Rightarrow>
          (case changeTimelineIdInnerKeyframes kfs st1 of
             (kfs', st2) \<Rightarrow> (kf' # kfs', st2)))"

text \<open>
  \<open>changeTimelineIdInnerObj\<close> with \<open>getUniqueId\<close> as \<open>changeId\<close> (the one function
  \<open>sectionToTimelineObj\<close> passes): the object, then its children, then its keyframes.
\<close>

fun changeTimelineIdInnerObj ::
    "TimelineObject \<Rightarrow> IdCount \<times> ChangedIds \<Rightarrow> TimelineObject \<times> IdCount \<times> ChangedIds"
  and changeTimelineIdInnerObjs ::
    "TimelineObject list \<Rightarrow> IdCount \<times> ChangedIds \<Rightarrow> TimelineObject list \<times> IdCount \<times> ChangedIds"
  where
  "changeTimelineIdInnerObj (TimelineObject oldId en layer children keyframes) st =
     (case getUniqueId oldId (fst st) of
        (newId, idCount1) \<Rightarrow>
          (case changeTimelineIdInnerObjs children (idCount1, AList.update oldId newId (snd st)) of
             (children', st2) \<Rightarrow>
               (case changeTimelineIdInnerKeyframes keyframes st2 of
                  (keyframes', st3) \<Rightarrow> (TimelineObject newId en layer children' keyframes', st3))))"
| "changeTimelineIdInnerObjs [] st = ([], st)"
| "changeTimelineIdInnerObjs (obj # objs) st =
     (case changeTimelineIdInnerObj obj st of
        (obj', st1) \<Rightarrow>
          (case changeTimelineIdInnerObjs objs st1 of
             (objs', st2) \<Rightarrow> (obj' # objs', st2)))"

fun updateTimelineExpression :: "ChangedIds \<Rightarrow> Expression \<Rightarrow> Expression" where
  "updateTimelineExpression changedIds (ENum n) = ENum n"
| "updateTimelineExpression changedIds ENull = ENull"
| "updateTimelineExpression changedIds (EStr str) =
     (if str = [] then EStr str
      else EStr (fold (\<lambda>(oldId, newId) s. replace_all oldId newId s) changedIds str))"
| "updateTimelineExpression changedIds (EObj l o' r) =
     EObj (updateTimelineExpression changedIds l) o' (updateTimelineExpression changedIds r)"

definition updateTimelineEnable :: "ChangedIds \<Rightarrow> TimelineEnable list \<Rightarrow> TimelineEnable list" where
  "updateTimelineEnable changedIds enables =
     map (\<lambda>enable.
            \<lparr>enable_start = map_option (updateTimelineExpression changedIds) (enable_start enable),
             enable_end = map_option (updateTimelineExpression changedIds) (enable_end enable),
             enable_while = map_option (updateTimelineExpression changedIds) (enable_while enable),
             enable_duration =
               (if \<not> pauseLastFrame
                then map_option (updateTimelineExpression changedIds) (enable_duration enable)
                else Some (ENum Infinity)),
             enable_repeating =
               map_option (updateTimelineExpression changedIds) (enable_repeating enable)\<rparr>)
       enables"

fun updateTimelineReferences :: "ChangedIds \<Rightarrow> TimelineObject \<Rightarrow> TimelineObject" where
  "updateTimelineReferences changedIds (TimelineObject ident en layer children keyframes) =
     TimelineObject ident (updateTimelineEnable changedIds en) layer
       (map (updateTimelineReferences changedIds) children)
       (map (\<lambda>kf. TimelineKeyframe (kf_id kf) (updateTimelineEnable changedIds (kf_enable kf)))
          keyframes)"

text \<open>\<open>changeTimelineId\<close>: new ids first, then the references, with a fresh \<open>changedIds\<close>.\<close>

definition changeTimelineId :: "TimelineObject \<Rightarrow> IdCount \<Rightarrow> TimelineObject \<times> IdCount" where
  "changeTimelineId obj idCount =
     (case changeTimelineIdInnerObj obj (idCount, []) of
        (obj', idCount', changedIds) \<Rightarrow> (updateTimelineReferences changedIds obj', idCount'))"

text \<open>
  The content of a part comes from the caller's \<open>customPartContent\<close> or from the
  timeline of the part, each object passed through \<open>modifyTimelineObjectForPlayout\<close>
  of \<open>lib/TimelineObj\<close>, which is not part of the sources at hand.
\<close>

record TimelineEnv =
  customPartContent ::
    "(Group \<Rightarrow> GroupPreparedPlayDataPart \<Rightarrow> string \<Rightarrow> bool \<Rightarrow> TimelineObject list) option"
  modifyTimelineObjectForPlayout ::
    "TimelineObject \<Rightarrow> GroupPreparedPlayDataPart \<Rightarrow> int option \<Rightarrow> TimelineObject"

definition duration_expression :: "number option \<Rightarrow> Expression" where
  "duration_expression d = (case d of None \<Rightarrow> ENull | Some n \<Rightarrow> ENum n)"

definition partToTimelineObj ::
  "TimelineEnv \<Rightarrow> string \<Rightarrow> Group \<Rightarrow> GroupPreparedPlayDataPart \<Rightarrow> int \<Rightarrow> int option \<Rightarrow> int option
     \<Rightarrow> TimelineObject" where
  "partToTimelineObj env objId grp playingPart startTime' pauseTime' stopTime' =
     (let part = pp_part playingPart;
          paused = (pauseTime' \<noteq> None);
          enable =
            \<lparr>enable_start = Some (ENum (Num startTime')),
             enable_end = None,
             enable_while = None,
             enable_duration =
               (if paused then None else Some (duration_expression (p_resolved_duration part))),
             enable_repeating =
               (if paused \<or> \<not> p_loop part then None
                else Some (duration_expression (p_resolved_duration part)))\<rparr>
      in TimelineObject objId [enable] objId
           (case customPartContent env of
              Some content \<Rightarrow> content grp playingPart objId paused
            | None \<Rightarrow>
                map (\<lambda>obj. modifyTimelineObjectForPlayout env obj playingPart pauseTime')
                  (p_timeline part))
           [])"

text \<open>The loop over the parts of a section, in \<open>sectionToTimelineObj\<close>.\<close>

fun section_parts ::
  "TimelineEnv \<Rightarrow> Group \<Rightarrow> GroupPreparedPlayDataSection \<Rightarrow> GroupPreparedPlayDataPart list
     \<Rightarrow> IdCount \<Rightarrow> TimelineObject list \<times> IdCount" where
  "section_parts env grp section [] idCount = ([], idCount)"
| "section_parts env grp section (part # rest) idCount =
     (case makeUniqueId (p_id (pp_part part)) idCount of
        (objId, idCount1) \<Rightarrow>
          (case changeTimelineId
                  (partToTimelineObj env objId grp part (pp_startTime part - sec_startTime section)
                     (sec_pauseTime section) (sec_stopTime section))
                  idCount1 of
             (obj, idCount2) \<Rightarrow>
               (case section_parts env grp section rest idCount2 of
                  (objs, idCount3) \<Rightarrow> (obj # objs, idCount3))))"

definition sectionToTimelineObj ::
  "TimelineEnv \<Rightarrow> Group \<Rightarrow> GroupPreparedPlayDataSection \<Rightarrow> string \<Rightarrow> string \<Rightarrow> IdCount
     \<Rightarrow> TimelineObject list \<times> IdCount" where
  "sectionToTimelineObj env grp section ident layer idCount =
     (case section_parts env grp section (sec_parts section) idCount of
        (children, idCount') \<Rightarrow>
          (let sectionContentObj =
                 TimelineObject (''section_content_'' @ ident)
                   [\<lparr>enable_start = Some (ENum (Num 0)), enable_end = None, enable_while = None,
                     enable_duration = None,
                     enable_repeating =
                       (if sec_repeating section
                        then Some (duration_expression (sec_duration section)) else None)\<rparr>]
                   (layer @ ''_content'') children [];
               sectionObj =
                 TimelineObject (''section_'' @ ident)
                   [\<lparr>enable_start = Some (ENum (Num (sec_startTime section))), enable_end = None,
                     enable_while = None, enable_duration = None, enable_repeating = None\<rparr>]
                   layer [sectionContentObj] []
           in (if length children > 0 then [sectionObj] else [], idCount')))"

text \<open>The loop over the sections of prepared data of type \<open>single\<close> (lines 48 to 68).\<close>

definition end_or_infinity :: "int option \<Rightarrow> number" where
  "end_or_infinity endTime =
     (case endTime of None \<Rightarrow> Infinity | Some e \<Rightarrow> if e = 0 then Infinity else Num e)"

fun single_sections ::
  "TimelineEnv \<Rightarrow> Group \<Rightarrow> GroupPreparedPlayDataSection list \<Rightarrow> nat
     \<Rightarrow> number \<times> number \<times> TimelineObject list \<times> IdCount
     \<Rightarrow> number \<times> number \<times> TimelineObject list \<times> IdCount" where
  "single_sections env grp [] i st = st"
| "single_sections env grp (section # rest) i (firstStart, lastEnd, children, idCount) =
     (let firstStart' = js_min (Num (sec_startTime section)) firstStart;
          lastEnd' = (if sec_stopTime section \<noteq> None \<or> \<not> pauseLastFrame
                      then js_max (end_or_infinity (sec_endTime section)) lastEnd
                      else Infinity)
      in case sectionToTimelineObj env grp section (g_id grp @ ''_'' @ string_of_nat i)
                (g_id grp) idCount of
           (objs, idCount') \<Rightarrow>
             single_sections env grp rest (i + 1) (firstStart', lastEnd', children @ objs, idCount'))"

text \<open>
  "Modify times to be relative to the group" (lines 87 to 93): the numeric \<open>start\<close> and
  \<open>end\<close> of the enables of one object.
\<close>

definition rebase_expression :: "number \<Rightarrow> Expression option \<Rightarrow> Expression option" where
  "rebase_expression firstStart e =
     (case e of Some (ENum n) \<Rightarrow> Some (ENum (js_minus n firstStart)) | _ \<Rightarrow> e)"

definition rebase_object :: "number \<Rightarrow> TimelineObject \<Rightarrow> TimelineObject" where
  "rebase_object firstStart obj =
     TimelineObject (obj_id obj)
       (map (\<lambda>enable. enable\<lparr>enable_start := rebase_expression firstStart (enable_start enable),
                              enable_end := rebase_expression firstStart (enable_end enable)\<rparr>)
          (obj_enable obj))
       (obj_layer obj) (obj_children obj) (obj_keyframes obj)"

definition start_only :: "Expression \<Rightarrow> TimelineEnable" where
  "start_only e = \<lparr>enable_start = Some e, enable_end = None, enable_while = None,
                   enable_duration = None, enable_repeating = None\<rparr>"

text \<open>The loops of prepared data of type \<open>multi\<close> (lines 112 to 147).\<close>

fun multi_sections ::
  "TimelineEnv \<Rightarrow> Group \<Rightarrow> string \<Rightarrow> GroupPreparedPlayDataSection list \<Rightarrow> nat \<Rightarrow> IdCount
     \<Rightarrow> TimelineObject list \<times> IdCount" where
  "multi_sections env grp partId [] i idCount = ([], idCount)"
| "multi_sections env grp partId (section # rest) i idCount =
     (case sectionToTimelineObj env grp section
             (g_id grp @ ''_'' @ partId @ ''_'' @ string_of_nat i) (g_id grp @ ''_'' @ partId)
             idCount of
        (children, idCount1) \<Rightarrow>
          (let timelineGroupPart =
                 TimelineObject (''group_'' @ g_id grp @ ''_'' @ partId @ ''_'' @ string_of_nat i)
                   [start_only (ENum (Num 0))] (''__group_'' @ g_id grp @ ''_'' @ partId) children []
           in case multi_sections env grp partId rest (i + 1) idCount1 of
                (objs, idCount2) \<Rightarrow>
                  ((if length children > 0 then [timelineGroupPart] else []) @ objs, idCount2)))"

fun multi_parts ::
  "TimelineEnv \<Rightarrow> Group \<Rightarrow> (string \<times> GroupPreparedPlayDataSection list) list \<Rightarrow> IdCount
     \<Rightarrow> TimelineObject list \<times> IdCount" where
  "multi_parts env grp [] idCount = ([], idCount)"
| "multi_parts env grp ((partId, sections) # rest) idCount =
     (case multi_sections env grp partId sections 0 idCount of
        (objs, idCount1) \<Rightarrow>
          (case multi_parts env grp rest idCount1 of
             (objs', idCount2) \<Rightarrow> (objs @ objs', idCount2)))"

definition getTimelineForGroup ::
  "TimelineEnv \<Rightarrow> Group \<Rightarrow> GroupPreparedPlayData option \<Rightarrow> TimelineObject list option" where
  "getTimelineForGroup env grp prepared =
     (case prepared of
        None \<Rightarrow> None
      | Some (Single sections) \<Rightarrow>
          (case single_sections env grp sections 0 (Infinity, Num 0, [], []) of
             (firstStart, lastEnd, children, idCount) \<Rightarrow>
               Some (if length children > 0
                     then [TimelineObject (''group_'' @ g_id grp)
                             [\<lparr>enable_start = Some (ENum firstStart),
                               enable_end = (if lastEnd = Infinity then None else Some (ENum lastEnd)),
                               enable_while = None, enable_duration = None,
                               enable_repeating = None\<rparr>]
                             (''__group_'' @ g_id grp)
                             (map (rebase_object firstStart) children) []]
                     else []))
      | Some (Multi sections) \<Rightarrow>
          (case multi_parts env grp sections [] of
             (children, idCount) \<Rightarrow>
               Some (if length children > 0
                     then [TimelineObject (''group_'' @ g_id grp) [start_only (ENum (Num 0))]
                             (''__group_'' @ g_id grp) children []]
                     else [])))"

text \<open>
  The shape of the tree of prepared data of type \<open>single\<close>: the \<open>start\<close> of the enables
  of an object; a part object that starts where the part starts in its section; and a
  section object that starts at the start of its section less \<open>firstStart\<close>, with one
  content object at \<open>0\<close> that holds the part objects of the section.
\<close>

definition starts_of :: "TimelineObject \<Rightarrow> Expression option list" where
  "starts_of obj = map enable_start (obj_enable obj)"

definition part_object_at :: "GroupPreparedPlayDataSection \<Rightarrow> GroupPreparedPlayDataPart \<Rightarrow> TimelineObject \<Rightarrow> bool" where
  "part_object_at section part obj \<longleftrightarrow>
     starts_of obj = [Some (ENum (Num (pp_startTime part - sec_startTime section)))]"

definition section_object_at :: "int \<Rightarrow> GroupPreparedPlayDataSection \<Rightarrow> TimelineObject \<Rightarrow> bool" where
  "section_object_at firstStart section obj \<longleftrightarrow>
     starts_of obj = [Some (ENum (Num (sec_startTime section - firstStart)))]
     \<and> (case obj_children obj of
          [content] \<Rightarrow>
            starts_of content = [Some (ENum (Num 0))]
            \<and> list_all2 (part_object_at section) (sec_parts section) (obj_children content)
        | _ \<Rightarrow> False)"


section \<open>The session handler\<close>

text \<open>
  \<open>SessionHandler\<close> holds resources, bridge statuses, peripherals and triggers in
  objects used as dictionaries (association lists in insertion order), and for each a
  dictionary of the keys that have changed (the list of its keys). A resource is \<open>'r\<close>,
  a bridge status \<open>'b\<close>. The model adds what the class does to the outside: \<open>emitted\<close>,
  the events passed to \<open>emit\<close>, and \<open>timersSet\<close>, the number of calls of \<open>setTimeout\<close>;
  \<open>emitTimeout\<close> tells whether a timer is pending.
\<close>

record Peripheral =
  per_id :: string
  per_bridgeId :: string
  per_name :: string
  per_lastConnected :: int
  per_connected :: bool

record ActiveTrigger =
  trg_fullIdentifier :: string
  trg_bridgeId :: string
  trg_deviceId :: string
  trg_deviceName :: string
  trg_identifier :: string

datatype ('r, 'b) SessionEvent =
    ResourceEvent string "'r option"
  | BridgeStatusEvent string "'b option"
  | PeripheralEvent string "Peripheral option"
  | AllTriggerEvent string "ActiveTrigger option"
  | ActiveTriggersEvent "ActiveTrigger list"

record ('r, 'b) SessionHandler =
  resources :: "(string \<times> 'r) list"
  resourcesHasChanged :: "string list"
  bridgeStatuses :: "(string \<times> 'b) list"
  bridgeStatusesHasChanged :: "string list"
  peripherals :: "(string \<times> Peripheral) list"
  peripheralsHasChanged :: "string list"
  allTriggers :: "(string \<times> ActiveTrigger) list"
  allTriggersHasChanged :: "string list"
  activeTriggers :: "(string \<times> ActiveTrigger) list"
  activeTriggersHasChanged :: bool
  emitTimeout :: bool
  emitEverything :: bool
  emitted :: "('r, 'b) SessionEvent list"
  timersSet :: nat

text \<open>\<open>hasChanged[key] = true\<close>: a new key goes to the end.\<close>

definition mark :: "string \<Rightarrow> string list \<Rightarrow> string list" where
  "mark key changed = (if key \<in> set changed then changed else changed @ [key])"

definition triggerUpdate :: "('r, 'b) SessionHandler \<Rightarrow> ('r, 'b) SessionHandler" where
  "triggerUpdate s =
     (if \<not> emitTimeout s then s\<lparr>emitTimeout := True, timersSet := timersSet s + 1\<rparr> else s)"

definition getResource :: "('r, 'b) SessionHandler \<Rightarrow> string \<Rightarrow> 'r option" where
  "getResource s ident = map_of (resources s) ident"

definition updateResource ::
  "string \<Rightarrow> 'r option \<Rightarrow> ('r, 'b) SessionHandler \<Rightarrow> ('r, 'b) SessionHandler" where
  "updateResource ident resource s =
     triggerUpdate
       (case resource of
          Some r \<Rightarrow> s\<lparr>resources := AList.update ident r (resources s),
                       resourcesHasChanged := mark ident (resourcesHasChanged s)\<rparr>
        | None \<Rightarrow> s\<lparr>resources := AList.delete ident (resources s),
                     resourcesHasChanged := mark ident (resourcesHasChanged s)\<rparr>)"

definition getBridgeStatus :: "('r, 'b) SessionHandler \<Rightarrow> string \<Rightarrow> 'b option" where
  "getBridgeStatus s ident = map_of (bridgeStatuses s) ident"

definition updateBridgeStatus ::
  "string \<Rightarrow> 'b option \<Rightarrow> ('r, 'b) SessionHandler \<Rightarrow> ('r, 'b) SessionHandler" where
  "updateBridgeStatus ident bridgeStatus s =
     triggerUpdate
       (case bridgeStatus of
          Some b \<Rightarrow> s\<lparr>bridgeStatuses := AList.update ident b (bridgeStatuses s),
                       bridgeStatusesHasChanged := mark ident (bridgeStatusesHasChanged s)\<rparr>
        | None \<Rightarrow>
            (if map_of (bridgeStatuses s) ident \<noteq> None
             then s\<lparr>bridgeStatuses := AList.delete ident (bridgeStatuses s),
                     bridgeStatusesHasChanged := mark ident (bridgeStatusesHasChanged s)\<rparr>
             else s))"

definition getPeripheralStatus ::
  "('r, 'b) SessionHandler \<Rightarrow> string \<Rightarrow> string \<Rightarrow> Peripheral option" where
  "getPeripheralStatus s bridgeId deviceId = map_of (peripherals s) (bridgeId @ ''-'' @ deviceId)"

text \<open>\<open>now\<close> is the reading of \<open>Date.now()\<close>; \<open>_.isEqual\<close> is equality of the records.\<close>

definition updatePeripheralStatus ::
  "string \<Rightarrow> string \<Rightarrow> string \<Rightarrow> bool \<Rightarrow> int \<Rightarrow> ('r, 'b) SessionHandler
     \<Rightarrow> ('r, 'b) SessionHandler" where
  "updatePeripheralStatus bridgeId deviceId deviceName connected now s =
     (let peripheralId = bridgeId @ ''-'' @ deviceId;
          existing = map_of (peripherals s) peripheralId;
          newDevice =
            \<lparr>per_id = deviceId, per_bridgeId = bridgeId, per_name = deviceName,
             per_lastConnected =
               (if connected then now
                else (case existing of None \<Rightarrow> 0 | Some e \<Rightarrow> per_lastConnected e)),
             per_connected = connected\<rparr>
      in triggerUpdate
           (if Some newDevice \<noteq> existing
            then s\<lparr>peripherals := AList.update peripheralId newDevice (peripherals s),
                    peripheralsHasChanged := mark peripheralId (peripheralsHasChanged s)\<rparr>
            else s))"

definition updatePeripheralTriggerStatus ::
  "string \<Rightarrow> string \<Rightarrow> string \<Rightarrow> bool \<Rightarrow> ('r, 'b) SessionHandler \<Rightarrow> ('r, 'b) SessionHandler" where
  "updatePeripheralTriggerStatus bridgeId deviceId identifier down s =
     (let fullIdentifier = bridgeId @ ''-'' @ deviceId @ ''-'' @ identifier;
          peripheralId = bridgeId @ ''-'' @ deviceId;
          trigger =
            \<lparr>trg_fullIdentifier = fullIdentifier, trg_bridgeId = bridgeId,
             trg_deviceId = deviceId,
             trg_deviceName = (case map_of (peripherals s) peripheralId of
                                 None \<Rightarrow> [] | Some device \<Rightarrow> per_name device),
             trg_identifier = identifier\<rparr>;
          s1 = (if map_of (allTriggers s) fullIdentifier = None
                then s\<lparr>allTriggers := AList.update fullIdentifier trigger (allTriggers s),
                        allTriggersHasChanged := mark fullIdentifier (allTriggersHasChanged s)\<rparr>
                else s);
          s2 = (if down
                then (if map_of (activeTriggers s1) fullIdentifier = None
                      then s1\<lparr>activeTriggers :=
                                AList.update fullIdentifier trigger (activeTriggers s1),
                              activeTriggersHasChanged := True\<rparr>
                      else s1)
                else (if map_of (activeTriggers s1) fullIdentifier \<noteq> None
                      then s1\<lparr>activeTriggers := AList.delete fullIdentifier (activeTriggers s1),
                              activeTriggersHasChanged := True\<rparr>
                      else s1))
      in triggerUpdate s2)"

definition triggerEmitAll :: "('r, 'b) SessionHandler \<Rightarrow> ('r, 'b) SessionHandler" where
  "triggerEmitAll s = triggerUpdate (s\<lparr>emitEverything := True\<rparr>)"

text \<open>
  \<open>emitChanges\<close>: with \<open>emitEverything\<close> every key counts as changed; then one event per
  changed key, with the value the key has now, and the keys are forgotten.
\<close>

definition emitChanges :: "('r, 'b) SessionHandler \<Rightarrow> ('r, 'b) SessionHandler" where
  "emitChanges s =
     (let s1 = (if emitEverything s
                then s\<lparr>resourcesHasChanged :=
                          fold mark (map fst (resources s)) (resourcesHasChanged s),
                        bridgeStatusesHasChanged :=
                          fold mark (map fst (bridgeStatuses s)) (bridgeStatusesHasChanged s),
                        peripheralsHasChanged :=
                          fold mark (map fst (peripherals s)) (peripheralsHasChanged s),
                        activeTriggersHasChanged := True,
                        emitEverything := False\<rparr>
                else s);
          events =
            map (\<lambda>k. ResourceEvent k (map_of (resources s1) k)) (resourcesHasChanged s1)
            @ map (\<lambda>k. BridgeStatusEvent k (map_of (bridgeStatuses s1) k))
                (bridgeStatusesHasChanged s1)
            @ map (\<lambda>k. PeripheralEvent k (map_of (peripherals s1) k)) (peripheralsHasChanged s1)
            @ map (\<lambda>k. AllTriggerEvent k (map_of (allTriggers s1) k)) (allTriggersHasChanged s1)
            @ (if activeTriggersHasChanged s1
               then [ActiveTriggersEvent (map snd (activeTriggers s1))] else [])
      in s1\<lparr>resourcesHasChanged := [], bridgeStatusesHasChanged := [],
             peripheralsHasChanged := [], allTriggersHasChanged := [],
             activeTriggersHasChanged := False, emitted := emitted s1 @ events\<rparr>)"

text \<open>The callback of the timer that \<open>triggerUpdate\<close> sets.\<close>

definition timer_fires :: "('r, 'b) SessionHandler \<Rightarrow> ('r, 'b) SessionHandler" where
  "timer_fires s = emitChanges (s\<lparr>emitTimeout := False\<rparr>)"

datatype ('r, 'b) Mutation =
    UpdateResource string "'r option"
  | UpdateBridgeStatus string "'b option"
  | UpdatePeripheralStatus string string string bool int
  | UpdatePeripheralTriggerStatus string string string bool

fun mutate :: "('r, 'b) Mutation \<Rightarrow> ('r, 'b) SessionHandler \<Rightarrow> ('r, 'b) SessionHandler" where
  "mutate (UpdateResource ident resource) s = updateResource ident resource s"
| "mutate (UpdateBridgeStatus ident bridgeStatus) s = updateBridgeStatus ident bridgeStatus s"
| "mutate (UpdatePeripheralStatus bridgeId deviceId deviceName connected now) s =
     updatePeripheralStatus bridgeId deviceId deviceName connected now s"
| "mutate (UpdatePeripheralTriggerStatus bridgeId deviceId identifier down) s =
     updatePeripheralTriggerStatus bridgeId deviceId identifier down s"

section \<open>Sample inputs\<close>

text \<open>Commands and closures over a counter, for the examples of the undo ledger.\<close>

definition sample_undo :: "nat UndoFunction" where
  "sample_undo w = (None, w - 1)"

definition sample_fcn :: "(nat, string, nat) UndoableFunction" where
  "sample_fcn a w = (Inr (Undoable a sample_undo (Some w)), w + 1)"

definition failing_undo :: "nat UndoFunction" where
  "failing_undo w = (Some (Error ''undo failed''), w)"

definition failing_fcn :: "(nat, string, nat) UndoableFunction" where
  "failing_fcn a w = (Inl (Error ''redo failed''), w)"

definition sample_action :: "string \<Rightarrow> (nat, string, nat) Action" where
  "sample_action d =
     \<lparr>description = d, arguments = d, redo = sample_fcn, undo = Some sample_undo\<rparr>"

definition failing_action :: "(nat, string, nat) Action" where
  "failing_action =
     \<lparr>description = ''bad'', arguments = ''bad'', redo = failing_fcn, undo = Some failing_undo\<rparr>"

text \<open>A solo group of two parts, and collaborators that change nothing.\<close>

definition sample_env :: Collaborators where
  "sample_env = \<lparr>updateTimeline = (\<lambda>g. None), updateGroupPlayingParts = (\<lambda>t g. g),
                  postProcessPart = (\<lambda>p. p)\<rparr>"

definition sample_part :: "string \<Rightarrow> Part" where
  "sample_part i = \<lparr>p_id = i, p_name = i, p_disabled = False, p_locked = False, p_loop = False,
                    p_duration = None, p_resolved_duration = Some (Num 1000), p_timeline = [],
                    p_triggers = []\<rparr>"

definition sample_group :: Group where
  "sample_group = \<lparr>g_id = ''G'', g_name = ''G'', transparent = False, oneAtATime = True,
                    autoPlay = False, g_loop = False, g_disabled = False, g_locked = False,
                    playoutMode = ''normal'', schedule = None,
                    parts = [sample_part ''A'', sample_part ''B''],
                    playingParts = [], preparedPlayData = None\<rparr>"

text \<open>
  A group with one-at-a-time set in which two parts are marked as playing, and a
  playhead lookup that finds nothing.
\<close>

definition crowded_group :: Group where
  "crowded_group = sample_group\<lparr>playingParts :=
     [(''A'', \<lparr>startTime = 1, pauseTime = None, stopTime = None, fromSchedule = False\<rparr>),
      (''B'', \<lparr>startTime = 2, pauseTime = None, stopTime = None, fromSchedule = False\<rparr>)]\<rparr>"

definition no_playheads :: "Group \<Rightarrow> string \<Rightarrow> GroupPlayDataPlayhead option" where
  "no_playheads grp partId = None"



definition scenario_sections :: GroupPreparedPlayData where
  "scenario_sections = Single
     [\<lparr>sec_startTime = 0, sec_endTime = Some 1000, sec_pauseTime = None, sec_stopTime = None,
       sec_repeating = False, sec_duration = Some (Num 1000),
       sec_parts = [\<lparr>pp_startTime = 0, pp_part = sample_part ''A''\<rparr>]\<rparr>,
      \<lparr>sec_startTime = 1000, sec_endTime = Some 3000, sec_pauseTime = None, sec_stopTime = None,
       sec_repeating = False, sec_duration = Some (Num 2000),
       sec_parts = [\<lparr>pp_startTime = 1000, pp_part = sample_part ''B''\<rparr>]\<rparr>]"

text \<open>Groups with stopped or locked content, and patches for them.\<close>

definition stopped_group :: Group where
  "stopped_group = sample_group\<lparr>playingParts :=
     [(''A'', \<lparr>startTime = 5, pauseTime = None, stopTime = Some 900, fromSchedule = False\<rparr>),
      (''B'', \<lparr>startTime = 7, pauseTime = Some 20, stopTime = None, fromSchedule = False\<rparr>),
      (''C'', \<lparr>startTime = 9, pauseTime = None, stopTime = Some 950, fromSchedule = True\<rparr>)]\<rparr>"

definition empty_group_patch :: GroupPatch where
  "empty_group_patch = \<lparr>gp_name = None, gp_oneAtATime = None, gp_autoPlay = None, gp_loop = None,
     gp_disabled = None, gp_locked = None, gp_playoutMode = None, gp_schedule = None,
     gp_parts = None, gp_playout = None\<rparr>"

definition activate_patch :: GroupPatch where
  "activate_patch = empty_group_patch\<lparr>gp_schedule := Some \<lparr>patch_activate = Some True\<rparr>\<rparr>"

definition empty_part_patch :: PartPatch where
  "empty_part_patch = \<lparr>patch_name = None, patch_disabled = None, patch_locked = None,
     patch_loop = None, patch_duration = None\<rparr>"

definition rename_locked_patch :: PartPatch where
  "rename_locked_patch = empty_part_patch\<lparr>patch_name := Some ''renamed'', patch_locked := Some True\<rparr>"

definition locked_part_group :: Group where
  "locked_part_group = sample_group\<lparr>parts := [(sample_part ''A'')\<lparr>p_locked := True\<rparr>, sample_part ''B'']\<rparr>"

definition locked_group :: Group where
  "locked_group = sample_group\<lparr>g_locked := True\<rparr>"

text \<open>
  A rundown with one group, batches to insert into it, and an environment in which
  every insertion goes to the end of the list and no resources are added.
\<close>

definition sample_position :: "MoveTarget \<Rightarrow> string list \<Rightarrow> int" where
  "sample_position target ids = int (length ids)"

definition sample_insert_env :: InsertEnv where
  "sample_insert_env =
     \<lparr>getPositionFromTarget = sample_position, shortID = (\<lambda>k. ''new'' @ replicate k CHR ''x''),
      getDefaultGroup = sample_group,
      addResourcesToTimeline = (\<lambda>groupId partId resources rundown. (Inr None, rundown)),
      collaborators = sample_env\<rparr>"

definition group_with :: "string \<Rightarrow> string list \<Rightarrow> Group" where
  "group_with i part_ids = sample_group\<lparr>g_id := i, g_name := i, parts := map sample_part part_ids\<rparr>"

definition sample_rundown :: Rundown where
  "sample_rundown = \<lparr>r_id = ''R'', r_name = ''R'', groups = [group_with ''X'' [''x1'']]\<rparr>"

definition group_item :: "string \<Rightarrow> string list \<Rightarrow> InsertGroupItem" where
  "group_item i part_ids = \<lparr>ig_group = group_with i part_ids, ig_resources = []\<rparr>"

definition part_item :: "string \<Rightarrow> InsertPartItem" where
  "part_item i = \<lparr>ip_part = sample_part i, ip_resources = []\<rparr>"

text \<open>
  Prepared data for the timeline: a part whose first object refers to its second,
  played twice in one section; and two sections with one part each. The content of a
  part object is the timeline of the part, handed back by the caller's function.
\<close>

definition own_timeline_env :: TimelineEnv where
  "own_timeline_env =
     \<lparr>customPartContent = Some (\<lambda>grp playingPart objId paused. p_timeline (pp_part playingPart)),
      modifyTimelineObjectForPlayout = (\<lambda>obj playingPart pause. obj)\<rparr>"

definition referring_part :: Part where
  "referring_part = (sample_part ''P'')\<lparr>p_timeline :=
     [TimelineObject ''obj'' [start_only (EStr ''#obj2.start'')] ''L1'' [] [],
      TimelineObject ''obj2'' [start_only (ENum (Num 0))] ''L2'' [] []]\<rparr>"

text \<open>
  A rundown with locked groups and a group that holds a locked part, and an
  environment in which parts and groups are deleted by their id and the work on the
  timeline of a part changes nothing.
\<close>

definition locked_rundown :: Rundown where
  "locked_rundown = \<lparr>r_id = ''R'', r_name = ''R'',
                      groups = [locked_group, locked_part_group\<lparr>g_id := ''H''\<rparr>,
                                sample_group\<lparr>g_id := ''F''\<rparr>,
                                locked_group\<lparr>g_id := ''T'', parts := [referring_part]\<rparr>]\<rparr>"

definition nothing_done :: "'r \<Rightarrow> Rundown \<Rightarrow> 'r rundown_outcome" where
  "nothing_done result rundown = (Inr (RundownUndoable ''work'' (\<lambda>t r. (None, r)) result), rundown)"

definition sample_edit_env :: EditEnv where
  "sample_edit_env =
     \<lparr>insert_env = sample_insert_env,
      getDefaultPart = sample_part ''new'',
      util_deletePart =
        (\<lambda>grp partId. (findPart grp partId,
                        grp\<lparr>parts := filter (\<lambda>p. p_id p \<noteq> partId) (parts grp)\<rparr>)),
      util_deleteGroup =
        (\<lambda>rundown groupId. (findGroup rundown groupId,
                             rundown\<lparr>groups := filter (\<lambda>g. g_id g \<noteq> groupId) (groups rundown)\<rparr>)),
      findTimelineObjInRundown =
        (\<lambda>rundown timelineObjId.
           find (\<lambda>(grp, part). timelineObjId \<in> set (map obj_id (p_timeline part)))
             (concat (map (\<lambda>grp. map (\<lambda>part. (grp, part)) (parts grp)) (groups rundown)))),
      updateTimelineObj_work = (\<lambda>timelineObjId patch grp part now. nothing_done ()),
      deleteTimelineObj_work = (\<lambda>timelineObjId grp part now. nothing_done ()),
      insertTimelineObjs_work = (\<lambda>timelineObjs target grp part now. nothing_done []),
      moveTimelineObjToNewLayer_work = (\<lambda>timelineObjId grp part now. nothing_done ()),
      addResourcesToTimeline_work = (\<lambda>layerId resourceIds grp part now. nothing_done ())\<rparr>"

definition layer_patch :: TimelineObjPatch where
  "layer_patch = \<lparr>tp_resourceId = None, tp_layer = Some ''L9'', tp_enable = None\<rparr>"

definition repeated_part_prepared :: GroupPreparedPlayData where
  "repeated_part_prepared = Single
     [\<lparr>sec_startTime = 1000, sec_endTime = Some 3000, sec_pauseTime = None, sec_stopTime = None,
       sec_repeating = False, sec_duration = Some (Num 2000),
       sec_parts = [\<lparr>pp_startTime = 1000, pp_part = referring_part\<rparr>,
                    \<lparr>pp_startTime = 2000, pp_part = referring_part\<rparr>]\<rparr>]"

definition two_sections :: "GroupPreparedPlayDataSection list" where
  "two_sections =
     [\<lparr>sec_startTime = 1000, sec_endTime = Some 3000, sec_pauseTime = None, sec_stopTime = Some 3000,
       sec_repeating = False, sec_duration = Some (Num 2000),
       sec_parts = [\<lparr>pp_startTime = 1000, pp_part = sample_part ''A''\<rparr>]\<rparr>,
      \<lparr>sec_startTime = 3000, sec_endTime = Some 5000, sec_pauseTime = None, sec_stopTime = Some 5000,
       sec_repeating = False, sec_duration = Some (Num 2000),
       sec_parts = [\<lparr>pp_startTime = 3500, pp_part = sample_part ''B''\<rparr>]\<rparr>]"

definition playing_forever :: TimelineEnable where
  "playing_forever = \<lparr>enable_start = None, enable_end = None, enable_while = None,
                       enable_duration = Some (ENum Infinity), enable_repeating = None\<rparr>"

text \<open>An empty session, and five updates that arrive before the timer runs.\<close>

definition empty_session :: "(string, string) SessionHandler" where
  "empty_session = \<lparr>resources = [], resourcesHasChanged = [], bridgeStatuses = [],
     bridgeStatusesHasChanged = [], peripherals = [], peripheralsHasChanged = [],
     allTriggers = [], allTriggersHasChanged = [], activeTriggers = [],
     activeTriggersHasChanged = False, emitTimeout = False, emitEverything = False,
     emitted = [], timersSet = 0\<rparr>"

definition sample_mutations :: "(string, string) Mutation list" where
  "sample_mutations =
     [UpdateResource ''clip'' (Some ''v1''), UpdateBridgeStatus ''b1'' (Some ''up''),
      UpdateResource ''clip'' (Some ''v2''),
      UpdatePeripheralStatus ''b1'' ''d1'' ''deck'' True 100,
      UpdatePeripheralTriggerStatus ''b1'' ''d1'' ''key'' True]"

section \<open>Properties of the undo ledger\<close>

lemma splice_delete_all [simp]: "splice_delete 0 (int (length xs)) xs = []"
  by (simp add: splice_delete_def splice_start_def)

lemma splice_delete_after:
  "- 1 \<le> p \<Longrightarrow> splice_delete (p + 1) (int (length xs)) xs = take (nat (p + 1)) xs"
  by (auto simp: splice_delete_def splice_start_def Let_def min_def max_def)

lemma splice_delete_front:
  "0 \<le> k \<Longrightarrow> splice_delete 0 k xs = drop (nat k) xs"
  by (auto simp: splice_delete_def splice_start_def Let_def min_def max_def)

lemma pointer_in_range_undo:
  "pointer_in_range srv \<Longrightarrow> pointer_in_range (snd (IPCServer_undo srv))"
  by (auto simp: pointer_in_range_def IPCServer_undo_def undo_body_def try_catch_def
      clear_ledger_def js_index_def Let_def split: option.splits prod.splits if_splits)

lemma pointer_in_range_redo:
  "pointer_in_range srv \<Longrightarrow> pointer_in_range (snd (IPCServer_redo srv))"
  by (auto simp: pointer_in_range_def IPCServer_redo_def redo_body_def try_catch_def
      clear_ledger_def js_index_def Let_def
      split: option.splits prod.splits if_splits sum.splits method_result.splits)

lemma pointer_in_range_handle:
  assumes "pointer_in_range srv" and "0 < max_len"
  shows "pointer_in_range (snd (ipc_handle max_len fcn args srv))"
proof -
  have pushed: "pointer_in_range
          (srv\<lparr>undoLedger := (if int (length l2) > max_len
                                then splice_delete 0 (int (length l2) - max_len) l2 else l2),
               undoPointer := int (length (if int (length l2) > max_len
                                then splice_delete 0 (int (length l2) - max_len) l2 else l2)) - 1,
               world := w\<rparr>)" if "l2 \<noteq> []" for l2 w
    using that assms(2) by (auto simp: pointer_in_range_def splice_delete_front)
  show ?thesis
    using assms(1) pushed
    by (auto simp: ipc_handle_def Let_def pointer_in_range_def
        split: prod.splits sum.splits method_result.splits)
qed

text \<open>
  Claim C4. When a command that returns an undoable result completes, the entries after
  the pointer are dropped, the new entry is appended, the oldest entries are evicted so
  that at most \<open>MAX_UNDO_LEDGER_LENGTH\<close> of the most recent ones remain, and the pointer
  ends at the last entry, which is the new one.
\<close>

theorem ledger_push_bounded:
  assumes call: "fcn args (world srv) = (Inr (Undoable d u r), w)"
    and ptr: "- 1 \<le> undoPointer srv"
    and pos: "0 < max_len"
  shows "(let srv' = snd (ipc_handle max_len fcn args srv);
              entry = \<lparr>description = d, arguments = args, redo = fcn, undo = Some u\<rparr>;
              kept = take (nat (undoPointer srv + 1)) (undoLedger srv) @ [entry]
          in undoLedger srv' = drop (length kept - nat max_len) kept
           \<and> length (undoLedger srv') = min (length kept) (nat max_len)
           \<and> last (undoLedger srv') = entry
           \<and> undoPointer srv' = int (length (undoLedger srv')) - 1)"
proof -
  define entry where "entry = \<lparr>description = d, arguments = args, redo = fcn, undo = Some u\<rparr>"
  define kept where "kept = take (nat (undoPointer srv + 1)) (undoLedger srv) @ [entry]"
  define l3 where "l3 = drop (length kept - nat max_len) kept"
  have l1: "splice_delete (undoPointer srv + 1) (int (length (undoLedger srv))) (undoLedger srv)
              = take (nat (undoPointer srv + 1)) (undoLedger srv)"
    using ptr by (rule splice_delete_after)
  have evict: "(if int (length kept) > max_len
                then splice_delete 0 (int (length kept) - max_len) kept else kept) = l3"
    using pos by (auto simp: l3_def splice_delete_front nat_diff_distrib')
  have unf: "snd (ipc_handle max_len fcn args srv)
               = (let l3' = (if int (length kept) > max_len
                            then splice_delete 0 (int (length kept) - max_len) kept else kept)
                  in srv\<lparr>undoLedger := l3', undoPointer := int (length l3') - 1, world := w\<rparr>)"
    unfolding ipc_handle_def call l1 kept_def entry_def by (simp add: Let_def)
  have res: "snd (ipc_handle max_len fcn args srv)
               = srv\<lparr>undoLedger := l3, undoPointer := int (length l3) - 1, world := w\<rparr>"
    unfolding unf evict by (simp add: Let_def)
  have len: "length l3 = min (length kept) (nat max_len)"
    by (auto simp: l3_def)
  have ne: "length kept - nat max_len < length kept"
    using pos by (simp add: kept_def)
  have lst: "last l3 = entry"
    using ne by (simp add: l3_def kept_def)
  have led: "undoLedger (snd (ipc_handle max_len fcn args srv)) = l3"
    by (simp add: res)
  have pt: "undoPointer (snd (ipc_handle max_len fcn args srv)) = int (length l3) - 1"
    by (simp add: res)
  show ?thesis
    unfolding Let_def entry_def [symmetric] kept_def [symmetric] l3_def [symmetric] led pt
    using len lst by simp
qed

theorem ledger_push_bounded_witness:
  "(let srv = \<lparr>undoLedger = [sample_action ''a'', sample_action ''b'', sample_action ''c''],
               undoPointer = 1, world = (5::nat)\<rparr>;
        srv' = snd (ipc_handle 2 sample_fcn ''d'' srv)
    in - 1 \<le> undoPointer srv \<and> (0::int) < 2
     \<and> undoLedger srv' = [sample_action ''b'', sample_action ''d'']
     \<and> undoPointer srv' = 1)"
  using ledger_push_bounded [of sample_fcn "''d''"
      "\<lparr>undoLedger = [sample_action ''a'', sample_action ''b'', sample_action ''c''],
               undoPointer = 1, world = (5::nat)\<rparr>" "''d''" sample_undo "Some 5" 6 2]
  by (simp add: sample_fcn_def sample_action_def Let_def)


text \<open>
  Claim C5. \<open>undo()\<close> and \<open>redo()\<close> never pass an exception on to their caller; when
  the stored inverse throws during \<open>undo()\<close>, or the command throws when \<open>redo()\<close> runs
  it again, the ledger is emptied and the pointer is reset to \<open>-1\<close>.
\<close>

theorem undo_redo_failure_clears:
  "fst (IPCServer_undo srv) = None \<and> fst (IPCServer_redo srv) = None
   \<and> (js_index (undoLedger srv) (undoPointer srv) = Some a \<and> undo a = Some u
      \<and> u (world srv) = (Some e, w)
     \<longrightarrow> IPCServer_undo srv = (None, srv\<lparr>world := w, undoLedger := [], undoPointer := - 1\<rparr>))
   \<and> (js_index (undoLedger srv) (undoPointer srv + 1) = Some a
      \<and> redo a (arguments a) (world srv) = (Inl e, w)
     \<longrightarrow> IPCServer_redo srv = (None, srv\<lparr>world := w, undoLedger := [], undoPointer := - 1\<rparr>))"
  by (simp add: IPCServer_undo_def IPCServer_redo_def undo_body_def redo_body_def
      try_catch_def clear_ledger_def Let_def split: prod.splits option.splits)

theorem undo_redo_failure_clears_witness:
  "(let srv = \<lparr>undoLedger = [sample_action ''a'', failing_action], undoPointer = 1, world = (5::nat)\<rparr>
    in IPCServer_undo srv = (None, \<lparr>undoLedger = [], undoPointer = - 1, world = 5\<rparr>))
   \<and> (let srv = \<lparr>undoLedger = [sample_action ''a'', failing_action], undoPointer = 0, world = (5::nat)\<rparr>
    in IPCServer_redo srv = (None, \<lparr>undoLedger = [], undoPointer = - 1, world = 5\<rparr>))"
  using undo_redo_failure_clears [of
      "\<lparr>undoLedger = [sample_action ''a'', failing_action], undoPointer = 1, world = (5::nat)\<rparr>"
      failing_action failing_undo "Error ''undo failed''" 5]
    undo_redo_failure_clears [of
      "\<lparr>undoLedger = [sample_action ''a'', failing_action], undoPointer = 0, world = (5::nat)\<rparr>"
      failing_action failing_undo "Error ''redo failed''" 5]
  by (simp add: js_index_def failing_action_def failing_undo_def failing_fcn_def Let_def)


section \<open>Properties of play and pause\<close>

lemma no_active_if_all_stopped:
  "\<forall>(k', p) \<in> set xs. stopTime p \<noteq> None \<Longrightarrow>
     filter (\<lambda>(partId, pp). stopTime pp = None) xs = []"
  by (induction xs) auto

lemma update_absent_stopped:
  "k \<notin> fst ` set xs \<Longrightarrow> \<forall>(k', p) \<in> set xs. k' \<noteq> k \<longrightarrow> stopTime p \<noteq> None \<Longrightarrow>
   \<forall>(k', p) \<in> set xs. stopTime p \<noteq> None"
  by force

lemma active_update_le:
  "\<forall>(k', p) \<in> set xs. k' \<noteq> k \<longrightarrow> stopTime p \<noteq> None \<Longrightarrow> distinct (map fst xs) \<Longrightarrow>
   length (filter (\<lambda>(partId, pp). stopTime pp = None) (AList.update k v xs)) \<le> 1"
proof (induction xs)
  case Nil
  then show ?case by simp
next
  case (Cons x xs)
  obtain k' p where x: "x = (k', p)" by (cases x)
  show ?case
  proof (cases "k' = k")
    case True
    have notin: "k \<notin> fst ` set xs" using Cons.prems(2) True x by simp
    have rest: "\<forall>(k', p) \<in> set xs. k' \<noteq> k \<longrightarrow> stopTime p \<noteq> None"
      using Cons.prems(1) by simp
    have "filter (\<lambda>(partId, pp). stopTime pp = None) xs = []"
      by (rule no_active_if_all_stopped) (rule update_absent_stopped [OF notin rest])
    then show ?thesis using True x by simp
  next
    case False
    have stopped: "stopTime p \<noteq> None" using Cons.prems(1) False x by simp
    have "length (filter (\<lambda>(partId, pp). stopTime pp = None) (AList.update k v xs)) \<le> 1"
      using Cons by simp
    then show ?thesis using False x stopped by auto
  qed
qed

lemma stop_others_keys:
  "map fst (map (\<lambda>(partId, pp). if partId \<noteq> k then (partId, pp\<lparr>stopTime := Some now\<rparr>)
                                    else (partId, pp)) xs) = map fst xs"
  by (induction xs) (auto split: prod.splits)

lemma stop_others_stopped:
  "\<forall>(k', p) \<in> set (map (\<lambda>(partId, pp). if partId \<noteq> k then (partId, pp\<lparr>stopTime := Some now\<rparr>)
                                    else (partId, pp)) xs). k' \<noteq> k \<longrightarrow> stopTime p \<noteq> None"
  by (induction xs) (auto split: prod.splits)

lemma solo_priv_playPart: "solo grp \<Longrightarrow> solo (priv_playPart grp part now)"
  by (simp add: solo_def priv_playPart_def active_parts_def distinct_update Let_def)

lemma solo_priv_pausePart:
  assumes "solo grp"
  shows "solo (priv_pausePart grp part t now ph now2)"
proof (cases "p_disabled part")
  case True
  then show ?thesis using assms by (simp add: priv_pausePart_def)
next
  case enabled: False
  let ?stopped = "map (\<lambda>(partId, pp). if partId \<noteq> p_id part
                                           then (partId, pp\<lparr>stopTime := Some now\<rparr>)
                                           else (partId, pp)) (playingParts grp)"
  have d: "distinct (map fst ?stopped)"
    using assms by (simp only: stop_others_keys solo_def)
  show ?thesis
  proof (cases "oneAtATime grp")
    case True
    have "length (filter (\<lambda>(partId, pp). stopTime pp = None)
            (AList.update (p_id part) v ?stopped)) \<le> 1" for v
      using stop_others_stopped d by (rule active_update_le)
    then show ?thesis
      using enabled True d
      by (simp add: solo_def priv_pausePart_def active_parts_def Let_def distinct_update)
  next
    case False
    then show ?thesis using assms enabled
      by (simp add: solo_def priv_pausePart_def active_parts_def Let_def distinct_update)
  qed
qed

lemma solo_saveUpdates_group:
  assumes "solo grp" and "\<And>t g. solo g \<Longrightarrow> solo (updateGroupPlayingParts env t g)"
  shows "solo (saveUpdates_group env now b grp)"
proof -
  have a: "solo (g\<lparr>transparent := x\<rparr>) = solo g" for g x
    by (simp add: solo_def active_parts_def)
  have b: "solo (g\<lparr>preparedPlayData := y\<rparr>) = solo g" for g y
    by (simp add: solo_def active_parts_def)
  show ?thesis
    using assms by (simp add: saveUpdates_group_def Let_def a b)
qed

lemma solo_play_command:
  assumes "solo grp" and upd: "\<And>t g. solo g \<Longrightarrow> solo (updateGroupPlayingParts env t g)"
  shows "solo (play_command env playheads cmd grp)"
proof (cases cmd)
  case (PlayPart partId now)
  then show ?thesis
    using assms
    by (simp add: playPart_def solo_saveUpdates_group solo_priv_playPart split: option.splits)
next
  case (PausePart partId time now now2)
  then show ?thesis
    using assms
    by (simp add: pausePart_def Let_def solo_saveUpdates_group solo_priv_pausePart
        split: option.splits)
qed

lemma active_update_exact:
  "\<forall>(k', p) \<in> set xs. k' \<noteq> k \<longrightarrow> stopTime p \<noteq> None \<Longrightarrow> distinct (map fst xs) \<Longrightarrow>
   stopTime v = None \<Longrightarrow>
   filter (\<lambda>(partId, pp). stopTime pp = None) (AList.update k v xs) = [(k, v)]"
proof (induction xs)
  case Nil
  then show ?case by simp
next
  case (Cons x xs)
  obtain k' p where x: "x = (k', p)" by (cases x)
  show ?case
  proof (cases "k' = k")
    case True
    have notin: "k \<notin> fst ` set xs" using Cons.prems(2) True x by simp
    have rest: "\<forall>(k', p) \<in> set xs. k' \<noteq> k \<longrightarrow> stopTime p \<noteq> None"
      using Cons.prems(1) by simp
    have "filter (\<lambda>(partId, pp). stopTime pp = None) xs = []"
      by (rule no_active_if_all_stopped) (rule update_absent_stopped [OF notin rest])
    then show ?thesis using True x Cons.prems(3) by simp
  next
    case False
    have stopped: "stopTime p \<noteq> None" using Cons.prems(1) False x by simp
    have "filter (\<lambda>(partId, pp). stopTime pp = None) (AList.update k v xs) = [(k, v)]"
      using Cons by simp
    then show ?thesis using False x stopped by auto
  qed
qed

lemma stop_others_at:
  "\<forall>(k', p) \<in> set (map (\<lambda>(partId, pp). if partId \<noteq> k then (partId, pp\<lparr>stopTime := Some now\<rparr>)
                                    else (partId, pp)) xs). k' \<noteq> k \<longrightarrow> stopTime p = Some now"
  by (induction xs) (auto split: prod.splits)

lemma update_keeps_others:
  "\<forall>(k', p) \<in> set xs. k' \<noteq> k \<longrightarrow> Q p \<Longrightarrow>
   \<forall>(k', p) \<in> set (AList.update k v xs). k' \<noteq> k \<longrightarrow> Q p"
  by (induction xs) (auto split: if_splits)

lemma pause_entry_active: "stopTime (pause_entry t now ph now2) = None"
  by (simp add: pause_entry_def split: option.splits)

lemma priv_pausePart_entry:
  "\<not> p_disabled part \<Longrightarrow>
   playingParts (priv_pausePart grp part t now ph now2) =
     AList.update (p_id part) (pause_entry t now ph now2)
       (if oneAtATime grp
        then map (\<lambda>(partId, pp). if partId \<noteq> p_id part
                                   then (partId, pp\<lparr>stopTime := Some now\<rparr>)
                                   else (partId, pp)) (playingParts grp)
        else playingParts grp)"
  by (simp add: priv_pausePart_def pause_entry_def Let_def)

lemma priv_pausePart_stops_others:
  assumes "oneAtATime grp" and "\<not> p_disabled part" and "distinct (map fst (playingParts grp))"
  shows "active_parts (priv_pausePart grp part t now ph now2)
           = [(p_id part, pause_entry t now ph now2)]
         \<and> (\<forall>(k, pp) \<in> set (playingParts (priv_pausePart grp part t now ph now2)).
               k \<noteq> p_id part \<longrightarrow> stopTime pp = Some now)"
proof -
  let ?stopped = "map (\<lambda>(partId, pp). if partId \<noteq> p_id part
                                           then (partId, pp\<lparr>stopTime := Some now\<rparr>)
                                           else (partId, pp)) (playingParts grp)"
  have d: "distinct (map fst ?stopped)"
    using assms(3) by (simp only: stop_others_keys)
  have e: "playingParts (priv_pausePart grp part t now ph now2)
             = AList.update (p_id part) (pause_entry t now ph now2) ?stopped"
    using assms(1,2) by (simp add: priv_pausePart_entry)
  have a: "filter (\<lambda>(partId, pp). stopTime pp = None)
             (AList.update (p_id part) (pause_entry t now ph now2) ?stopped)
           = [(p_id part, pause_entry t now ph now2)]"
    using stop_others_stopped d pause_entry_active by (rule active_update_exact)
  have o: "\<forall>(k, pp) \<in> set (AList.update (p_id part) (pause_entry t now ph now2) ?stopped).
             k \<noteq> p_id part \<longrightarrow> stopTime pp = Some now"
    using stop_others_at by (rule update_keeps_others)
  show ?thesis
    unfolding active_parts_def e using a o by simp
qed

lemma establish_priv_playPart:
  assumes "\<not> p_disabled part" and "oneAtATime grp \<or> distinct (map fst (playingParts grp))"
  shows "solo (priv_playPart grp part now)"
  using assms
  by (auto simp: solo_def priv_playPart_def active_parts_def distinct_update Let_def)

lemma establish_priv_pausePart:
  assumes "\<not> p_disabled part" and "distinct (map fst (playingParts grp))"
  shows "solo (priv_pausePart grp part t now ph now2)"
proof (cases "oneAtATime grp")
  case True
  have one: "oneAtATime (priv_pausePart grp part t now ph now2)"
    using True by (simp add: priv_pausePart_def Let_def)
  have d: "distinct (map fst (playingParts (priv_pausePart grp part t now ph now2)))"
  proof -
    have "distinct (map fst (map (\<lambda>(partId, pp). if partId \<noteq> p_id part
                                           then (partId, pp\<lparr>stopTime := Some now\<rparr>)
                                           else (partId, pp)) (playingParts grp)))"
      using assms(2) by (simp only: stop_others_keys)
    then have "distinct (map fst (AList.update (p_id part) (pause_entry t now ph now2)
                 (map (\<lambda>(partId, pp). if partId \<noteq> p_id part
                                           then (partId, pp\<lparr>stopTime := Some now\<rparr>)
                                           else (partId, pp)) (playingParts grp))))"
      by (rule distinct_update)
    moreover have "playingParts (priv_pausePart grp part t now ph now2)
        = AList.update (p_id part) (pause_entry t now ph now2)
            (map (\<lambda>(partId, pp). if partId \<noteq> p_id part
                                      then (partId, pp\<lparr>stopTime := Some now\<rparr>)
                                      else (partId, pp)) (playingParts grp))"
      using True assms(1) by (simp add: priv_pausePart_entry)
    ultimately show ?thesis by simp
  qed
  show ?thesis
    using priv_pausePart_stops_others [OF True assms, of t now ph now2] d
    by (simp add: solo_def)
next
  case False
  then show ?thesis
    using assms by (simp add: solo_def priv_pausePart_def Let_def distinct_update)
qed

lemma findPart_id: "findPart grp partId = Some part \<Longrightarrow> p_id part = partId"
  by (auto simp: findPart_def find_Some_iff)

text \<open>
  Claim C1. In a group with \<open>oneAtATime\<close>, \<open>_playPart\<close> of a part that is not disabled
  clears every other entry of \<open>playingParts\<close>: the entry of the part is the only one
  left. \<open>_pausePart\<close> stops every other entry at the time of the call, so the entry of
  the part is the only one without a \<open>stopTime\<close>. Hence a command \<open>playPart\<close> or
  \<open>pausePart\<close> on such a part leaves a group in which at most one entry has no
  \<open>stopTime\<close>, whatever was playing before, and after any further sequence of these
  commands this is still so. \<open>updateGroupPlayingParts\<close>, which the commands call and which
  is not part of the sources, is taken to keep the property; the last two statements do
  without it: the group that \<open>playPart\<close> saves holds the entry of the part and no other,
  and in the group that \<open>pausePart\<close> saves the entry of the part is the only one without
  a \<open>stopTime\<close>.
\<close>

theorem solo_invariant:
  assumes "\<And>t g. solo g \<Longrightarrow> solo (updateGroupPlayingParts env t g)"
  shows "(oneAtATime grp \<and> \<not> p_disabled part
            \<longrightarrow> playingParts (priv_playPart grp part now)
                  = [(p_id part, \<lparr>startTime = now, pauseTime = None, stopTime = None,
                                   fromSchedule = False\<rparr>)])
       \<and> (oneAtATime grp \<and> \<not> p_disabled part \<and> distinct (map fst (playingParts grp))
            \<longrightarrow> map fst (active_parts (priv_pausePart grp part time now playhead now2))
                  = [p_id part]
              \<and> (\<forall>(k, pp) \<in> set (playingParts (priv_pausePart grp part time now playhead now2)).
                    k \<noteq> p_id part \<longrightarrow> stopTime pp = Some now))
       \<and> (findPart grp partId = Some part \<and> \<not> p_disabled part
            \<and> (oneAtATime grp \<or> distinct (map fst (playingParts grp)))
            \<longrightarrow> solo (snd (playPart env partId now grp)))
       \<and> (findPart grp partId = Some part \<and> \<not> p_disabled part
            \<and> distinct (map fst (playingParts (updateGroupPlayingParts env now grp)))
            \<longrightarrow> solo (snd (pausePart env playheads partId time now now2 grp)))
       \<and> (solo grp \<longrightarrow> solo (fold (play_command env playheads) cmds grp))
       \<and> (findPart grp partId = Some part \<and> \<not> p_disabled part \<and> oneAtATime grp
            \<longrightarrow> snd (playPart env partId now grp)
                  = saveUpdates_group env now False
                      (grp\<lparr>playingParts :=
                         [(partId, \<lparr>startTime = now, pauseTime = None, stopTime = None,
                                     fromSchedule = False\<rparr>)]\<rparr>))
       \<and> (findPart grp partId = Some part \<and> \<not> p_disabled part
            \<and> oneAtATime (updateGroupPlayingParts env now grp)
            \<and> distinct (map fst (playingParts (updateGroupPlayingParts env now grp)))
            \<longrightarrow> (\<exists>paused. snd (pausePart env playheads partId time now now2 grp)
                            = saveUpdates_group env now False paused
                        \<and> map fst (active_parts paused) = [partId]))"
proof -
  have c1: "oneAtATime grp \<and> \<not> p_disabled part
            \<longrightarrow> playingParts (priv_playPart grp part now)
                  = [(p_id part, \<lparr>startTime = now, pauseTime = None, stopTime = None,
                                   fromSchedule = False\<rparr>)]"
    by (simp add: priv_playPart_def)
  have c2: "oneAtATime grp \<and> \<not> p_disabled part \<and> distinct (map fst (playingParts grp))
            \<longrightarrow> map fst (active_parts (priv_pausePart grp part time now playhead now2))
                  = [p_id part]
              \<and> (\<forall>(k, pp) \<in> set (playingParts (priv_pausePart grp part time now playhead now2)).
                    k \<noteq> p_id part \<longrightarrow> stopTime pp = Some now)"
    using priv_pausePart_stops_others [of grp part time now playhead now2] by simp
  have c3: "findPart grp partId = Some part \<and> \<not> p_disabled part
            \<and> (oneAtATime grp \<or> distinct (map fst (playingParts grp)))
            \<longrightarrow> solo (snd (playPart env partId now grp))"
    using assms establish_priv_playPart [of part grp now]
    by (simp add: playPart_def solo_saveUpdates_group)
  have c4: "findPart grp partId = Some part \<and> \<not> p_disabled part
            \<and> distinct (map fst (playingParts (updateGroupPlayingParts env now grp)))
            \<longrightarrow> solo (snd (pausePart env playheads partId time now now2 grp))"
    using assms
      establish_priv_pausePart [of part "updateGroupPlayingParts env now grp" time now
        "playheads (updateGroupPlayingParts env now grp) partId" now2]
    by (simp add: pausePart_def Let_def solo_saveUpdates_group)
  have c5: "solo g \<longrightarrow> solo (fold (play_command env playheads) cmds g)" for g
  proof (induction cmds arbitrary: g)
    case Nil
    then show ?case by simp
  next
    case (Cons cmd cmds)
    show ?case
    proof
      assume "solo g"
      then have "solo (play_command env playheads cmd g)"
        using assms by (rule solo_play_command)
      then show "solo (fold (play_command env playheads) (cmd # cmds) g)"
        using Cons by simp
    qed
  qed
  have c6: "findPart grp partId = Some part \<and> \<not> p_disabled part \<and> oneAtATime grp
            \<longrightarrow> snd (playPart env partId now grp)
                  = saveUpdates_group env now False
                      (grp\<lparr>playingParts :=
                         [(partId, \<lparr>startTime = now, pauseTime = None, stopTime = None,
                                     fromSchedule = False\<rparr>)]\<rparr>)"
    by (auto simp: playPart_def priv_playPart_def dest: findPart_id)
  have c7: "findPart grp partId = Some part \<and> \<not> p_disabled part
            \<and> oneAtATime (updateGroupPlayingParts env now grp)
            \<and> distinct (map fst (playingParts (updateGroupPlayingParts env now grp)))
            \<longrightarrow> (\<exists>paused. snd (pausePart env playheads partId time now now2 grp)
                            = saveUpdates_group env now False paused
                        \<and> map fst (active_parts paused) = [partId])"
  proof
    assume a: "findPart grp partId = Some part \<and> \<not> p_disabled part
            \<and> oneAtATime (updateGroupPlayingParts env now grp)
            \<and> distinct (map fst (playingParts (updateGroupPlayingParts env now grp)))"
    let ?h = "updateGroupPlayingParts env now grp"
    let ?k = "priv_pausePart ?h part time now (playheads ?h partId) now2"
    have pid: "p_id part = partId" using a by (auto dest: findPart_id)
    have r: "snd (pausePart env playheads partId time now now2 grp)
               = saveUpdates_group env now False ?k"
      using a by (simp add: pausePart_def Let_def)
    have k: "map fst (active_parts ?k) = [partId]"
      using a priv_pausePart_stops_others [of ?h part time now "playheads ?h partId" now2] pid
      by simp
    show "\<exists>paused. snd (pausePart env playheads partId time now now2 grp)
                            = saveUpdates_group env now False paused
                        \<and> map fst (active_parts paused) = [partId]"
      by (rule exI [of _ ?k]) (simp add: r k)
  qed
  show ?thesis using c1 c2 c3 c4 c5 [of grp] c6 c7 by blast
qed

theorem solo_invariant_witness:
  "oneAtATime crowded_group \<and> \<not> p_disabled (sample_part ''B'')
   \<and> distinct (map fst (playingParts crowded_group))
   \<and> findPart crowded_group ''B'' = Some (sample_part ''B'')
   \<and> length (active_parts crowded_group) = 2 \<and> \<not> solo crowded_group
   \<and> map fst (playingParts (priv_playPart crowded_group (sample_part ''B'') 10)) = [''B'']
   \<and> map fst (active_parts (priv_pausePart crowded_group (sample_part ''B'') None 10 None 11))
       = [''B'']
   \<and> solo (snd (playPart sample_env ''B'' 10 crowded_group))
   \<and> solo (snd (pausePart sample_env no_playheads ''B'' None 10 11 crowded_group))
   \<and> map fst (playingParts (snd (playPart sample_env ''B'' 10 crowded_group))) = [''B'']
   \<and> solo sample_group
   \<and> oneAtATime (fold (play_command sample_env no_playheads)
        [PlayPart ''A'' 10, PausePart ''B'' None 20 21, PausePart ''A'' None 30 31] sample_group)
   \<and> length (active_parts (fold (play_command sample_env no_playheads)
        [PlayPart ''A'' 10, PausePart ''B'' None 20 21, PausePart ''A'' None 30 31] sample_group)) \<le> 1"
proof -
  let ?cmds = "[PlayPart ''A'' 10, PausePart ''B'' None 20 21, PausePart ''A'' None 30 31]"
  have u: "\<And>t g. solo g \<Longrightarrow> solo (updateGroupPlayingParts sample_env t g)"
    by (simp add: sample_env_def)
  have s: "solo sample_group"
    by (simp add: solo_def sample_group_def active_parts_def)
  have h1: "oneAtATime crowded_group" "\<not> p_disabled (sample_part ''B'')"
    "distinct (map fst (playingParts crowded_group))"
    "findPart crowded_group ''B'' = Some (sample_part ''B'')"
    "length (active_parts crowded_group) = 2" "\<not> solo crowded_group"
    "distinct (map fst (playingParts (updateGroupPlayingParts sample_env 10 crowded_group)))"
    "oneAtATime (updateGroupPlayingParts sample_env 10 crowded_group)"
    "p_id (sample_part ''B'') = ''B''"
    by (simp_all add: crowded_group_def sample_group_def sample_part_def findPart_def
        active_parts_def solo_def sample_env_def)
  have o: "oneAtATime (fold (play_command sample_env no_playheads) ?cmds sample_group)"
    by (simp add: playPart_def pausePart_def findPart_def sample_group_def sample_part_def
        sample_env_def saveUpdates_group_def priv_playPart_def priv_pausePart_def Let_def)
  have p: "playingParts (saveUpdates_group sample_env t b g) = playingParts g" for t b g
    by (simp add: saveUpdates_group_def sample_env_def Let_def)
  note established = solo_invariant [OF u, of crowded_group "sample_part ''B''" 10 None None 11
      "''B''" no_playheads "[]"]
  note kept = solo_invariant [OF u, of sample_group "sample_part ''A''" 10 None None 11 "''A''"
      no_playheads ?cmds]
  have a1: "playingParts (priv_playPart crowded_group (sample_part ''B'') 10)
              = [(''B'', \<lparr>startTime = 10, pauseTime = None, stopTime = None,
                           fromSchedule = False\<rparr>)]"
    using established h1 by simp
  have a2: "map fst (active_parts (priv_pausePart crowded_group (sample_part ''B'') None 10 None 11))
              = [''B'']"
    using established h1 by simp
  have a3: "solo (snd (playPart sample_env ''B'' 10 crowded_group))"
    using established h1 by blast
  have a4: "solo (snd (pausePart sample_env no_playheads ''B'' None 10 11 crowded_group))"
    using established h1 by blast
  have a5: "snd (playPart sample_env ''B'' 10 crowded_group)
              = saveUpdates_group sample_env 10 False
                  (crowded_group\<lparr>playingParts :=
                     [(''B'', \<lparr>startTime = 10, pauseTime = None, stopTime = None,
                                 fromSchedule = False\<rparr>)]\<rparr>)"
    using established h1 by blast
  have a6: "solo (fold (play_command sample_env no_playheads) ?cmds sample_group)"
    using kept s by blast
  have a7: "length (active_parts (fold (play_command sample_env no_playheads) ?cmds sample_group)) \<le> 1"
    using a6 o by (simp add: solo_def)
  show ?thesis
    using h1 s o a1 a2 a3 a4 a6 a7 by (simp add: a5 p)
qed


subsection \<open>Pause and resume\<close>














lemma findPart_parts: "parts g = parts h \<Longrightarrow> findPart g partId = findPart h partId"
  by (simp add: findPart_def)

lemma resolver_spec_scenario:
  "getGroupPlayData 1500 (Some scenario_sections) ''B''
     = Some \<lparr>partStartTime = 1000, partPauseTime = None\<rparr>
   \<and> getGroupPlayData 1500 (Some scenario_sections) ''A'' = None
   \<and> getGroupPlayData 3000 (Some scenario_sections) ''B'' = None"
  by code_simp




section \<open>Properties of the commands that edit a group\<close>

lemma activate_needs_schedule_patch:
  "\<not> schedule_activate grp \<Longrightarrow> schedule_activate (deepExtend grp patch) \<Longrightarrow> gp_schedule patch \<noteq> None"
  by (auto simp: schedule_activate_def deepExtend_def split: option.splits)

text \<open>
  Claim C10. When \<open>updateGroup\<close> turns \<open>schedule.activate\<close> from falsy to truthy, every
  entry of \<open>playingParts\<close> that has a \<open>stopTime\<close> is deleted and every entry without
  one is kept, unchanged and in order: the command is undoable, and the group it saves
  is the merged group with exactly the entries that have no \<open>stopTime\<close>. Stop times
  are readings of the clock (\<open>Date.now()\<close>, epoch milliseconds), so none of them is
  \<open>0\<close>. Without a \<open>playout\<close> key in the patch the merged entries are those of the
  group before the command.
\<close>

theorem updateGroup_discards_stop_times:
  assumes "\<not> g_locked grp" and "\<not> schedule_activate grp"
    and "schedule_activate (deepExtend grp patch)"
    and "\<forall>e \<in> set (playingParts (deepExtend grp patch)). stopTime (snd e) \<noteq> Some 0"
  shows "is_undoable (fst (updateGroup env patch now grp))
         \<and> snd (updateGroup env patch now grp)
             = saveUpdates_group env now False
                 ((deepExtend grp patch)\<lparr>playingParts :=
                    filter (\<lambda>(partId, pp). stopTime pp = None)
                      (playingParts (deepExtend grp patch))\<rparr>)
         \<and> (gp_playout patch = None
              \<longrightarrow> playingParts (deepExtend grp patch) = playingParts grp)"
proof -
  have sp: "gp_schedule patch \<noteq> None"
    using assms(2,3) by (rule activate_needs_schedule_patch)
  have f: "filter (\<lambda>(partId, pp). \<not> truthy_time (stopTime pp))
             (playingParts (deepExtend grp patch))
           = filter (\<lambda>(partId, pp). stopTime pp = None) (playingParts (deepExtend grp patch))"
  proof (intro filter_cong refl)
    fix e assume "e \<in> set (playingParts (deepExtend grp patch))"
    with assms(4) have "stopTime (snd e) \<noteq> Some 0" by blast
    then show "(case e of (partId, pp) \<Rightarrow> \<not> truthy_time (stopTime pp))
               = (case e of (partId, pp) \<Rightarrow> stopTime pp = None)"
      by (cases e; cases "stopTime (snd e)") (simp_all add: truthy_time_def)
  qed
  have a: "snd (updateGroup env patch now grp)
             = saveUpdates_group env now False (remove_stop_times grp (deepExtend grp patch))"
    using assms(1) sp by (simp add: updateGroup_def Let_def)
  have b: "remove_stop_times grp (deepExtend grp patch)
             = (deepExtend grp patch)\<lparr>playingParts :=
                  filter (\<lambda>(partId, pp). stopTime pp = None)
                    (playingParts (deepExtend grp patch))\<rparr>"
    using assms(2,3) by (simp add: remove_stop_times_def f)
  have c: "gp_playout patch = None \<longrightarrow> playingParts (deepExtend grp patch) = playingParts grp"
    by (simp add: deepExtend_def)
  have d: "is_undoable (fst (updateGroup env patch now grp))"
    using assms(1) by (simp add: updateGroup_def Let_def)
  show ?thesis
    using a b c d by simp
qed

theorem updateGroup_discards_stop_times_witness:
  "\<not> g_locked stopped_group \<and> \<not> schedule_activate stopped_group
   \<and> schedule_activate (deepExtend stopped_group activate_patch)
   \<and> map (\<lambda>e. (fst e, stopTime (snd e))) (playingParts (deepExtend stopped_group activate_patch))
       = [(''A'', Some 900), (''B'', None), (''C'', Some 950)]
   \<and> playingParts (snd (updateGroup sample_env activate_patch 1000 stopped_group))
       = [(''B'', \<lparr>startTime = 7, pauseTime = Some 20, stopTime = None, fromSchedule = False\<rparr>)]"
proof -
  have h1: "\<not> g_locked stopped_group"
    by (simp add: stopped_group_def sample_group_def)
  have h2: "\<not> schedule_activate stopped_group"
    by (simp add: stopped_group_def sample_group_def schedule_activate_def)
  have h3: "schedule_activate (deepExtend stopped_group activate_patch)"
    by (simp add: stopped_group_def sample_group_def schedule_activate_def deepExtend_def
        activate_patch_def empty_group_patch_def)
  have m: "playingParts (deepExtend stopped_group activate_patch) = playingParts stopped_group"
    by (simp add: deepExtend_def activate_patch_def empty_group_patch_def)
  have h4: "\<forall>e \<in> set (playingParts (deepExtend stopped_group activate_patch)).
              stopTime (snd e) \<noteq> Some 0"
    unfolding m by (simp add: stopped_group_def)
  have s: "playingParts (saveUpdates_group sample_env t b g) = playingParts g" for t b g
    by (simp add: saveUpdates_group_def sample_env_def Let_def)
  show ?thesis
    using h1 h2 h3 h4 updateGroup_discards_stop_times [OF h1 h2 h3 h4, of sample_env 1000]
    by (simp add: m s) (simp add: stopped_group_def)
qed

text \<open>
  Claim C7, as the code has it. Every command that checks the lock returns \<open>undefined\<close>
  and changes nothing when its target is locked: \<open>updatePart\<close>, \<open>setPartTrigger\<close>,
  \<open>deletePart\<close>, \<open>updateTimelineObj\<close>, \<open>deleteTimelineObj\<close>, \<open>insertTimelineObjs\<close>,
  \<open>moveTimelineObjToNewLayer\<close> and \<open>addResourcesToTimeline\<close> when the group or the part
  is locked; \<open>updateGroup\<close>, \<open>deleteGroup\<close>, \<open>newPart\<close> into a given group and the toggles
  of loop, autoplay, one-at-a-time and disable when the group is locked. There is one
  exception: in a group that is not locked, \<open>updatePart\<close> with a patch that has the
  \<open>locked\<close> key applies the whole patch, also to a locked part, and returns an undoable
  result. \<open>toggleGroupLock\<close> has no lock check: it sets the flag and returns an undoable
  result. On a target that is not locked \<open>setPartTrigger\<close>, \<open>deletePart\<close>, \<open>deleteGroup\<close>
  and \<open>newPart\<close> return an undoable result. The example after the witness is a locked
  part that \<open>updatePart\<close> renames.
\<close>

theorem locked_commands_no_op:
  "(g_locked grp \<and> findPart grp partId \<noteq> None
      \<longrightarrow> no_op (updatePart env partId ppatch now grp) grp)
   \<and> (findPart grp partId = Some part \<and> p_locked part \<and> patch_locked ppatch = None
      \<longrightarrow> no_op (updatePart env partId ppatch now grp) grp)
   \<and> (findPart grp partId = Some part \<and> \<not> g_locked grp \<and> patch_locked ppatch = Some lock
      \<longrightarrow> is_undoable (fst (updatePart env partId ppatch now grp))
        \<and> snd (updatePart env partId ppatch now grp)
            = (if patch_loop ppatch \<noteq> None \<or> patch_disabled ppatch \<noteq> None
                  \<or> patch_duration ppatch \<noteq> None
               then saveUpdates_group env now False
                      (store_part (updateGroupPlayingParts env now grp) partId
                         (postProcessPart env (assign_part part ppatch)))
               else store_part grp partId (postProcessPart env (assign_part part ppatch)))
        \<and> p_locked (assign_part part ppatch) = lock)
   \<and> (g_locked grp
      \<longrightarrow> no_op (updateGroup env gpatch now grp) grp
        \<and> no_op (toggleGroupLoop env v now grp) grp
        \<and> no_op (toggleGroupAutoplay env v now grp) grp
        \<and> no_op (toggleGroupOneAtATime env v now grp) grp
        \<and> no_op (toggleGroupDisable env v now grp) grp)
   \<and> is_undoable (fst (toggleGroupLock env v now grp))
   \<and> snd (toggleGroupLock env v now grp) = saveUpdates_group env now True (grp\<lparr>g_locked := v\<rparr>)
   \<and> g_locked (snd (toggleGroupLock env v now grp)) = v
   \<and> (getPart rundown groupId partId = Inr (target, targetPart)
        \<and> (g_locked target \<or> p_locked targetPart)
      \<longrightarrow> rundown_no_op (setPartTrigger groupId partId trigger triggerIndex rundown) rundown
        \<and> rundown_no_op (deletePart edit groupId partId now rundown) rundown
        \<and> rundown_no_op (updateTimelineObj edit groupId partId objId opatch now rundown) rundown
        \<and> rundown_no_op (insertTimelineObjs edit groupId partId objs place now rundown) rundown
        \<and> rundown_no_op (moveTimelineObjToNewLayer edit groupId partId objId now rundown) rundown
        \<and> rundown_no_op
            (addResourcesToTimeline_command edit groupId partId layerId resourceIds now rundown)
            rundown)
   \<and> (findTimelineObjInRundown edit rundown objId = Some (target, targetPart)
        \<and> (g_locked target \<or> p_locked targetPart)
      \<longrightarrow> rundown_no_op (deleteTimelineObj edit objId now rundown) rundown)
   \<and> (getGroup rundown groupId = Inr target \<and> g_locked target
      \<longrightarrow> rundown_no_op (deleteGroup edit groupId now rundown) rundown
        \<and> (groupId \<noteq> [] \<longrightarrow> rundown_no_op (newPart edit (Some groupId) name rundown) rundown))
   \<and> (getPart rundown groupId partId = Inr (target, targetPart)
        \<and> \<not> g_locked target \<and> \<not> p_locked targetPart
      \<longrightarrow> rundown_undoable (fst (setPartTrigger groupId partId trigger triggerIndex rundown))
        \<and> rundown_undoable (fst (deletePart edit groupId partId now rundown))
        \<and> rundown_undoable (fst (deleteGroup edit groupId now rundown))
        \<and> (groupId \<noteq> [] \<longrightarrow> rundown_undoable (fst (newPart edit (Some groupId) name rundown))))"
proof -
  have c1: "g_locked grp \<and> findPart grp partId \<noteq> None
      \<longrightarrow> no_op (updatePart env partId ppatch now grp) grp"
    by (auto simp: no_op_def updatePart_def)
  have c2: "findPart grp partId = Some part \<and> p_locked part \<and> patch_locked ppatch = None
      \<longrightarrow> no_op (updatePart env partId ppatch now grp) grp"
    by (auto simp: no_op_def updatePart_def)
  have c3: "findPart grp partId = Some part \<and> \<not> g_locked grp \<and> patch_locked ppatch = Some lock
      \<longrightarrow> is_undoable (fst (updatePart env partId ppatch now grp))
        \<and> snd (updatePart env partId ppatch now grp)
            = (if patch_loop ppatch \<noteq> None \<or> patch_disabled ppatch \<noteq> None
                  \<or> patch_duration ppatch \<noteq> None
               then saveUpdates_group env now False
                      (store_part (updateGroupPlayingParts env now grp) partId
                         (postProcessPart env (assign_part part ppatch)))
               else store_part grp partId (postProcessPart env (assign_part part ppatch)))
        \<and> p_locked (assign_part part ppatch) = lock"
    by (simp add: updatePart_def Let_def assign_part_def)
  have c4: "g_locked grp
      \<longrightarrow> no_op (updateGroup env gpatch now grp) grp
        \<and> no_op (toggleGroupLoop env v now grp) grp
        \<and> no_op (toggleGroupAutoplay env v now grp) grp
        \<and> no_op (toggleGroupOneAtATime env v now grp) grp
        \<and> no_op (toggleGroupDisable env v now grp) grp"
    by (simp add: no_op_def updateGroup_def toggleGroupLoop_def toggleGroupAutoplay_def
        toggleGroupOneAtATime_def toggleGroupDisable_def)
  have c5: "is_undoable (fst (toggleGroupLock env v now grp))
     \<and> snd (toggleGroupLock env v now grp) = saveUpdates_group env now True (grp\<lparr>g_locked := v\<rparr>)
     \<and> g_locked (snd (toggleGroupLock env v now grp)) = v"
    by (simp add: toggleGroupLock_def saveUpdates_group_def Let_def)
  have c6: "getPart rundown groupId partId = Inr (target, targetPart)
        \<and> (g_locked target \<or> p_locked targetPart)
      \<longrightarrow> rundown_no_op (setPartTrigger groupId partId trigger triggerIndex rundown) rundown
        \<and> rundown_no_op (deletePart edit groupId partId now rundown) rundown
        \<and> rundown_no_op (updateTimelineObj edit groupId partId objId opatch now rundown) rundown
        \<and> rundown_no_op (insertTimelineObjs edit groupId partId objs place now rundown) rundown
        \<and> rundown_no_op (moveTimelineObjToNewLayer edit groupId partId objId now rundown) rundown
        \<and> rundown_no_op
            (addResourcesToTimeline_command edit groupId partId layerId resourceIds now rundown)
            rundown"
    by (auto simp: rundown_no_op_def setPartTrigger_def deletePart_def updateTimelineObj_def
        insertTimelineObjs_def moveTimelineObjToNewLayer_def addResourcesToTimeline_command_def)
  have c7: "findTimelineObjInRundown edit rundown objId = Some (target, targetPart)
        \<and> (g_locked target \<or> p_locked targetPart)
      \<longrightarrow> rundown_no_op (deleteTimelineObj edit objId now rundown) rundown"
    by (auto simp: rundown_no_op_def deleteTimelineObj_def)
  have c8: "getGroup rundown groupId = Inr target \<and> g_locked target
      \<longrightarrow> rundown_no_op (deleteGroup edit groupId now rundown) rundown
        \<and> (groupId \<noteq> [] \<longrightarrow> rundown_no_op (newPart edit (Some groupId) name rundown) rundown)"
    by (auto simp: rundown_no_op_def deleteGroup_def newPart_def Let_def)
  have g: "getPart rundown groupId partId = Inr (target, targetPart)
             \<Longrightarrow> getGroup rundown groupId = Inr target"
    by (auto simp: getPart_def split: sum.splits option.splits)
  have c9: "getPart rundown groupId partId = Inr (target, targetPart)
        \<and> \<not> g_locked target \<and> \<not> p_locked targetPart
      \<longrightarrow> rundown_undoable (fst (setPartTrigger groupId partId trigger triggerIndex rundown))
        \<and> rundown_undoable (fst (deletePart edit groupId partId now rundown))
        \<and> rundown_undoable (fst (deleteGroup edit groupId now rundown))
        \<and> (groupId \<noteq> [] \<longrightarrow> rundown_undoable (fst (newPart edit (Some groupId) name rundown)))"
    using g
    by (auto simp: setPartTrigger_def deletePart_def deleteGroup_def newPart_def Let_def
        split: prod.splits)
  show ?thesis
    using c1 c2 c3 c4 c5 c6 c7 c8 c9 by (intro conjI) blast+
qed

theorem locked_commands_no_op_witness:
  "g_locked locked_group \<and> findPart locked_group ''A'' \<noteq> None
   \<and> no_op (updatePart sample_env ''A'' rename_locked_patch 0 locked_group) locked_group
   \<and> findPart locked_part_group ''A'' = Some ((sample_part ''A'')\<lparr>p_locked := True\<rparr>)
   \<and> no_op (updatePart sample_env ''A'' empty_part_patch 0 locked_part_group) locked_part_group
   \<and> \<not> g_locked locked_part_group \<and> patch_locked rename_locked_patch = Some True
   \<and> map p_name (parts (snd (updatePart sample_env ''A'' rename_locked_patch 0 locked_part_group)))
       = [''renamed'', ''B'']
   \<and> no_op (updateGroup sample_env activate_patch 0 locked_group) locked_group
   \<and> no_op (toggleGroupLoop sample_env True 0 locked_group) locked_group
   \<and> \<not> g_locked (snd (toggleGroupLock sample_env False 0 locked_group))
   \<and> getPart locked_rundown ''G'' ''A'' = Inr (locked_group, sample_part ''A'')
   \<and> rundown_no_op (setPartTrigger ''G'' ''A'' (Some ''key'') None locked_rundown) locked_rundown
   \<and> rundown_no_op (deletePart sample_edit_env ''G'' ''A'' 0 locked_rundown) locked_rundown
   \<and> rundown_no_op (addResourcesToTimeline_command sample_edit_env ''G'' ''A'' None [''clip''] 0
        locked_rundown) locked_rundown
   \<and> getPart locked_rundown ''H'' ''A''
       = Inr (locked_part_group\<lparr>g_id := ''H''\<rparr>, (sample_part ''A'')\<lparr>p_locked := True\<rparr>)
   \<and> rundown_no_op (setPartTrigger ''H'' ''A'' None (Some 0) locked_rundown) locked_rundown
   \<and> rundown_no_op (insertTimelineObjs sample_edit_env ''H'' ''A'' [] None 0 locked_rundown)
        locked_rundown
   \<and> findTimelineObjInRundown sample_edit_env locked_rundown ''obj2''
       = Some (locked_group\<lparr>g_id := ''T'', parts := [referring_part]\<rparr>, referring_part)
   \<and> rundown_no_op (deleteTimelineObj sample_edit_env ''obj2'' 0 locked_rundown) locked_rundown
   \<and> rundown_no_op (updateTimelineObj sample_edit_env ''T'' ''P'' ''obj2'' layer_patch 0
        locked_rundown) locked_rundown
   \<and> rundown_no_op (moveTimelineObjToNewLayer sample_edit_env ''T'' ''P'' ''obj2'' 0 locked_rundown)
        locked_rundown
   \<and> getGroup locked_rundown ''G'' = Inr locked_group
   \<and> rundown_no_op (deleteGroup sample_edit_env ''G'' 0 locked_rundown) locked_rundown
   \<and> rundown_no_op (newPart sample_edit_env (Some ''G'') ''fresh'' locked_rundown) locked_rundown
   \<and> getPart locked_rundown ''F'' ''A'' = Inr (sample_group\<lparr>g_id := ''F''\<rparr>, sample_part ''A'')
   \<and> rundown_undoable (fst (setPartTrigger ''F'' ''A'' (Some ''key'') None locked_rundown))
   \<and> rundown_undoable (fst (deletePart sample_edit_env ''F'' ''A'' 0 locked_rundown))
   \<and> rundown_undoable (fst (deleteGroup sample_edit_env ''F'' 0 locked_rundown))
   \<and> rundown_undoable (fst (newPart sample_edit_env (Some ''F'') ''fresh'' locked_rundown))"
proof -
  have f1: "g_locked locked_group \<and> findPart locked_group ''A'' = Some (sample_part ''A'')"
    by (simp add: locked_group_def sample_group_def findPart_def sample_part_def)
  have f2: "findPart locked_part_group ''A'' = Some ((sample_part ''A'')\<lparr>p_locked := True\<rparr>)
            \<and> p_locked ((sample_part ''A'')\<lparr>p_locked := True\<rparr>)
            \<and> patch_locked empty_part_patch = None
            \<and> \<not> g_locked locked_part_group \<and> patch_locked rename_locked_patch = Some True
            \<and> patch_loop rename_locked_patch = None \<and> patch_disabled rename_locked_patch = None
            \<and> patch_duration rename_locked_patch = None"
    by (simp add: locked_part_group_def sample_group_def findPart_def sample_part_def
        empty_part_patch_def rename_locked_patch_def)
  have r1: "getPart locked_rundown ''G'' ''A'' = Inr (locked_group, sample_part ''A'')"
    by (simp add: getPart_def getGroup_def findGroup_def findPart_def locked_rundown_def
        locked_group_def sample_group_def sample_part_def)
  have r2: "getPart locked_rundown ''H'' ''A''
       = Inr (locked_part_group\<lparr>g_id := ''H''\<rparr>, (sample_part ''A'')\<lparr>p_locked := True\<rparr>)"
    by (simp add: getPart_def getGroup_def findGroup_def findPart_def locked_rundown_def
        locked_group_def locked_part_group_def sample_group_def sample_part_def)
  have r3: "findTimelineObjInRundown sample_edit_env locked_rundown ''obj2''
       = Some (locked_group\<lparr>g_id := ''T'', parts := [referring_part]\<rparr>, referring_part)"
    by (simp add: sample_edit_env_def locked_rundown_def locked_group_def locked_part_group_def
        sample_group_def sample_part_def referring_part_def)
  have r3': "getPart locked_rundown ''T'' ''P''
       = Inr (locked_group\<lparr>g_id := ''T'', parts := [referring_part]\<rparr>, referring_part)"
    by (simp add: getPart_def getGroup_def findGroup_def findPart_def locked_rundown_def
        locked_group_def locked_part_group_def sample_group_def sample_part_def referring_part_def)
  have r4: "getGroup locked_rundown ''G'' = Inr locked_group"
    by (simp add: getGroup_def findGroup_def locked_rundown_def locked_group_def sample_group_def)
  have r5: "getPart locked_rundown ''F'' ''A'' = Inr (sample_group\<lparr>g_id := ''F''\<rparr>, sample_part ''A'')"
    by (simp add: getPart_def getGroup_def findGroup_def findPart_def locked_rundown_def
        locked_group_def locked_part_group_def sample_group_def sample_part_def)
  have l: "g_locked (locked_group\<lparr>g_id := ''T'', parts := [referring_part]\<rparr>)"
    "\<not> g_locked (sample_group\<lparr>g_id := ''F''\<rparr>)" "\<not> p_locked (sample_part ''A'')"
    "p_locked ((sample_part ''A'')\<lparr>p_locked := True\<rparr>)"
    by (simp_all add: locked_group_def sample_group_def sample_part_def)
  have n: "map p_name (parts (store_part locked_part_group ''A''
             (postProcessPart sample_env
                (assign_part ((sample_part ''A'')\<lparr>p_locked := True\<rparr>) rename_locked_patch))))
           = [''renamed'', ''B'']"
    by (simp add: store_part_def locked_part_group_def sample_group_def sample_part_def
        sample_env_def assign_part_def rename_locked_patch_def empty_part_patch_def)
  have u: "\<not> g_locked (saveUpdates_group sample_env 0 True (locked_group\<lparr>g_locked := False\<rparr>))"
    by (simp add: saveUpdates_group_def locked_group_def sample_group_def)
  note i1 = locked_commands_no_op [where grp = locked_group and partId = "''A''"
      and env = sample_env and ppatch = rename_locked_patch and now = 0
      and part = "sample_part ''A''" and lock = True and gpatch = activate_patch and v = True
      and rundown = locked_rundown and groupId = "''G''" and target = locked_group
      and targetPart = "sample_part ''A''" and trigger = "Some ''key''" and triggerIndex = None
      and edit = sample_edit_env and objId = "''obj''" and opatch = layer_patch and objs = "[]"
      and place = None and layerId = None and resourceIds = "[''clip'']" and name = "''fresh''"]
  note i2 = locked_commands_no_op [where grp = locked_part_group and partId = "''A''"
      and env = sample_env and ppatch = empty_part_patch and now = 0
      and part = "(sample_part ''A'')\<lparr>p_locked := True\<rparr>" and lock = True
      and gpatch = activate_patch and v = False
      and rundown = locked_rundown and groupId = "''H''"
      and target = "locked_part_group\<lparr>g_id := ''H''\<rparr>"
      and targetPart = "(sample_part ''A'')\<lparr>p_locked := True\<rparr>" and trigger = None
      and triggerIndex = "Some 0"
      and edit = sample_edit_env and objId = "''obj''" and opatch = layer_patch and objs = "[]"
      and place = None and layerId = None and resourceIds = "[''clip'']" and name = "''fresh''"]
  note i3 = locked_commands_no_op [where grp = locked_part_group and partId = "''A''"
      and env = sample_env and ppatch = rename_locked_patch and now = 0
      and part = "(sample_part ''A'')\<lparr>p_locked := True\<rparr>" and lock = True
      and gpatch = activate_patch and v = False
      and rundown = locked_rundown and groupId = "''F''"
      and target = "sample_group\<lparr>g_id := ''F''\<rparr>"
      and targetPart = "sample_part ''A''" and trigger = "Some ''key''"
      and triggerIndex = None
      and edit = sample_edit_env and objId = "''obj''" and opatch = layer_patch and objs = "[]"
      and place = None and layerId = None and resourceIds = "[''clip'']" and name = "''fresh''"]
  note i4 = locked_commands_no_op [where grp = locked_group and partId = "''P''"
      and env = sample_env and ppatch = rename_locked_patch and now = 0
      and part = "sample_part ''A''" and lock = True and gpatch = activate_patch and v = False
      and rundown = locked_rundown and groupId = "''T''"
      and target = "locked_group\<lparr>g_id := ''T'', parts := [referring_part]\<rparr>"
      and targetPart = referring_part and trigger = None and triggerIndex = None
      and edit = sample_edit_env and objId = "''obj2''" and opatch = layer_patch and objs = "[]"
      and place = None and layerId = None and resourceIds = "[''clip'']" and name = "''fresh''"]
  show ?thesis
    using f1 f2 r1 r2 r3 r3' r4 r5 l n u i1 i2 i3 i4
    by simp
qed

theorem locked_part_update_counterexample:
  "findPart locked_part_group ''A'' = Some ((sample_part ''A'')\<lparr>p_locked := True\<rparr>)
   \<and> is_undoable (fst (updatePart sample_env ''A'' rename_locked_patch 0 locked_part_group))
   \<and> map p_name (parts locked_part_group) = [''A'', ''B'']
   \<and> map p_name (parts (snd (updatePart sample_env ''A'' rename_locked_patch 0 locked_part_group)))
       = [''renamed'', ''B'']
   \<and> map p_locked (parts (snd (updatePart sample_env ''A'' rename_locked_patch 0 locked_part_group)))
       = [True, False]"
  by (simp add: updatePart_def locked_part_group_def sample_group_def findPart_def
      sample_part_def rename_locked_patch_def empty_part_patch_def assign_part_def
      store_part_def sample_env_def Let_def)


section \<open>Properties of the insertions\<close>

lemma length_splice_insert [simp]: "length (splice_insert i x xs) = Suc (length xs)"
  by (simp add: splice_insert_def Let_def splice_start_def)

lemma next_target_Cons: "next_target t (x # ids) = next_target (After x) ids"
  by (simp add: next_target_def)

lemma insertGroups_loop_append:
  "insertGroups_loop env (pre @ suf) t ins r =
     (case insertGroups_loop env pre t ins r of
        (Inl e, r') \<Rightarrow> (Inl e, r')
      | (Inr ins', r') \<Rightarrow>
          insertGroups_loop env suf (next_target t (map (\<lambda>i. g_id (ig_group i)) pre)) ins' r')"
proof (induction pre arbitrary: t ins r)
  case Nil
  then show ?case by (simp add: next_target_def)
next
  case (Cons item pre)
  show ?case
  proof (cases "group_id_in_use r (g_id (ig_group item))
                \<or> find (\<lambda>part. part_id_in_use r (p_id part)) (parts (ig_group item)) \<noteq> None")
    case True
    then show ?thesis by (auto split: option.splits)
  next
    case False
    then show ?thesis
      using Cons.IH by (simp add: Let_def next_target_Cons split: prod.splits sum.splits)
  qed
qed

lemma insertGroups_loop_length:
  "insertGroups_loop env items t ins r = (Inr ins', r') \<Longrightarrow>
     length (groups r') = length (groups r) + length items"
proof (induction items arbitrary: t ins r)
  case Nil
  then show ?case by simp
next
  case (Cons item items)
  from Cons.prems have ok: "\<not> group_id_in_use r (g_id (ig_group item))"
    "find (\<lambda>part. part_id_in_use r (p_id part)) (parts (ig_group item)) = None"
    by (auto split: if_splits option.splits)
  let ?r1 = "r\<lparr>groups := splice_insert
                (getPositionFromTarget env t (map g_id (groups r))) (ig_group item) (groups r)\<rparr>"
  have "insertGroups_loop env items (After (g_id (ig_group item)))
          (ins @ [g_id (ig_group item)]) ?r1 = (Inr ins', r')"
    using Cons.prems ok by (simp add: Let_def)
  from Cons.IH [OF this] show ?case by simp
qed

lemma insertGroups_loop_collision:
  assumes "group_id_in_use r (g_id (ig_group bad))
           \<or> (\<exists>part \<in> set (parts (ig_group bad)). part_id_in_use r (p_id part))"
  shows "\<exists>e. insertGroups_loop env (bad # rest) t ins r = (Inl e, r)"
proof (cases "group_id_in_use r (g_id (ig_group bad))")
  case True
  then show ?thesis by simp
next
  case False
  with assms have "find (\<lambda>part. part_id_in_use r (p_id part)) (parts (ig_group bad)) \<noteq> None"
    by (auto simp: find_None_iff)
  then show ?thesis using False by (auto split: option.splits)
qed

lemma find_replace_first:
  "find P xs \<noteq> None \<Longrightarrow> P y \<Longrightarrow> find P (replace_first P y xs) = Some y"
  by (induction xs) auto

lemma insertParts_loop_append:
  "insertParts_loop env gid (pre @ suf) t ins grp r =
     (case insertParts_loop env gid pre t ins grp r of
        (Inl e, g', r') \<Rightarrow> (Inl e, g', r')
      | (Inr ins', g', r') \<Rightarrow>
          insertParts_loop env gid suf (next_target t (map (\<lambda>i. p_id (ip_part i)) pre)) ins' g' r')"
proof (induction pre arbitrary: t ins grp r)
  case Nil
  then show ?case by (simp add: next_target_def)
next
  case (Cons item pre)
  show ?case
  proof (cases "part_id_in_use r (p_id (ip_part item))")
    case True
    then show ?thesis by simp
  next
    case False
    then show ?thesis
      using Cons.IH by (simp add: Let_def next_target_Cons split: prod.splits sum.splits)
  qed
qed

lemma insertParts_loop_group:
  "insertParts_loop env gid items t ins grp r = (Inr ins', grp', r') \<Longrightarrow>
   findGroup r gid = Some grp \<Longrightarrow>
     findGroup r' gid = Some grp' \<and> length (parts grp') = length (parts grp) + length items"
proof (induction items arbitrary: t ins grp r)
  case Nil
  then show ?case by simp
next
  case (Cons item items)
  from Cons.prems(1) have ok: "\<not> part_id_in_use r (p_id (ip_part item))"
    by (auto split: if_splits)
  let ?g1 = "grp\<lparr>parts := splice_insert
                (getPositionFromTarget env t (map p_id (parts grp))) (ip_part item) (parts grp)\<rparr>"
  let ?r1 = "r\<lparr>groups := replace_first (\<lambda>g. g_id g = gid) ?g1 (groups r)\<rparr>"
  have step: "insertParts_loop env gid items (After (p_id (ip_part item)))
          (ins @ [(g_id grp, p_id (ip_part item))]) ?g1 ?r1 = (Inr ins', grp', r')"
    using Cons.prems(1) ok by (simp add: Let_def)
  have gid: "g_id grp = gid"
    using Cons.prems(2) by (auto simp: findGroup_def find_Some_iff)
  have found: "findGroup ?r1 gid = Some ?g1"
    using Cons.prems(2) gid by (simp add: findGroup_def find_replace_first)
  from Cons.IH [OF step found] show ?case by simp
qed

lemma sample_loop:
  "insertGroups_loop sample_insert_env [group_item ''A'' [''a1'']] Last [] sample_rundown
     = (Inr [''A''], sample_rundown\<lparr>groups := [group_with ''X'' [''x1''], group_with ''A'' [''a1'']]\<rparr>)"
  by (simp add: sample_insert_env_def sample_position_def group_item_def sample_rundown_def
      group_with_def sample_group_def sample_part_def group_id_in_use_def part_id_in_use_def
      splice_insert_def splice_start_def Let_def)

lemma sample_parts_loop:
  "insertParts_loop sample_insert_env ''X'' [part_item ''p1''] Last [] (group_with ''X'' [''x1''])
     sample_rundown
     = (Inr [(''X'', ''p1'')], group_with ''X'' [''x1'', ''p1''],
        sample_rundown\<lparr>groups := [group_with ''X'' [''x1'', ''p1'']]\<rparr>)"
  by (simp add: sample_insert_env_def sample_position_def part_item_def sample_rundown_def
      group_with_def sample_group_def sample_part_def part_id_in_use_def
      splice_insert_def splice_start_def Let_def)

text \<open>
  Claim C6, as the code has it. \<open>insertGroups\<close> and \<open>insertParts\<close> check each item of the
  batch right before they insert it. When an item collides with an id in the rundown,
  the error is thrown there: the items before it stay inserted in the rundown (one
  more group, or one more part of the group, for each), the item and those after it
  are not inserted. When the first item collides the rundown is as before the call.
\<close>

theorem insert_collision_keeps_earlier_items:
  "(insertGroups_loop env pre target [] rundown = (Inr ins, rundown')
      \<and> (group_id_in_use rundown' (g_id (ig_group bad))
         \<or> (\<exists>part \<in> set (parts (ig_group bad)). part_id_in_use rundown' (p_id part)))
     \<longrightarrow> (\<exists>e. insertGroups env (pre @ bad # rest) target rundown = (Inl e, rundown'))
       \<and> length (groups rundown') = length (groups rundown) + length pre)
   \<and> (group_id_in_use rundown (g_id (ig_group bad))
         \<or> (\<exists>part \<in> set (parts (ig_group bad)). part_id_in_use rundown (p_id part))
     \<longrightarrow> (\<exists>e. insertGroups env (bad # rest) target rundown = (Inl e, rundown)))
   \<and> (gid \<noteq> [] \<and> findGroup rundown gid = Some grp \<and> \<not> transparent grp
      \<and> insertParts_loop env gid ppre target [] grp rundown = (Inr pins, grp', prundown')
      \<and> part_id_in_use prundown' (p_id (ip_part pbad))
     \<longrightarrow> (\<exists>e. insertParts env (Some gid) (ppre @ pbad # prest) target rundown = (Inl e, prundown'))
       \<and> findGroup prundown' gid = Some grp'
       \<and> length (parts grp') = length (parts grp) + length ppre)
   \<and> (gid \<noteq> [] \<and> findGroup rundown gid = Some grp \<and> \<not> transparent grp
      \<and> part_id_in_use rundown (p_id (ip_part pbad))
     \<longrightarrow> (\<exists>e. insertParts env (Some gid) (pbad # prest) target rundown = (Inl e, rundown)))"
proof (intro conjI impI)
  assume h: "insertGroups_loop env pre target [] rundown = (Inr ins, rundown')
      \<and> (group_id_in_use rundown' (g_id (ig_group bad))
         \<or> (\<exists>part \<in> set (parts (ig_group bad)). part_id_in_use rundown' (p_id part)))"
  then obtain e where
    "insertGroups_loop env (bad # rest) (next_target target (map (\<lambda>i. g_id (ig_group i)) pre))
       ins rundown' = (Inl e, rundown')"
    using insertGroups_loop_collision by blast
  with h have "insertGroups_loop env (pre @ bad # rest) target [] rundown = (Inl e, rundown')"
    by (simp add: insertGroups_loop_append)
  then show "\<exists>e. insertGroups env (pre @ bad # rest) target rundown = (Inl e, rundown')"
    by (simp add: insertGroups_def)
  from h insertGroups_loop_length [of env pre target "[]" rundown ins rundown']
  show "length (groups rundown') = length (groups rundown) + length pre"
    by simp
next
  assume "group_id_in_use rundown (g_id (ig_group bad))
         \<or> (\<exists>part \<in> set (parts (ig_group bad)). part_id_in_use rundown (p_id part))"
  then obtain e where "insertGroups_loop env (bad # rest) target [] rundown = (Inl e, rundown)"
    using insertGroups_loop_collision by blast
  then show "\<exists>e. insertGroups env (bad # rest) target rundown = (Inl e, rundown)"
    by (simp add: insertGroups_def)
next
  assume h: "gid \<noteq> [] \<and> findGroup rundown gid = Some grp \<and> \<not> transparent grp
      \<and> insertParts_loop env gid ppre target [] grp rundown = (Inr pins, grp', prundown')
      \<and> part_id_in_use prundown' (p_id (ip_part pbad))"
  then have "insertParts_loop env gid (ppre @ pbad # prest) target [] grp rundown
               = (Inl (Error (''part id is already in use: '' @ p_id (ip_part pbad))), grp', prundown')"
    by (simp add: insertParts_loop_append)
  with h show "\<exists>e. insertParts env (Some gid) (ppre @ pbad # prest) target rundown = (Inl e, prundown')"
    by (simp add: insertParts_def)
  from h insertParts_loop_group [of env gid ppre target "[]" grp rundown pins grp' prundown']
  show "findGroup prundown' gid = Some grp'"
    and "length (parts grp') = length (parts grp) + length ppre"
    by simp_all
next
  assume "gid \<noteq> [] \<and> findGroup rundown gid = Some grp \<and> \<not> transparent grp
      \<and> part_id_in_use rundown (p_id (ip_part pbad))"
  then show "\<exists>e. insertParts env (Some gid) (pbad # prest) target rundown = (Inl e, rundown)"
    by (simp add: insertParts_def)
qed

theorem insert_collision_keeps_earlier_items_witness:
  "(\<exists>e. insertGroups sample_insert_env [group_item ''A'' [''a1''], group_item ''X'' [''x9'']] Last
          sample_rundown
        = (Inl e, sample_rundown\<lparr>groups := [group_with ''X'' [''x1''], group_with ''A'' [''a1'']]\<rparr>))
   \<and> (\<exists>e. insertGroups sample_insert_env [group_item ''X'' [''x9''], group_item ''A'' [''a1'']] Last
          sample_rundown
        = (Inl e, sample_rundown))
   \<and> (\<exists>e. insertParts sample_insert_env (Some ''X'') [part_item ''p1'', part_item ''x1''] Last
          sample_rundown
        = (Inl e, sample_rundown\<lparr>groups := [group_with ''X'' [''x1'', ''p1'']]\<rparr>))
   \<and> (\<exists>e. insertParts sample_insert_env (Some ''X'') [part_item ''x1'', part_item ''p1''] Last
          sample_rundown
        = (Inl e, sample_rundown))"
proof -
  have g: "group_id_in_use sample_rundown (g_id (ig_group (group_item ''X'' [''x9''])))"
    by (simp add: group_id_in_use_def sample_rundown_def group_item_def group_with_def)
  have g': "group_id_in_use
              (sample_rundown\<lparr>groups := [group_with ''X'' [''x1''], group_with ''A'' [''a1'']]\<rparr>)
              (g_id (ig_group (group_item ''X'' [''x9''])))"
    by (simp add: group_id_in_use_def group_item_def group_with_def)
  have f: "findGroup sample_rundown ''X'' = Some (group_with ''X'' [''x1''])"
    by (simp add: findGroup_def sample_rundown_def group_with_def)
  have t: "\<not> transparent (group_with ''X'' [''x1''])"
    by (simp add: group_with_def sample_group_def)
  have p: "part_id_in_use sample_rundown (p_id (ip_part (part_item ''x1'')))"
    by (simp add: part_id_in_use_def sample_rundown_def part_item_def group_with_def
        sample_part_def)
  have p': "part_id_in_use (sample_rundown\<lparr>groups := [group_with ''X'' [''x1'', ''p1'']]\<rparr>)
              (p_id (ip_part (part_item ''x1'')))"
    by (simp add: part_id_in_use_def part_item_def group_with_def sample_part_def)
  show ?thesis
    using insert_collision_keeps_earlier_items [of sample_insert_env "[group_item ''A'' [''a1'']]"
        Last sample_rundown "[''A'']"
        "sample_rundown\<lparr>groups := [group_with ''X'' [''x1''], group_with ''A'' [''a1'']]\<rparr>"
        "group_item ''X'' [''x9'']" "[]" "''X''" "group_with ''X'' [''x1'']" "[part_item ''p1'']"
        "[(''X'', ''p1'')]" "group_with ''X'' [''x1'', ''p1'']"
        "sample_rundown\<lparr>groups := [group_with ''X'' [''x1'', ''p1'']]\<rparr>"
        "part_item ''x1''" "[]"]
      insert_collision_keeps_earlier_items [of sample_insert_env "[]"
        Last sample_rundown "[]" sample_rundown
        "group_item ''X'' [''x9'']" "[group_item ''A'' [''a1'']]" "''X''" "group_with ''X'' [''x1'']" "[]"
        "[]" "group_with ''X'' [''x1'']" sample_rundown
        "part_item ''x1''" "[part_item ''p1'']"]
      sample_loop sample_parts_loop g g' f t p p'
    by simp
qed

theorem insertGroups_partial_counterexample:
  "map g_id (groups sample_rundown) = [''X'']
   \<and> fst (insertGroups sample_insert_env [group_item ''A'' [''a1''], group_item ''X'' [''x9'']]
            Last sample_rundown)
       = Inl (Error ''Group id is already in use: X'')
   \<and> map g_id (groups (snd (insertGroups sample_insert_env
            [group_item ''A'' [''a1''], group_item ''X'' [''x9'']] Last sample_rundown)))
       = [''X'', ''A'']"
  by (simp add: insertGroups_def sample_insert_env_def sample_position_def group_item_def
      sample_rundown_def group_with_def sample_group_def sample_part_def group_id_in_use_def
      part_id_in_use_def splice_insert_def splice_start_def Let_def)


section \<open>Properties of the timeline of a group\<close>

lemma changeTimelineId_start:
  "enable_start en = Some (ENum n) \<Longrightarrow>
   starts_of (fst (changeTimelineId (TimelineObject i [en] l ch kf) ic)) = [Some (ENum n)]"
  by (simp add: changeTimelineId_def starts_of_def updateTimelineEnable_def split: prod.splits)

lemma section_parts_shape:
  "list_all2 (part_object_at section) ps (fst (section_parts env grp section ps ic))"
proof (induction ps arbitrary: ic)
  case Nil
  then show ?case by simp
next
  case (Cons p ps)
  obtain objId ic1 where m: "makeUniqueId (p_id (pp_part p)) ic = (objId, ic1)"
    by (cases "makeUniqueId (p_id (pp_part p)) ic")
  let ?raw = "partToTimelineObj env objId grp p (pp_startTime p - sec_startTime section)
                (sec_pauseTime section) (sec_stopTime section)"
  obtain obj ic2 where c: "changeTimelineId ?raw ic1 = (obj, ic2)"
    by (cases "changeTimelineId ?raw ic1")
  obtain objs ic3 where r: "section_parts env grp section ps ic2 = (objs, ic3)"
    by (cases "section_parts env grp section ps ic2")
  have "starts_of (fst (changeTimelineId ?raw ic1))
          = [Some (ENum (Num (pp_startTime p - sec_startTime section)))]"
    unfolding partToTimelineObj_def Let_def by (rule changeTimelineId_start) simp
  then have here: "part_object_at section p obj"
    using c by (simp add: part_object_at_def)
  have rest: "list_all2 (part_object_at section) ps objs"
    using Cons.IH [of ic2] r by simp
  show ?case using m c r here rest by simp
qed

lemma sectionToTimelineObj_shape:
  "fst (sectionToTimelineObj env grp section ident layer ic) = objs \<Longrightarrow>
   (sec_parts section = [] \<longrightarrow> objs = [])
   \<and> (sec_parts section \<noteq> [] \<longrightarrow> (\<exists>obj. objs = [obj] \<and> section_object_at 0 section obj))"
proof -
  assume a: "fst (sectionToTimelineObj env grp section ident layer ic) = objs"
  obtain children ic' where s: "section_parts env grp section (sec_parts section) ic = (children, ic')"
    by (cases "section_parts env grp section (sec_parts section) ic")
  have sh: "list_all2 (part_object_at section) (sec_parts section) children"
    using section_parts_shape [of "section" "sec_parts section" env grp ic] s by simp
  then have len: "length children = length (sec_parts section)"
    by (simp add: list_all2_lengthD)
  show ?thesis
    using a s sh len
    by (auto simp: sectionToTimelineObj_def Let_def section_object_at_def starts_of_def)
qed

lemma fold_js_min_Num:
  "fold (\<lambda>s acc. js_min (Num (sec_startTime s)) acc) sections (Num m)
     = Num (Min (insert m (sec_startTime ` set sections)))"
proof (induction sections arbitrary: m)
  case Nil
  then show ?case by simp
next
  case (Cons s sections)
  have "Min (insert (min (sec_startTime s) m) (sec_startTime ` set sections))
          = Min (insert m (insert (sec_startTime s) (sec_startTime ` set sections)))"
    by (cases "set sections = {}") (simp_all add: min.commute min.left_commute)
  then show ?case using Cons.IH [of "min (sec_startTime s) m"] by simp
qed

lemma fold_js_min_Infinity:
  "sections \<noteq> [] \<Longrightarrow>
   fold (\<lambda>s acc. js_min (Num (sec_startTime s)) acc) sections Infinity
     = Num (Min (sec_startTime ` set sections))"
  by (cases sections) (simp_all add: fold_js_min_Num)

lemma single_sections_step:
  "sectionToTimelineObj env grp s (g_id grp @ ''_'' @ string_of_nat i) (g_id grp) ic = (objs, ic') \<Longrightarrow>
   single_sections env grp (s # sections) i (fs, le, ch, ic)
     = single_sections env grp sections (i + 1)
         (js_min (Num (sec_startTime s)) fs,
          (if sec_stopTime s \<noteq> None \<or> \<not> pauseLastFrame
           then js_max (end_or_infinity (sec_endTime s)) le else Infinity),
          ch @ objs, ic')"
  by (simp add: Let_def)

lemma single_sections_firstStart:
  "fst (single_sections env grp sections i (fs, le, ch, ic))
     = fold (\<lambda>s acc. js_min (Num (sec_startTime s)) acc) sections fs"
proof (induction sections arbitrary: i fs le ch ic)
  case Nil
  then show ?case by simp
next
  case (Cons s sections)
  obtain objs ic' where
    "sectionToTimelineObj env grp s (g_id grp @ ''_'' @ string_of_nat i) (g_id grp) ic = (objs, ic')"
    by (cases "sectionToTimelineObj env grp s (g_id grp @ ''_'' @ string_of_nat i) (g_id grp) ic")
  then obtain le' where step:
    "single_sections env grp (s # sections) i (fs, le, ch, ic)
       = single_sections env grp sections (i + 1)
           (js_min (Num (sec_startTime s)) fs, le', ch @ objs, ic')"
    using single_sections_step by metis
  show ?case
    unfolding step
    using Cons.IH [of "i + 1" "js_min (Num (sec_startTime s)) fs" le' "ch @ objs" ic']
    by simp
qed

lemma single_sections_children:
  "\<exists>new. fst (snd (snd (single_sections env grp sections i (fs, le, ch, ic)))) = ch @ new
       \<and> list_all2 (section_object_at 0) (filter (\<lambda>s. sec_parts s \<noteq> []) sections) new"
proof (induction sections arbitrary: i fs le ch ic)
  case Nil
  then show ?case by simp
next
  case (Cons s sections)
  let ?ident = "g_id grp @ ''_'' @ string_of_nat i"
  obtain objs ic' where o: "sectionToTimelineObj env grp s ?ident (g_id grp) ic = (objs, ic')"
    by (cases "sectionToTimelineObj env grp s ?ident (g_id grp) ic")
  have shape: "(sec_parts s = [] \<longrightarrow> objs = [])
     \<and> (sec_parts s \<noteq> [] \<longrightarrow> (\<exists>obj. objs = [obj] \<and> section_object_at 0 s obj))"
    using o sectionToTimelineObj_shape [of env grp s ?ident "g_id grp" ic objs] by simp
  have here: "list_all2 (section_object_at 0) (filter (\<lambda>s. sec_parts s \<noteq> []) [s]) objs"
    using shape by auto
  obtain fs' le' where step:
    "single_sections env grp (s # sections) i (fs, le, ch, ic)
       = single_sections env grp sections (i + 1) (fs', le', ch @ objs, ic')"
    using single_sections_step [OF o] by metis
  obtain new where new:
    "fst (snd (snd (single_sections env grp sections (i + 1) (fs', le', ch @ objs, ic'))))
       = (ch @ objs) @ new"
    "list_all2 (section_object_at 0) (filter (\<lambda>s. sec_parts s \<noteq> []) sections) new"
    using Cons.IH [of "i + 1" fs' le' "ch @ objs" ic'] by blast
  have both: "list_all2 (section_object_at 0)
          (filter (\<lambda>s. sec_parts s \<noteq> []) [s] @ filter (\<lambda>s. sec_parts s \<noteq> []) sections)
          (objs @ new)"
    using here new(2) by (rule list_all2_appendI)
  have split: "filter (\<lambda>s. sec_parts s \<noteq> []) (s # sections)
                 = filter (\<lambda>s. sec_parts s \<noteq> []) [s] @ filter (\<lambda>s. sec_parts s \<noteq> []) sections"
    by simp
  have "list_all2 (section_object_at 0) (filter (\<lambda>s. sec_parts s \<noteq> []) (s # sections))
               (objs @ new)"
    unfolding split by (rule both)
  moreover have "fst (snd (snd (single_sections env grp (s # sections) i (fs, le, ch, ic))))
                   = ch @ (objs @ new)"
    unfolding step new(1) by simp
  ultimately show ?case by blast
qed

lemma rebase_section_object:
  assumes "section_object_at 0 s obj"
  shows "section_object_at m s (rebase_object (Num m) obj)"
proof -
  have st: "starts_of (rebase_object (Num m) obj)
              = map (rebase_expression (Num m)) (starts_of obj)"
    by (simp add: starts_of_def rebase_object_def)
  have ch: "obj_children (rebase_object (Num m) obj) = obj_children obj"
    by (simp add: rebase_object_def)
  have "starts_of obj = [Some (ENum (Num (sec_startTime s)))]"
    using assms by (simp add: section_object_at_def)
  then have "starts_of (rebase_object (Num m) obj) = [Some (ENum (Num (sec_startTime s - m)))]"
    unfolding st by (simp add: rebase_expression_def)
  then show ?thesis
    using assms unfolding section_object_at_def ch by simp
qed

text \<open>
  Claim C8. For prepared data of type \<open>single\<close> in which some section has a part, the
  timeline is one wrapper whose \<open>enable.start\<close> is \<open>firstStart\<close>, the least
  \<open>startTime\<close> of the sections. Its children are the section objects, one for each
  section that has parts, in order. The absolute times under the wrapper are the starts
  of the section objects, and \<open>firstStart\<close> is subtracted from each of them: a section
  object starts at \<open>section.startTime - firstStart\<close>. What is nested deeper was built
  relative to its own parent: the content object starts at \<open>0\<close> and a part object at
  \<open>part.startTime - section.startTime\<close>. So every time in the subtree of the wrapper is
  relative, and the wrapper alone carries an absolute time.
\<close>

theorem single_timeline_rebased:
  assumes "\<exists>s \<in> set sections. sec_parts s \<noteq> []"
  shows "\<exists>wrapper. getTimelineForGroup env grp (Some (Single sections)) = Some [wrapper]
           \<and> starts_of wrapper = [Some (ENum (Num (Min (sec_startTime ` set sections))))]
           \<and> list_all2 (section_object_at (Min (sec_startTime ` set sections)))
                 (filter (\<lambda>s. sec_parts s \<noteq> []) sections) (obj_children wrapper)"
proof -
  let ?m = "Min (sec_startTime ` set sections)"
  let ?with_parts = "filter (\<lambda>s. sec_parts s \<noteq> []) sections"
  obtain fs le ch ic where run:
    "single_sections env grp sections 0 (Infinity, Num 0, [], []) = (fs, le, ch, ic)"
    by (cases "single_sections env grp sections 0 (Infinity, Num 0, [], [])") auto
  have ne: "sections \<noteq> []" using assms by auto
  have fs: "fs = Num ?m"
    using single_sections_firstStart [of env grp sections 0 Infinity "Num 0" "[]" "[]"] run
      fold_js_min_Infinity [OF ne] by simp
  have shape: "list_all2 (section_object_at 0) ?with_parts ch"
    using single_sections_children [of env grp sections 0 Infinity "Num 0" "[]" "[]"] run by simp
  have "?with_parts \<noteq> []" using assms by (simp add: filter_empty_conv)
  then have some: "length ch > 0"
    using shape by (auto dest: list_all2_lengthD)
  let ?wrapper = "TimelineObject (''group_'' @ g_id grp)
                    [\<lparr>enable_start = Some (ENum fs),
                      enable_end = (if le = Infinity then None else Some (ENum le)),
                      enable_while = None, enable_duration = None, enable_repeating = None\<rparr>]
                    (''__group_'' @ g_id grp) (map (rebase_object fs) ch) []"
  have res: "getTimelineForGroup env grp (Some (Single sections)) = Some [?wrapper]"
    using run some by (simp add: getTimelineForGroup_def)
  have st: "starts_of ?wrapper = [Some (ENum (Num ?m))]"
    by (simp add: starts_of_def fs)
  have "list_all2 (\<lambda>s obj. section_object_at ?m s (rebase_object (Num ?m) obj)) ?with_parts ch"
    using shape by (rule list_all2_mono) (rule rebase_section_object)
  then have kids: "list_all2 (section_object_at ?m) ?with_parts (obj_children ?wrapper)"
    by (simp add: list_all2_map2 fs)
  show ?thesis using res st kids by blast
qed

theorem single_timeline_rebased_witness:
  "(\<exists>s \<in> set two_sections. sec_parts s \<noteq> [])
   \<and> (\<exists>wrapper. getTimelineForGroup own_timeline_env sample_group (Some (Single two_sections))
                      = Some [wrapper]
          \<and> starts_of wrapper = [Some (ENum (Num 1000))]
          \<and> list_all2 (section_object_at 1000) two_sections (obj_children wrapper))"
proof -
  have h: "\<exists>s \<in> set two_sections. sec_parts s \<noteq> []"
    by (simp add: two_sections_def)
  have m: "Min (sec_startTime ` set two_sections) = 1000"
    by (simp add: two_sections_def)
  have f: "filter (\<lambda>s. sec_parts s \<noteq> []) two_sections = two_sections"
    by (simp add: two_sections_def)
  show ?thesis
    using h single_timeline_rebased [OF h, of own_timeline_env sample_group]
    unfolding m f by simp
qed

text \<open>
  Claim C3, at an input where the code breaks it. A part with the objects \<open>obj\<close> and
  \<open>obj2\<close>, the first starting at \<open>#obj2.start\<close>, is played twice. The second expansion
  has the ids \<open>obj_1\<close> and \<open>obj2_1\<close>, but its reference has become \<open>#obj_12.start\<close>:
  the replacement of \<open>obj\<close> hit the prefix of \<open>obj2\<close>, and no object has that id.
\<close>

theorem repeated_part_reference_dangles:
  "getTimelineForGroup own_timeline_env sample_group (Some repeated_part_prepared)
     = Some
        [TimelineObject ''group_G'' [start_only (ENum (Num 1000))] ''__group_G''
           [TimelineObject ''section_G_0'' [start_only (ENum (Num 0))] ''G''
              [TimelineObject ''section_content_G_0'' [start_only (ENum (Num 0))] ''G_content''
                 [TimelineObject ''P_0''
                    [playing_forever\<lparr>enable_start := Some (ENum (Num 0))\<rparr>] ''P_0''
                    [TimelineObject ''obj''
                       [playing_forever\<lparr>enable_start := Some (EStr ''#obj2.start'')\<rparr>] ''L1'' [] [],
                     TimelineObject ''obj2''
                       [playing_forever\<lparr>enable_start := Some (ENum (Num 0))\<rparr>] ''L2'' [] []]
                    [],
                  TimelineObject ''P_1''
                    [playing_forever\<lparr>enable_start := Some (ENum (Num 1000))\<rparr>] ''P_1''
                    [TimelineObject ''obj_1''
                       [playing_forever\<lparr>enable_start := Some (EStr ''#obj_12.start'')\<rparr>] ''L1'' [] [],
                     TimelineObject ''obj2_1''
                       [playing_forever\<lparr>enable_start := Some (ENum (Num 0))\<rparr>] ''L2'' [] []]
                    []]
                 []]
              []]
           []]"
  by code_simp


section \<open>Properties of the session handler\<close>

lemma emitted_triggerUpdate [simp]: "emitted (triggerUpdate s) = emitted s"
  by (simp add: triggerUpdate_def)

lemma emitted_mutate: "emitted (mutate m s) = emitted s"
  by (cases m)
     (simp_all add: updateResource_def updateBridgeStatus_def updatePeripheralStatus_def
        updatePeripheralTriggerStatus_def Let_def split: option.splits)

lemma emitted_fold_mutate: "emitted (fold mutate ms s) = emitted s"
  by (induction ms arbitrary: s) (simp_all add: emitted_mutate)

lemma timer_triggerUpdate:
  "emitTimeout (triggerUpdate s)
   \<and> timersSet (triggerUpdate s) = (if emitTimeout s then timersSet s else timersSet s + 1)"
  by (simp add: triggerUpdate_def)

lemma timer_mutate:
  "emitTimeout (mutate m s)
   \<and> timersSet (mutate m s) = (if emitTimeout s then timersSet s else timersSet s + 1)"
  by (cases m)
     (simp_all add: updateResource_def updateBridgeStatus_def updatePeripheralStatus_def
        updatePeripheralTriggerStatus_def Let_def timer_triggerUpdate split: option.splits)

lemma timer_fold_pending:
  "emitTimeout s \<Longrightarrow>
   emitTimeout (fold mutate ms s) \<and> timersSet (fold mutate ms s) = timersSet s"
  by (induction ms arbitrary: s) (simp_all add: timer_mutate)

lemma timer_fold_mutate:
  "\<not> emitTimeout s \<Longrightarrow> ms \<noteq> [] \<Longrightarrow>
   emitTimeout (fold mutate ms s) \<and> timersSet (fold mutate ms s) = timersSet s + 1"
proof (cases ms)
  case Nil
  assume "ms \<noteq> []"
  with Nil show ?thesis by simp
next
  case (Cons m rest)
  assume idle: "\<not> emitTimeout s"
  have p: "emitTimeout (mutate m s)" by (simp add: timer_mutate)
  have n: "timersSet (mutate m s) = timersSet s + 1" using idle by (simp add: timer_mutate)
  show ?thesis using timer_fold_pending [OF p, of rest] n Cons by simp
qed

lemma mark_keeps: "k \<in> set changed \<Longrightarrow> k \<in> set (mark k' changed)"
  by (simp add: mark_def)

lemma mark_marks: "k \<in> set (mark k changed)"
  by (simp add: mark_def)

lemma resource_marked_mutate:
  "k \<in> set (resourcesHasChanged s) \<Longrightarrow> k \<in> set (resourcesHasChanged (mutate m s))"
  by (cases m)
     (simp_all add: updateResource_def updateBridgeStatus_def updatePeripheralStatus_def
        updatePeripheralTriggerStatus_def Let_def triggerUpdate_def mark_keeps
        split: option.splits)

lemma resource_marked_fold:
  "k \<in> set (resourcesHasChanged s) \<Longrightarrow> k \<in> set (resourcesHasChanged (fold mutate ms s))"
  by (induction ms arbitrary: s) (simp_all add: resource_marked_mutate)

lemma resource_marked_after:
  "UpdateResource k r \<in> set ms \<Longrightarrow> k \<in> set (resourcesHasChanged (fold mutate ms s))"
proof (induction ms arbitrary: s)
  case Nil
  then show ?case by simp
next
  case (Cons m ms)
  show ?case
  proof (cases "m = UpdateResource k r")
    case True
    have "k \<in> set (resourcesHasChanged (mutate m s))"
      unfolding True
      by (simp add: updateResource_def triggerUpdate_def mark_marks split: option.splits)
    then show ?thesis by (simp add: resource_marked_fold)
  next
    case False
    then show ?thesis using Cons by simp
  qed
qed

lemma fold_mark_keeps: "k \<in> set changed \<Longrightarrow> k \<in> set (fold mark ks changed)"
  by (induction ks arbitrary: changed) (simp_all add: mark_keeps)

lemma emitChanges_resources:
  assumes "k \<in> set (resourcesHasChanged s)"
  shows "ResourceEvent k (getResource s k) \<in> set (emitted (timer_fires s))"
proof (cases "emitEverything s")
  case True
  have "k \<in> set (fold mark (map fst (resources s)) (resourcesHasChanged s))"
    using assms by (rule fold_mark_keeps)
  then show ?thesis
    using True by (simp add: timer_fires_def emitChanges_def getResource_def Let_def)
next
  case False
  then show ?thesis
    using assms by (simp add: timer_fires_def emitChanges_def getResource_def Let_def)
qed

lemma marked_triggerUpdate [simp]:
  "resourcesHasChanged (triggerUpdate s) = resourcesHasChanged s"
  "bridgeStatusesHasChanged (triggerUpdate s) = bridgeStatusesHasChanged s"
  "peripheralsHasChanged (triggerUpdate s) = peripheralsHasChanged s"
  "allTriggersHasChanged (triggerUpdate s) = allTriggersHasChanged s"
  "activeTriggersHasChanged (triggerUpdate s) = activeTriggersHasChanged s"
  "resources (triggerUpdate s) = resources s"
  "bridgeStatuses (triggerUpdate s) = bridgeStatuses s"
  "peripherals (triggerUpdate s) = peripherals s"
  "allTriggers (triggerUpdate s) = allTriggers s"
  "activeTriggers (triggerUpdate s) = activeTriggers s"
  "emitEverything (triggerUpdate s) = emitEverything s"
  by (simp_all add: triggerUpdate_def)

lemma emitEverything_mutate: "emitEverything (mutate m s) = emitEverything s"
  by (cases m)
     (simp_all add: updateResource_def updateBridgeStatus_def updatePeripheralStatus_def
        updatePeripheralTriggerStatus_def Let_def split: option.splits)

lemma emitEverything_fold_mutate: "emitEverything (fold mutate ms s) = emitEverything s"
  by (induction ms arbitrary: s) (simp_all add: emitEverything_mutate)

lemma bridge_marked_mutate:
  "k \<in> set (bridgeStatusesHasChanged s) \<Longrightarrow> k \<in> set (bridgeStatusesHasChanged (mutate m s))"
  by (cases m)
     (simp_all add: updateResource_def updateBridgeStatus_def updatePeripheralStatus_def
        updatePeripheralTriggerStatus_def Let_def mark_keeps split: option.splits)

lemma peripheral_marked_mutate:
  "k \<in> set (peripheralsHasChanged s) \<Longrightarrow> k \<in> set (peripheralsHasChanged (mutate m s))"
  by (cases m)
     (simp_all add: updateResource_def updateBridgeStatus_def updatePeripheralStatus_def
        updatePeripheralTriggerStatus_def Let_def mark_keeps split: option.splits)

lemma trigger_marked_mutate:
  "k \<in> set (allTriggersHasChanged s) \<Longrightarrow> k \<in> set (allTriggersHasChanged (mutate m s))"
  by (cases m)
     (simp_all add: updateResource_def updateBridgeStatus_def updatePeripheralStatus_def
        updatePeripheralTriggerStatus_def Let_def mark_keeps split: option.splits)

lemma active_marked_mutate:
  "activeTriggersHasChanged s \<Longrightarrow> activeTriggersHasChanged (mutate m s)"
  by (cases m)
     (simp_all add: updateResource_def updateBridgeStatus_def updatePeripheralStatus_def
        updatePeripheralTriggerStatus_def Let_def split: option.splits)

lemma resource_changed_mutate:
  "map_of (resources (mutate m s)) k \<noteq> map_of (resources s) k
   \<Longrightarrow> k \<in> set (resourcesHasChanged (mutate m s))"
  by (cases m)
     (auto simp: updateResource_def updateBridgeStatus_def updatePeripheralStatus_def
        updatePeripheralTriggerStatus_def Let_def mark_marks update_conv' delete_conv'
        split: option.splits if_splits)

lemma bridge_changed_mutate:
  "map_of (bridgeStatuses (mutate m s)) k \<noteq> map_of (bridgeStatuses s) k
   \<Longrightarrow> k \<in> set (bridgeStatusesHasChanged (mutate m s))"
  by (cases m)
     (auto simp: updateResource_def updateBridgeStatus_def updatePeripheralStatus_def
        updatePeripheralTriggerStatus_def Let_def mark_marks update_conv' delete_conv'
        split: option.splits if_splits)

lemma peripheral_changed_mutate:
  "map_of (peripherals (mutate m s)) k \<noteq> map_of (peripherals s) k
   \<Longrightarrow> k \<in> set (peripheralsHasChanged (mutate m s))"
  by (cases m)
     (auto simp: updateResource_def updateBridgeStatus_def updatePeripheralStatus_def
        updatePeripheralTriggerStatus_def Let_def mark_marks update_conv' delete_conv'
        split: option.splits if_splits)

lemma trigger_changed_mutate:
  "map_of (allTriggers (mutate m s)) k \<noteq> map_of (allTriggers s) k
   \<Longrightarrow> k \<in> set (allTriggersHasChanged (mutate m s))"
  by (cases m)
     (auto simp: updateResource_def updateBridgeStatus_def updatePeripheralStatus_def
        updatePeripheralTriggerStatus_def Let_def mark_marks update_conv' delete_conv'
        split: option.splits if_splits)

lemma active_changed_mutate:
  "activeTriggers (mutate m s) \<noteq> activeTriggers s \<Longrightarrow> activeTriggersHasChanged (mutate m s)"
  by (cases m)
     (auto simp: updateResource_def updateBridgeStatus_def updatePeripheralStatus_def
        updatePeripheralTriggerStatus_def Let_def
        split: option.splits if_splits)

lemma resource_changed_fold:
  "map_of (resources (fold mutate ms s)) k \<noteq> map_of (resources s) k
   \<Longrightarrow> k \<in> set (resourcesHasChanged (fold mutate ms s))"
proof (induction ms arbitrary: s)
  case Nil
  then show ?case by simp
next
  case (Cons m ms)
  show ?case
  proof (cases "map_of (resources (mutate m s)) k = map_of (resources s) k")
    case True
    then show ?thesis using Cons by simp
  next
    case False
    then have "k \<in> set (resourcesHasChanged (mutate m s))" by (rule resource_changed_mutate)
    then show ?thesis by (simp add: resource_marked_fold)
  qed
qed

lemma bridge_marked_fold:
  "k \<in> set (bridgeStatusesHasChanged s) \<Longrightarrow> k \<in> set (bridgeStatusesHasChanged (fold mutate ms s))"
  by (induction ms arbitrary: s) (simp_all add: bridge_marked_mutate)

lemma peripheral_marked_fold:
  "k \<in> set (peripheralsHasChanged s) \<Longrightarrow> k \<in> set (peripheralsHasChanged (fold mutate ms s))"
  by (induction ms arbitrary: s) (simp_all add: peripheral_marked_mutate)

lemma trigger_marked_fold:
  "k \<in> set (allTriggersHasChanged s) \<Longrightarrow> k \<in> set (allTriggersHasChanged (fold mutate ms s))"
  by (induction ms arbitrary: s) (simp_all add: trigger_marked_mutate)

lemma active_marked_fold:
  "activeTriggersHasChanged s \<Longrightarrow> activeTriggersHasChanged (fold mutate ms s)"
  by (induction ms arbitrary: s) (simp_all add: active_marked_mutate)

lemma bridge_changed_fold:
  "map_of (bridgeStatuses (fold mutate ms s)) k \<noteq> map_of (bridgeStatuses s) k
   \<Longrightarrow> k \<in> set (bridgeStatusesHasChanged (fold mutate ms s))"
proof (induction ms arbitrary: s)
  case Nil
  then show ?case by simp
next
  case (Cons m ms)
  show ?case
  proof (cases "map_of (bridgeStatuses (mutate m s)) k = map_of (bridgeStatuses s) k")
    case True
    then show ?thesis using Cons by simp
  next
    case False
    then have "k \<in> set (bridgeStatusesHasChanged (mutate m s))" by (rule bridge_changed_mutate)
    then show ?thesis by (simp add: bridge_marked_fold)
  qed
qed

lemma peripheral_changed_fold:
  "map_of (peripherals (fold mutate ms s)) k \<noteq> map_of (peripherals s) k
   \<Longrightarrow> k \<in> set (peripheralsHasChanged (fold mutate ms s))"
proof (induction ms arbitrary: s)
  case Nil
  then show ?case by simp
next
  case (Cons m ms)
  show ?case
  proof (cases "map_of (peripherals (mutate m s)) k = map_of (peripherals s) k")
    case True
    then show ?thesis using Cons by simp
  next
    case False
    then have "k \<in> set (peripheralsHasChanged (mutate m s))" by (rule peripheral_changed_mutate)
    then show ?thesis by (simp add: peripheral_marked_fold)
  qed
qed

lemma trigger_changed_fold:
  "map_of (allTriggers (fold mutate ms s)) k \<noteq> map_of (allTriggers s) k
   \<Longrightarrow> k \<in> set (allTriggersHasChanged (fold mutate ms s))"
proof (induction ms arbitrary: s)
  case Nil
  then show ?case by simp
next
  case (Cons m ms)
  show ?case
  proof (cases "map_of (allTriggers (mutate m s)) k = map_of (allTriggers s) k")
    case True
    then show ?thesis using Cons by simp
  next
    case False
    then have "k \<in> set (allTriggersHasChanged (mutate m s))" by (rule trigger_changed_mutate)
    then show ?thesis by (simp add: trigger_marked_fold)
  qed
qed

lemma active_changed_fold:
  "activeTriggers (fold mutate ms s) \<noteq> activeTriggers s
   \<Longrightarrow> activeTriggersHasChanged (fold mutate ms s)"
proof (induction ms arbitrary: s)
  case Nil
  then show ?case by simp
next
  case (Cons m ms)
  show ?case
  proof (cases "activeTriggers (mutate m s) = activeTriggers s")
    case True
    then show ?thesis using Cons by simp
  next
    case False
    then have "activeTriggersHasChanged (mutate m s)" by (rule active_changed_mutate)
    then show ?thesis by (simp add: active_marked_fold)
  qed
qed

lemma bridge_marked_after:
  "UpdateBridgeStatus k (Some b) \<in> set ms \<Longrightarrow> k \<in> set (bridgeStatusesHasChanged (fold mutate ms s))"
proof (induction ms arbitrary: s)
  case Nil
  then show ?case by simp
next
  case (Cons m ms)
  show ?case
  proof (cases "m = UpdateBridgeStatus k (Some b)")
    case True
    have "k \<in> set (bridgeStatusesHasChanged (mutate m s))"
      unfolding True by (simp add: updateBridgeStatus_def mark_marks)
    then show ?thesis by (simp add: bridge_marked_fold)
  next
    case False
    then show ?thesis using Cons by simp
  qed
qed

lemma emitChanges_bridge:
  assumes "k \<in> set (bridgeStatusesHasChanged s)"
  shows "BridgeStatusEvent k (getBridgeStatus s k) \<in> set (emitted (timer_fires s))"
proof (cases "emitEverything s")
  case True
  have "k \<in> set (fold mark (map fst (bridgeStatuses s)) (bridgeStatusesHasChanged s))"
    using assms by (rule fold_mark_keeps)
  then show ?thesis
    using True by (simp add: timer_fires_def emitChanges_def getBridgeStatus_def Let_def)
next
  case False
  then show ?thesis
    using assms by (simp add: timer_fires_def emitChanges_def getBridgeStatus_def Let_def)
qed

lemma emitChanges_peripheral:
  assumes "k \<in> set (peripheralsHasChanged s)"
  shows "PeripheralEvent k (map_of (peripherals s) k) \<in> set (emitted (timer_fires s))"
proof (cases "emitEverything s")
  case True
  have "k \<in> set (fold mark (map fst (peripherals s)) (peripheralsHasChanged s))"
    using assms by (rule fold_mark_keeps)
  then show ?thesis
    using True by (simp add: timer_fires_def emitChanges_def Let_def)
next
  case False
  then show ?thesis
    using assms by (simp add: timer_fires_def emitChanges_def Let_def)
qed

lemma emitChanges_trigger:
  assumes "k \<in> set (allTriggersHasChanged s)"
  shows "AllTriggerEvent k (map_of (allTriggers s) k) \<in> set (emitted (timer_fires s))"
  using assms by (simp add: timer_fires_def emitChanges_def Let_def)

lemma emitChanges_active:
  assumes "activeTriggersHasChanged s"
  shows "ActiveTriggersEvent (map snd (activeTriggers s)) \<in> set (emitted (timer_fires s))"
  using assms by (simp add: timer_fires_def emitChanges_def Let_def)

lemma emitChanges_pass:
  assumes "\<not> emitEverything s"
  shows "emitted (timer_fires s) =
     emitted s
     @ map (\<lambda>k. ResourceEvent k (getResource s k)) (resourcesHasChanged s)
     @ map (\<lambda>k. BridgeStatusEvent k (getBridgeStatus s k)) (bridgeStatusesHasChanged s)
     @ map (\<lambda>k. PeripheralEvent k (map_of (peripherals s) k)) (peripheralsHasChanged s)
     @ map (\<lambda>k. AllTriggerEvent k (map_of (allTriggers s) k)) (allTriggersHasChanged s)
     @ (if activeTriggersHasChanged s
        then [ActiveTriggersEvent (map snd (activeTriggers s))] else [])"
  using assms
  by (simp add: timer_fires_def emitChanges_def Let_def getResource_def getBridgeStatus_def)


text \<open>
  Claim C9. The four mutators change the state at once: the getter called right after
  sees the new value (for a trigger, whether it is active). They emit nothing
  themselves. From a state without a pending timer, any number of mutations sets one
  timer. When it runs, one pass of \<open>emitChanges\<close> emits the changes: a resource that was
  updated and a bridge status that was set are reported, and so is every resource,
  bridge status, peripheral and trigger whose value the getters see changed, each with
  the value it has then; the list of active triggers is reported when it has changed.
  Unless everything is to be emitted, the pass emits exactly one event for each key that
  is marked as changed, in the order resources, bridge statuses, peripherals, triggers,
  active triggers. The pass clears the changed keys and sets no timer of its own.
\<close>

theorem session_updates_synchronous_and_batched:
  "getResource (updateResource ident resource s) ident = resource
   \<and> getBridgeStatus (updateBridgeStatus ident bridgeStatus s) ident = bridgeStatus
   \<and> getPeripheralStatus (updatePeripheralStatus bridgeId deviceId deviceName connected now s)
         bridgeId deviceId
       = Some \<lparr>per_id = deviceId, per_bridgeId = bridgeId, per_name = deviceName,
                per_lastConnected =
                  (if connected then now
                   else (case getPeripheralStatus s bridgeId deviceId of
                           None \<Rightarrow> 0 | Some e \<Rightarrow> per_lastConnected e)),
                per_connected = connected\<rparr>
   \<and> (map_of (activeTriggers (updatePeripheralTriggerStatus bridgeId deviceId identifier down s))
          (bridgeId @ ''-'' @ deviceId @ ''-'' @ identifier) \<noteq> None) = down
   \<and> (let after = fold mutate ms s in
       emitted after = emitted s
     \<and> (\<not> emitTimeout s \<and> ms \<noteq> []
          \<longrightarrow> emitTimeout after \<and> timersSet after = timersSet s + 1)
     \<and> (UpdateResource ident resource \<in> set ms
          \<longrightarrow> ResourceEvent ident (getResource after ident) \<in> set (emitted (timer_fires after)))
     \<and> (UpdateBridgeStatus bridge (Some status) \<in> set ms
          \<longrightarrow> BridgeStatusEvent bridge (getBridgeStatus after bridge)
                \<in> set (emitted (timer_fires after)))
     \<and> (getResource after rkey \<noteq> getResource s rkey
          \<longrightarrow> ResourceEvent rkey (getResource after rkey) \<in> set (emitted (timer_fires after)))
     \<and> (getBridgeStatus after bkey \<noteq> getBridgeStatus s bkey
          \<longrightarrow> BridgeStatusEvent bkey (getBridgeStatus after bkey)
                \<in> set (emitted (timer_fires after)))
     \<and> (getPeripheralStatus after bridgeId deviceId \<noteq> getPeripheralStatus s bridgeId deviceId
          \<longrightarrow> PeripheralEvent (bridgeId @ ''-'' @ deviceId)
                  (getPeripheralStatus after bridgeId deviceId)
                \<in> set (emitted (timer_fires after)))
     \<and> (map_of (allTriggers after) key \<noteq> map_of (allTriggers s) key
          \<longrightarrow> AllTriggerEvent key (map_of (allTriggers after) key)
                \<in> set (emitted (timer_fires after)))
     \<and> (activeTriggers after \<noteq> activeTriggers s
          \<longrightarrow> ActiveTriggersEvent (map snd (activeTriggers after))
                \<in> set (emitted (timer_fires after)))
     \<and> (\<not> emitEverything s
          \<longrightarrow> emitted (timer_fires after) =
               emitted s
               @ map (\<lambda>k. ResourceEvent k (getResource after k)) (resourcesHasChanged after)
               @ map (\<lambda>k. BridgeStatusEvent k (getBridgeStatus after k))
                   (bridgeStatusesHasChanged after)
               @ map (\<lambda>k. PeripheralEvent k (map_of (peripherals after) k))
                   (peripheralsHasChanged after)
               @ map (\<lambda>k. AllTriggerEvent k (map_of (allTriggers after) k))
                   (allTriggersHasChanged after)
               @ (if activeTriggersHasChanged after
                  then [ActiveTriggersEvent (map snd (activeTriggers after))] else []))
     \<and> \<not> emitTimeout (timer_fires after)
     \<and> timersSet (timer_fires after) = timersSet after
     \<and> resourcesHasChanged (timer_fires after) = []
     \<and> bridgeStatusesHasChanged (timer_fires after) = []
     \<and> peripheralsHasChanged (timer_fires after) = []
     \<and> allTriggersHasChanged (timer_fires after) = []
     \<and> \<not> activeTriggersHasChanged (timer_fires after))"
proof -
  let ?after = "fold mutate ms s"
  have g1: "getResource (updateResource ident resource s) ident = resource"
    by (cases resource)
       (simp_all add: getResource_def updateResource_def triggerUpdate_def update_conv'
          delete_conv')
  have g2: "getBridgeStatus (updateBridgeStatus ident bridgeStatus s) ident = bridgeStatus"
    by (cases bridgeStatus)
       (auto simp: getBridgeStatus_def updateBridgeStatus_def triggerUpdate_def update_conv'
          delete_conv')
  have g3: "getPeripheralStatus (updatePeripheralStatus bridgeId deviceId deviceName connected now s)
         bridgeId deviceId
       = Some \<lparr>per_id = deviceId, per_bridgeId = bridgeId, per_name = deviceName,
                per_lastConnected =
                  (if connected then now
                   else (case getPeripheralStatus s bridgeId deviceId of
                           None \<Rightarrow> 0 | Some e \<Rightarrow> per_lastConnected e)),
                per_connected = connected\<rparr>"
    by (simp add: getPeripheralStatus_def updatePeripheralStatus_def triggerUpdate_def
        update_conv' Let_def)
  have g4: "(map_of (activeTriggers (updatePeripheralTriggerStatus bridgeId deviceId identifier down s))
          (bridgeId @ ''-'' @ deviceId @ ''-'' @ identifier) \<noteq> None) = down"
    by (auto simp: updatePeripheralTriggerStatus_def triggerUpdate_def update_conv'
        delete_conv' Let_def)
  have quiet: "emitted ?after = emitted s"
    by (rule emitted_fold_mutate)
  have timer: "\<not> emitTimeout s \<and> ms \<noteq> []
                 \<longrightarrow> emitTimeout ?after \<and> timersSet ?after = timersSet s + 1"
    using timer_fold_mutate [of s ms] by blast
  have r1: "UpdateResource ident resource \<in> set ms
              \<longrightarrow> ResourceEvent ident (getResource ?after ident) \<in> set (emitted (timer_fires ?after))"
    using resource_marked_after [of ident resource ms s] emitChanges_resources [of ident ?after]
    by blast
  have b1: "UpdateBridgeStatus bridge (Some status) \<in> set ms
              \<longrightarrow> BridgeStatusEvent bridge (getBridgeStatus ?after bridge)
                    \<in> set (emitted (timer_fires ?after))"
    using bridge_marked_after [of bridge status ms s] emitChanges_bridge [of bridge ?after]
    by blast
  have r2: "getResource ?after rkey \<noteq> getResource s rkey
              \<longrightarrow> ResourceEvent rkey (getResource ?after rkey) \<in> set (emitted (timer_fires ?after))"
    using resource_changed_fold [of ms s rkey] emitChanges_resources [of rkey ?after]
    by (auto simp: getResource_def)
  have b2: "getBridgeStatus ?after bkey \<noteq> getBridgeStatus s bkey
              \<longrightarrow> BridgeStatusEvent bkey (getBridgeStatus ?after bkey)
                    \<in> set (emitted (timer_fires ?after))"
    using bridge_changed_fold [of ms s bkey] emitChanges_bridge [of bkey ?after]
    by (auto simp: getBridgeStatus_def)
  have p2: "getPeripheralStatus ?after bridgeId deviceId \<noteq> getPeripheralStatus s bridgeId deviceId
              \<longrightarrow> PeripheralEvent (bridgeId @ ''-'' @ deviceId)
                      (getPeripheralStatus ?after bridgeId deviceId)
                    \<in> set (emitted (timer_fires ?after))"
    using peripheral_changed_fold [of ms s "bridgeId @ ''-'' @ deviceId"]
      emitChanges_peripheral [of "bridgeId @ ''-'' @ deviceId" ?after]
    by (auto simp: getPeripheralStatus_def)
  have t2: "map_of (allTriggers ?after) key \<noteq> map_of (allTriggers s) key
              \<longrightarrow> AllTriggerEvent key (map_of (allTriggers ?after) key)
                    \<in> set (emitted (timer_fires ?after))"
    using trigger_changed_fold [of ms s key] emitChanges_trigger [of key ?after] by blast
  have a2: "activeTriggers ?after \<noteq> activeTriggers s
              \<longrightarrow> ActiveTriggersEvent (map snd (activeTriggers ?after))
                    \<in> set (emitted (timer_fires ?after))"
    using active_changed_fold [of ms s] emitChanges_active [of ?after] by blast
  have pass: "\<not> emitEverything s
          \<longrightarrow> emitted (timer_fires ?after) =
               emitted s
               @ map (\<lambda>k. ResourceEvent k (getResource ?after k)) (resourcesHasChanged ?after)
               @ map (\<lambda>k. BridgeStatusEvent k (getBridgeStatus ?after k))
                   (bridgeStatusesHasChanged ?after)
               @ map (\<lambda>k. PeripheralEvent k (map_of (peripherals ?after) k))
                   (peripheralsHasChanged ?after)
               @ map (\<lambda>k. AllTriggerEvent k (map_of (allTriggers ?after) k))
                   (allTriggersHasChanged ?after)
               @ (if activeTriggersHasChanged ?after
                  then [ActiveTriggersEvent (map snd (activeTriggers ?after))] else [])"
    using emitChanges_pass [of ?after] by (simp add: emitEverything_fold_mutate quiet)
  have t: "\<not> emitTimeout (timer_fires x) \<and> timersSet (timer_fires x) = timersSet x
     \<and> resourcesHasChanged (timer_fires x) = [] \<and> bridgeStatusesHasChanged (timer_fires x) = []
     \<and> peripheralsHasChanged (timer_fires x) = [] \<and> allTriggersHasChanged (timer_fires x) = []
     \<and> \<not> activeTriggersHasChanged (timer_fires x)" for x :: "('a, 'b) SessionHandler"
    by (simp add: timer_fires_def emitChanges_def Let_def)
  show ?thesis
    unfolding Let_def
    using g1 g2 g3 g4 quiet timer r1 b1 r2 b2 p2 t2 a2 pass t [of ?after]
    by (intro conjI) blast+
qed

theorem session_updates_synchronous_and_batched_witness:
  "\<not> emitTimeout empty_session \<and> sample_mutations \<noteq> [] \<and> \<not> emitEverything empty_session
   \<and> UpdateResource ''clip'' (Some ''v2'') \<in> set sample_mutations
   \<and> UpdateBridgeStatus ''b1'' (Some ''up'') \<in> set sample_mutations
   \<and> getResource (fold mutate sample_mutations empty_session) ''clip'' = Some ''v2''
   \<and> getResource (fold mutate sample_mutations empty_session) ''clip''
       \<noteq> getResource empty_session ''clip''
   \<and> getBridgeStatus (fold mutate sample_mutations empty_session) ''b1''
       \<noteq> getBridgeStatus empty_session ''b1''
   \<and> getPeripheralStatus (fold mutate sample_mutations empty_session) ''b1'' ''d1''
       \<noteq> getPeripheralStatus empty_session ''b1'' ''d1''
   \<and> map_of (allTriggers (fold mutate sample_mutations empty_session)) ''b1-d1-key''
       \<noteq> map_of (allTriggers empty_session) ''b1-d1-key''
   \<and> activeTriggers (fold mutate sample_mutations empty_session) \<noteq> activeTriggers empty_session
   \<and> emitted (fold mutate sample_mutations empty_session) = []
   \<and> timersSet (fold mutate sample_mutations empty_session) = 1
   \<and> emitted (timer_fires (fold mutate sample_mutations empty_session))
       = [ResourceEvent ''clip'' (Some ''v2''),
          BridgeStatusEvent ''b1'' (Some ''up''),
          PeripheralEvent ''b1-d1''
            (Some \<lparr>per_id = ''d1'', per_bridgeId = ''b1'', per_name = ''deck'',
                    per_lastConnected = 100, per_connected = True\<rparr>),
          AllTriggerEvent ''b1-d1-key''
            (Some \<lparr>trg_fullIdentifier = ''b1-d1-key'', trg_bridgeId = ''b1'',
                    trg_deviceId = ''d1'', trg_deviceName = ''deck'', trg_identifier = ''key''\<rparr>),
          ActiveTriggersEvent
            [\<lparr>trg_fullIdentifier = ''b1-d1-key'', trg_bridgeId = ''b1'',
              trg_deviceId = ''d1'', trg_deviceName = ''deck'', trg_identifier = ''key''\<rparr>]]"
proof -
  have h: "\<not> emitTimeout empty_session \<and> sample_mutations \<noteq> [] \<and> \<not> emitEverything empty_session
           \<and> UpdateResource ''clip'' (Some ''v2'') \<in> set sample_mutations
           \<and> UpdateBridgeStatus ''b1'' (Some ''up'') \<in> set sample_mutations"
    by (simp add: empty_session_def sample_mutations_def)
  have v: "fold mutate sample_mutations empty_session =
     \<lparr>resources = [(''clip'', ''v2'')], resourcesHasChanged = [''clip''],
      bridgeStatuses = [(''b1'', ''up'')], bridgeStatusesHasChanged = [''b1''],
      peripherals = [(''b1-d1'', \<lparr>per_id = ''d1'', per_bridgeId = ''b1'', per_name = ''deck'',
                                  per_lastConnected = 100, per_connected = True\<rparr>)],
      peripheralsHasChanged = [''b1-d1''],
      allTriggers = [(''b1-d1-key'', \<lparr>trg_fullIdentifier = ''b1-d1-key'', trg_bridgeId = ''b1'',
                    trg_deviceId = ''d1'', trg_deviceName = ''deck'', trg_identifier = ''key''\<rparr>)],
      allTriggersHasChanged = [''b1-d1-key''],
      activeTriggers = [(''b1-d1-key'', \<lparr>trg_fullIdentifier = ''b1-d1-key'', trg_bridgeId = ''b1'',
                    trg_deviceId = ''d1'', trg_deviceName = ''deck'', trg_identifier = ''key''\<rparr>)],
      activeTriggersHasChanged = True, emitTimeout = True, emitEverything = False,
      emitted = [], timersSet = 1\<rparr>"
    by (simp add: sample_mutations_def empty_session_def updateResource_def
        updateBridgeStatus_def updatePeripheralStatus_def updatePeripheralTriggerStatus_def
        triggerUpdate_def mark_def Let_def)
  have e: "emitted empty_session = []" "timersSet empty_session = 0"
    "getPeripheralStatus empty_session ''b1'' ''d1'' = None"
    "getResource empty_session ''clip'' = None" "getBridgeStatus empty_session ''b1'' = None"
    "allTriggers empty_session = []" "activeTriggers empty_session = []"
    by (simp_all add: empty_session_def getPeripheralStatus_def getResource_def
        getBridgeStatus_def)
  show ?thesis
    using h e session_updates_synchronous_and_batched [of "''clip''" "Some ''v2''" empty_session
        "Some ''up''" "''b1''" "''d1''" "''deck''" True 100 "''key''" True sample_mutations
        "''b1''" "''up''" "''clip''" "''b1''" "''b1-d1-key''"]
    unfolding Let_def v
    by (simp add: getResource_def getBridgeStatus_def getPeripheralStatus_def)
qed

end
